theory Spec2Isabelle
  imports Complex_Main "HOL-Library.Word"
begin

section \<open>Unscented Kalman filter of \<^verbatim>\<open>src/ukf.cpp\<close>\<close>

text \<open>
  The development embeds the member functions of class \<^verbatim>\<open>UKF\<close>. A C++ \<^verbatim>\<open>double\<close> is a
  \<^typ>\<open>real\<close> here and \<^verbatim>\<open>M_PI\<close> is \<^term>\<open>pi\<close>: rounding, overflow, underflow and signed
  zeros are outside the model. The timestamps are 64-bit machine integers, \<^typ>\<open>64 word\<close>: their
  difference wraps around and is read as a signed number. A member \<^verbatim>\<open>foo_\<close> of the class is
  the record field \<open>foo_m\<close> (an identifier cannot end with an underscore).
\<close>

subsection \<open>Dense vectors and matrices (Eigen's \<^verbatim>\<open>VectorXd\<close> and \<^verbatim>\<open>MatrixXd\<close>)\<close>

text \<open>A vector is the list of its coefficients, a matrix the list of its rows.\<close>

type_synonym vector = "real list"
type_synonym matrix = "real list list"

definition sized :: "nat \<Rightarrow> nat \<Rightarrow> matrix \<Rightarrow> bool" where
  "sized r c M \<longleftrightarrow> length M = r \<and> (\<forall>row \<in> set M. length row = c)"

definition cols :: "matrix \<Rightarrow> nat" where
  "cols M = (case M of [] \<Rightarrow> 0 | row # _ \<Rightarrow> length row)"

text \<open>\<^verbatim>\<open>M.col(j)\<close> and the assignment \<^verbatim>\<open>M.col(j) = v\<close>.\<close>

definition col :: "matrix \<Rightarrow> nat \<Rightarrow> vector" where
  "col M j = map (\<lambda>row. row ! j) M"

definition set_col :: "matrix \<Rightarrow> nat \<Rightarrow> vector \<Rightarrow> matrix" where
  "set_col M j v = map2 (\<lambda>row a. row[j := a]) M v"

text \<open>\<^verbatim>\<open>v.fill(c)\<close> and \<^verbatim>\<open>M.fill(c)\<close> keep the size of the object.\<close>

definition vec_fill :: "vector \<Rightarrow> real \<Rightarrow> vector" where
  "vec_fill v c = map (\<lambda>_. c) v"

definition mat_fill :: "matrix \<Rightarrow> real \<Rightarrow> matrix" where
  "mat_fill M c = map (\<lambda>row. vec_fill row c) M"

definition vec_add :: "vector \<Rightarrow> vector \<Rightarrow> vector" where
  "vec_add a b = map2 (+) a b"

definition vec_sub :: "vector \<Rightarrow> vector \<Rightarrow> vector" where
  "vec_sub a b = map2 (-) a b"

definition vec_scale :: "real \<Rightarrow> vector \<Rightarrow> vector" where
  "vec_scale c a = map (\<lambda>t. c * t) a"

definition mat_add :: "matrix \<Rightarrow> matrix \<Rightarrow> matrix" where
  "mat_add A B = map2 vec_add A B"

definition mat_sub :: "matrix \<Rightarrow> matrix \<Rightarrow> matrix" where
  "mat_sub A B = map2 vec_sub A B"

definition mat_scale :: "real \<Rightarrow> matrix \<Rightarrow> matrix" where
  "mat_scale c A = map (vec_scale c) A"

text \<open>\<^verbatim>\<open>a * b.transpose()\<close> for two vectors.\<close>

definition outer :: "vector \<Rightarrow> vector \<Rightarrow> matrix" where
  "outer a b = map (\<lambda>s. map (\<lambda>t. s * t) b) a"

definition mat_transpose :: "matrix \<Rightarrow> matrix" where
  "mat_transpose A = map (\<lambda>j. col A j) [0..<cols A]"

definition dot :: "vector \<Rightarrow> vector \<Rightarrow> real" where
  "dot a b = (\<Sum>k<length a. a ! k * b ! k)"

definition mat_vec :: "matrix \<Rightarrow> vector \<Rightarrow> vector" where
  "mat_vec A v = map (\<lambda>row. dot row v) A"

definition mat_mul :: "matrix \<Rightarrow> matrix \<Rightarrow> matrix" where
  "mat_mul A B = map (\<lambda>row. map (\<lambda>j. dot row (col B j)) [0..<cols B]) A"

definition mat_identity :: "nat \<Rightarrow> matrix" where
  "mat_identity n = map (\<lambda>i. map (\<lambda>j. if i = j then 1 else 0) [0..<n]) [0..<n]"

subsection \<open>Where the C++ leaves real arithmetic\<close>

text \<open>
  Every member function is declared \<^verbatim>\<open>void\<close> and nothing is thrown: the source has no
  error channel. The two updates either return with values that real arithmetic describes
  (\<open>Returns\<close>), or they reach one of the points below, where a real number is divided by 0
  or Eigen's precondition on sizes is broken; the C++ goes on computing and returns all the
  same, with IEEE infinities and NaNs, or with the effect of an Eigen size or index
  assertion (an abort when assertions are compiled in, undefined behaviour otherwise). The
  model does not describe these values (\<open>Indeterminate\<close>); the fault named is the first one
  met in program order. A failed Cholesky factorisation is not such a point: it leaves
  ordinary numbers behind, and the prediction is a total function.
\<close>

datatype fault =
    Singular_inverse    \<comment> \<open>\<^verbatim>\<open>inverse()\<close> of a singular matrix\<close>
  | Zero_range          \<comment> \<open>division by the range \<^verbatim>\<open>sqrt(p_x*p_x + p_y*p_y)\<close> when it is 0\<close>
  | Eigen_assert        \<comment> \<open>coefficient index out of range, or operands of different sizes\<close>

datatype 'a outcome = Returns 'a | Indeterminate fault

definition and_then :: "'a outcome \<Rightarrow> ('a \<Rightarrow> 'b outcome) \<Rightarrow> 'b outcome" where
  "and_then r f = (case r of Returns v \<Rightarrow> f v | Indeterminate e \<Rightarrow> Indeterminate e)"

subsection \<open>Library routines\<close>

text \<open>
  \<^verbatim>\<open>A.llt()\<close> is Eigen's Cholesky factorisation, library code outside the repository. For a
  matrix of fewer than 32 rows it copies \<open>A\<close> and runs the unblocked in-place algorithm on
  the lower triangle of the copy, one column after the other. At column \<open>k\<close> the pivot is
  \<open>x = mat(k,k) - |mat(k,0..k-1)|\<^sup>2\<close>; if \<open>x \<le> 0\<close> the algorithm returns \<open>k\<close> at once and
  \<^verbatim>\<open>info()\<close> becomes \<^verbatim>\<open>NumericalIssue\<close>, the columns from \<open>k\<close> on still holding the
  coefficients of \<open>A\<close>; otherwise \<open>mat(k,k)\<close> becomes \<open>sqrt x\<close> and the rest of the column is
  updated and divided by it. With all pivots positive the lower triangle holds the factor
  \<open>L\<close>, \<open>L * L\<^sup>T = A\<close>, and \<^verbatim>\<open>info()\<close> is \<^verbatim>\<open>Success\<close>.
\<close>

datatype ComputationInfo = Success | NumericalIssue

definition llt_pivot :: "matrix \<Rightarrow> nat \<Rightarrow> real" where
  "llt_pivot mat k = mat ! k ! k - (\<Sum>j<k. mat ! k ! j * mat ! k ! j)"

definition llt_column :: "matrix \<Rightarrow> nat \<Rightarrow> matrix" where
  "llt_column mat k =
     (let x = sqrt (llt_pivot mat k)
      in map (\<lambda>i. if i = k then (mat ! i)[k := x]
                  else if k < i
                  then (mat ! i)[k := (mat ! i ! k - (\<Sum>j<k. mat ! i ! j * mat ! k ! j)) / x]
                  else mat ! i)
           [0..<length mat])"

text \<open>The loop over the columns; the second component is the pivot the loop stopped at.\<close>

definition llt_inplace :: "matrix \<Rightarrow> matrix \<times> nat option" where
  "llt_inplace A =
     fold (\<lambda>k (mat, stopped).
             case stopped of
               Some _ \<Rightarrow> (mat, stopped)
             | None \<Rightarrow> if llt_pivot mat k \<le> 0 then (mat, Some k) else (llt_column mat k, None))
       [0..<length A] (A, None)"

text \<open>The decomposition object: the matrix it holds, and \<^verbatim>\<open>info()\<close>.\<close>

definition llt :: "matrix \<Rightarrow> matrix \<times> ComputationInfo" where
  "llt A = (case llt_inplace A of
              (mat, None) \<Rightarrow> (mat, Success)
            | (mat, Some _) \<Rightarrow> (mat, NumericalIssue))"

text \<open>\<^verbatim>\<open>matrixL()\<close> assigned to a matrix: the lower triangle of what the decomposition holds,
  with zeros above the diagonal. It does not look at \<^verbatim>\<open>info()\<close>.\<close>

definition matrixL :: "matrix \<times> ComputationInfo \<Rightarrow> matrix" where
  "matrixL d = map (\<lambda>i. map (\<lambda>j. if j \<le> i then fst d ! i ! j else 0) [0..<length (fst d)])
                 [0..<length (fst d)]"

text \<open>
  \<^verbatim>\<open>S.inverse()\<close> on the 2x2 matrix of the lidar update and on the 3x3 matrix of the radar
  update: the inverse when the determinant is not 0; on a singular matrix Eigen divides by
  a zero pivot and returns infinities and NaNs (\<open>None\<close> here).
\<close>

definition inverse2 :: "matrix \<Rightarrow> matrix option" where
  "inverse2 S =
     (let a = S ! 0 ! 0; b = S ! 0 ! 1; c = S ! 1 ! 0; d = S ! 1 ! 1;
          det = a * d - b * c
      in if det = 0 then None
         else Some [[d / det, - b / det], [- c / det, a / det]])"

definition det3 :: "matrix \<Rightarrow> real" where
  "det3 S = S ! 0 ! 0 * (S ! 1 ! 1 * S ! 2 ! 2 - S ! 1 ! 2 * S ! 2 ! 1)
          - S ! 0 ! 1 * (S ! 1 ! 0 * S ! 2 ! 2 - S ! 1 ! 2 * S ! 2 ! 0)
          + S ! 0 ! 2 * (S ! 1 ! 0 * S ! 2 ! 1 - S ! 1 ! 1 * S ! 2 ! 0)"

definition inverse3 :: "matrix \<Rightarrow> matrix option" where
  "inverse3 S =
     (let det = det3 S
      in if det = 0 then None
         else Some
           [[(S ! 1 ! 1 * S ! 2 ! 2 - S ! 1 ! 2 * S ! 2 ! 1) / det,
             (S ! 0 ! 2 * S ! 2 ! 1 - S ! 0 ! 1 * S ! 2 ! 2) / det,
             (S ! 0 ! 1 * S ! 1 ! 2 - S ! 0 ! 2 * S ! 1 ! 1) / det],
            [(S ! 1 ! 2 * S ! 2 ! 0 - S ! 1 ! 0 * S ! 2 ! 2) / det,
             (S ! 0 ! 0 * S ! 2 ! 2 - S ! 0 ! 2 * S ! 2 ! 0) / det,
             (S ! 0 ! 2 * S ! 1 ! 0 - S ! 0 ! 0 * S ! 1 ! 2) / det],
            [(S ! 1 ! 0 * S ! 2 ! 1 - S ! 1 ! 1 * S ! 2 ! 0) / det,
             (S ! 0 ! 1 * S ! 2 ! 0 - S ! 0 ! 0 * S ! 2 ! 1) / det,
             (S ! 0 ! 0 * S ! 1 ! 1 - S ! 0 ! 1 * S ! 1 ! 0) / det]])"

text \<open>The C library's \<^verbatim>\<open>atan2(y, x)\<close>, with \<^verbatim>\<open>atan2(0, 0) = 0\<close>.\<close>

definition atan2 :: "real \<Rightarrow> real \<Rightarrow> real" where
  "atan2 y x =
     (if 0 < x then arctan (y / x)
      else if x < 0 \<and> 0 \<le> y then arctan (y / x) + pi
      else if x < 0 then arctan (y / x) - pi
      else if 0 < y then pi / 2
      else if y < 0 then - (pi / 2)
      else 0)"

subsection \<open>Angle normalisation\<close>

text \<open>
  The two loops written out at every angle difference of the source:
  \<^verbatim>\<open>while (a > M_PI) a -= 2.*M_PI;  while (a < -M_PI) a += 2.*M_PI;\<close>
\<close>

function wrap_down :: "real \<Rightarrow> real" where
  "wrap_down a = (if a > pi then wrap_down (a - 2 * pi) else a)"
  by pat_completeness auto
termination
proof (relation "measure (\<lambda>a. nat \<lceil>(a - pi) / (2 * pi)\<rceil>)")
  show "wf (measure (\<lambda>a. nat \<lceil>(a - pi) / (2 * pi)\<rceil>))"
    by simp
next
  fix a :: real
  assume gt: "pi < a"
  have shift: "(a - 2 * pi - pi) / (2 * pi) = (a - pi) / (2 * pi) - 1"
    by (simp add: field_simps)
  have pos: "0 < (a - pi) / (2 * pi)"
    using gt by simp
  then have "1 \<le> \<lceil>(a - pi) / (2 * pi)\<rceil>"
    by linarith
  moreover have "\<lceil>(a - 2 * pi - pi) / (2 * pi)\<rceil> = \<lceil>(a - pi) / (2 * pi)\<rceil> - 1"
    unfolding shift by simp
  ultimately have "nat \<lceil>(a - 2 * pi - pi) / (2 * pi)\<rceil> < nat \<lceil>(a - pi) / (2 * pi)\<rceil>"
    by linarith
  then show "(a - 2 * pi, a) \<in> measure (\<lambda>a. nat \<lceil>(a - pi) / (2 * pi)\<rceil>)"
    unfolding in_measure .
qed

function wrap_up :: "real \<Rightarrow> real" where
  "wrap_up a = (if a < - pi then wrap_up (a + 2 * pi) else a)"
  by pat_completeness auto
termination
proof (relation "measure (\<lambda>a. nat \<lceil>(- pi - a) / (2 * pi)\<rceil>)")
  show "wf (measure (\<lambda>a. nat \<lceil>(- pi - a) / (2 * pi)\<rceil>))"
    by simp
next
  fix a :: real
  assume lt: "a < - pi"
  have shift: "(- pi - (a + 2 * pi)) / (2 * pi) = (- pi - a) / (2 * pi) - 1"
    by (simp add: field_simps)
  have pos: "0 < (- pi - a) / (2 * pi)"
    using lt by simp
  then have "1 \<le> \<lceil>(- pi - a) / (2 * pi)\<rceil>"
    by linarith
  moreover have "\<lceil>(- pi - (a + 2 * pi)) / (2 * pi)\<rceil> = \<lceil>(- pi - a) / (2 * pi)\<rceil> - 1"
    unfolding shift by simp
  ultimately have "nat \<lceil>(- pi - (a + 2 * pi)) / (2 * pi)\<rceil> < nat \<lceil>(- pi - a) / (2 * pi)\<rceil>"
    by linarith
  then show "(a + 2 * pi, a) \<in> measure (\<lambda>a. nat \<lceil>(- pi - a) / (2 * pi)\<rceil>)"
    unfolding in_measure .
qed

declare wrap_down.simps [simp del] wrap_up.simps [simp del]

definition normalize_angle :: "real \<Rightarrow> real" where
  "normalize_angle a = wrap_up (wrap_down a)"

text \<open>The same two loops on coefficient \<open>k\<close> of a difference vector.\<close>

definition normalize_at :: "nat \<Rightarrow> vector \<Rightarrow> vector" where
  "normalize_at k d = d[k := normalize_angle (d ! k)]"

text \<open>A difference \<^verbatim>\<open>a - b\<close> of two vectors followed by the two loops on its coefficient \<open>k\<close>:
  the pattern of lines 232-236, 294-298, 311-314, 317-320 and 329-333.\<close>

definition normalized_difference :: "nat \<Rightarrow> vector \<Rightarrow> vector \<Rightarrow> vector" where
  "normalized_difference k a b = normalize_at k (vec_sub a b)"

subsection \<open>The filter object and the measurement record\<close>

text \<open>
  Modelled from the spec: the declarations of the headers \<^verbatim>\<open>measurement_package.h\<close> and
  \<^verbatim>\<open>ukf.h\<close>, which are missing. The members are those \<^verbatim>\<open>ukf.cpp\<close> uses. A measurement record
  carries a timestamp in integer microseconds, one of the two sensor types the source names,
  and the vector of raw measurements. The timestamp, like the reference time \<^verbatim>\<open>time_us_\<close> of
  the filter, is a signed 64-bit integer (\<^verbatim>\<open>long long\<close>).
\<close>

datatype SensorType = LASER | RADAR

record MeasurementPackage =
  timestamp_m :: "64 word"
  sensor_type_m :: SensorType
  raw_measurements_m :: vector

text \<open>
  Modelled from the spec: the declaration of \<^verbatim>\<open>lambda_\<close> in \<^verbatim>\<open>ukf.h\<close>, which is missing. The
  spread parameter is a scalar from which weights summing to 1 are computed, so the member
  is a \<^verbatim>\<open>double\<close> (an \<^verbatim>\<open>int\<close> member would turn \<^verbatim>\<open>1/(2*(lambda_+n_aug_))\<close> into an integer
  division). The dimensions \<^verbatim>\<open>n_x_\<close>, \<^verbatim>\<open>n_aug_\<close> and \<^verbatim>\<open>n_z_\<close> are C++ \<^verbatim>\<open>int\<close>s that only
  ever hold 5, 7 and 3; they are naturals here, and \<^verbatim>\<open>3 - n_aug_\<close> is computed in the
  integers as in the source.
\<close>

record UKF =
  is_initialized_m :: bool
  use_laser_m :: bool
  use_radar_m :: bool
  x_m :: vector
  P_m :: matrix
  Xsig_pred_m :: matrix
  time_us_m :: "64 word"
  std_a_m :: real
  std_yawdd_m :: real
  std_laspx_m :: real
  std_laspy_m :: real
  std_radr_m :: real
  std_radphi_m :: real
  std_radrd_m :: real
  weights_m :: vector
  n_x_m :: nat
  n_aug_m :: nat
  lambda_m :: real
  Lidar_H_m :: matrix
  Lidar_R_m :: matrix
  n_z_m :: nat
  Radar_R_m :: matrix

text \<open>\<^verbatim>\<open>VectorXd(n)\<close> and \<^verbatim>\<open>MatrixXd(r, c)\<close> where every coefficient is written before it is read.\<close>

definition vec_new :: "nat \<Rightarrow> vector" where
  "vec_new n = replicate n 0"

definition mat_new :: "nat \<Rightarrow> nat \<Rightarrow> matrix" where
  "mat_new r c = replicate r (replicate c 0)"

text \<open>The assignment \<^verbatim>\<open>M(i, j) = a\<close>.\<close>

definition set_coeff :: "matrix \<Rightarrow> nat \<Rightarrow> nat \<Rightarrow> real \<Rightarrow> matrix" where
  "set_coeff M i j a = M[i := (M ! i)[j := a]]"

text \<open>
  \<^verbatim>\<open>UKF::UKF()\<close>. The constructor allocates \<^verbatim>\<open>x_\<close> (5), \<^verbatim>\<open>P_\<close> (5x5) and \<^verbatim>\<open>Xsig_pred_\<close>
  (5x15) without writing to them and never assigns \<^verbatim>\<open>time_us_\<close>: \<open>x0\<close>, \<open>P0\<close>, \<open>Xsig0\<close> and
  \<open>t0\<close> are what these members happen to hold.
\<close>

definition UKF_ctor :: "vector \<Rightarrow> matrix \<Rightarrow> matrix \<Rightarrow> 64 word \<Rightarrow> UKF" where
  "UKF_ctor x0 P0 Xsig0 t0 =
     (let n_x = 5;
          n_aug = 7;
          lambda = real_of_int (3 - int n_aug);
          std_laspx = 0.15;
          std_laspy = 0.15;
          std_radr = 0.3;
          std_radphi = 0.03;
          std_radrd = 0.3
      in \<lparr> is_initialized_m = False,
           use_laser_m = True,
           use_radar_m = True,
           x_m = x0,
           P_m = P0,
           Xsig_pred_m = Xsig0,
           time_us_m = t0,
           std_a_m = 2.0,
           std_yawdd_m = 2.0,
           std_laspx_m = std_laspx,
           std_laspy_m = std_laspy,
           std_radr_m = std_radr,
           std_radphi_m = std_radphi,
           std_radrd_m = std_radrd,
           weights_m = (vec_fill (vec_new (2 * n_aug + 1)) (1 / (2 * (lambda + real n_aug))))
                         [0 := lambda / (lambda + real n_aug)],
           n_x_m = n_x,
           n_aug_m = n_aug,
           lambda_m = lambda,
           Lidar_H_m = set_coeff (set_coeff (mat_fill (mat_new 2 n_x) 0.0) 0 0 1) 1 1 1,
           Lidar_R_m = set_coeff (set_coeff (mat_fill (mat_new 2 2) 0.0) 0 0 (std_laspx * std_laspx))
                         1 1 (std_laspy * std_laspy),
           n_z_m = 3,
           Radar_R_m = [[std_radr * std_radr, 0, 0],
                        [0, std_radphi * std_radphi, 0],
                        [0, 0, std_radrd * std_radrd]] \<rparr>)"

text \<open>
  The class invariant the constructor sets up: the members that no member function writes
  hold what the constructor gave them (the two fusion flags are public and may be changed
  by the caller), and the state vector and the two state matrices have their allocated
  sizes.
\<close>

definition configured :: "UKF \<Rightarrow> bool" where
  "configured s \<longleftrightarrow>
     s\<lparr>is_initialized_m := False, use_laser_m := True, use_radar_m := True\<rparr>
       = UKF_ctor (x_m s) (P_m s) (Xsig_pred_m s) (time_us_m s)
     \<and> length (x_m s) = 5 \<and> sized 5 5 (P_m s) \<and> sized 5 15 (Xsig_pred_m s)"

subsection \<open>Prediction\<close>

text \<open>The augmented mean and covariance, lines 153-163.\<close>

definition augmented_mean :: "UKF \<Rightarrow> vector" where
  "augmented_mean s = map (\<lambda>i. if i < 5 then x_m s ! i else 0) [0..<n_aug_m s]"

definition augmented_covariance :: "UKF \<Rightarrow> matrix" where
  "augmented_covariance s =
     map (\<lambda>i. map (\<lambda>j.
            if i < 5 \<and> j < 5 then P_m s ! i ! j
            else if i = 5 \<and> j = 5 then std_a_m s * std_a_m s
            else if i = 6 \<and> j = 6 then std_yawdd_m s * std_yawdd_m s
            else 0.0) [0..<n_aug_m s]) [0..<n_aug_m s]"

text \<open>\<^verbatim>\<open>UKF::GenerateSigmaPoints\<close>; the result is the matrix \<^verbatim>\<open>Xsig_aug\<close> it fills. Line 166
  takes \<^verbatim>\<open>matrixL()\<close> of the decomposition and never reads \<^verbatim>\<open>info()\<close>.\<close>

definition GenerateSigmaPoints :: "UKF \<Rightarrow> matrix" where
  "GenerateSigmaPoints s =
     (let n_aug = n_aug_m s;
          x_aug = augmented_mean s;
          P_aug = augmented_covariance s;
          P_aug_root = matrixL (llt P_aug)
      in fold (\<lambda>i Xsig_aug.
                 set_col
                   (set_col Xsig_aug (i + 1)
                      (vec_add x_aug (vec_scale (sqrt (lambda_m s + real n_aug)) (col P_aug_root i))))
                   (i + 1 + n_aug)
                   (vec_sub x_aug (vec_scale (sqrt (lambda_m s + real n_aug)) (col P_aug_root i))))
           [0..<n_aug]
           (set_col (mat_new n_aug (2 * n_aug + 1)) 0 x_aug))"

text \<open>The two position updates of the motion model, lines 193-194 and 197-198.\<close>

definition curved_path :: "real \<Rightarrow> real \<Rightarrow> real \<Rightarrow> real \<Rightarrow> real \<Rightarrow> real \<Rightarrow> real \<times> real" where
  "curved_path px py v yaw yawd delta_t =
     (px + v / yawd * (sin (yaw + yawd * delta_t) - sin yaw),
      py + v / yawd * (- 1 * cos (yaw + yawd * delta_t) + cos yaw))"

definition straight_line :: "real \<Rightarrow> real \<Rightarrow> real \<Rightarrow> real \<Rightarrow> real \<Rightarrow> real \<times> real" where
  "straight_line px py v yaw delta_t =
     (px + v * cos yaw * delta_t, py + v * sin yaw * delta_t)"

text \<open>The body of the loop of \<^verbatim>\<open>UKF::SigmaPointsPrediction\<close>: one augmented sigma point in,
  one predicted sigma point out.\<close>

definition predict_sigma_point :: "real \<Rightarrow> vector \<Rightarrow> vector" where
  "predict_sigma_point delta_t c =
     (let px = c ! 0; py = c ! 1; v = c ! 2; yaw = c ! 3; yawd = c ! 4;
          nu_a = c ! 5; nu_yawdd = c ! 6;
          (px_pred, py_pred) =
            (if \<bar>yawd\<bar> > 0.001 then curved_path px py v yaw yawd delta_t
             else straight_line px py v yaw delta_t);
          v_pred = v;
          yaw_pred = yaw + yawd * delta_t;
          yawd_pred = yawd
      in [px_pred + 0.5 * delta_t * delta_t * cos yaw * nu_a,
          py_pred + 0.5 * delta_t * delta_t * sin yaw * nu_a,
          v_pred + delta_t * nu_a,
          yaw_pred + 0.5 * delta_t * delta_t * nu_yawdd,
          yawd_pred + delta_t * nu_yawdd])"

definition SigmaPointsPrediction :: "matrix \<Rightarrow> real \<Rightarrow> UKF \<Rightarrow> UKF" where
  "SigmaPointsPrediction Xsig_aug delta_t s =
     s\<lparr>Xsig_pred_m :=
         fold (\<lambda>i X. set_col X i (predict_sigma_point delta_t (col Xsig_aug i)))
           [0..<2 * n_aug_m s + 1] (Xsig_pred_m s)\<rparr>"

text \<open>The difference of line 232 with its heading normalised (lines 235-236), also computed
  at lines 317-320.\<close>

definition x_diff_of :: "matrix \<Rightarrow> vector \<Rightarrow> nat \<Rightarrow> vector" where
  "x_diff_of Xsig_pred x i = normalized_difference 3 (col Xsig_pred i) x"

text \<open>\<^verbatim>\<open>UKF::PredictMeanAndCovariance\<close>, its two loops.\<close>

definition predicted_mean :: "UKF \<Rightarrow> vector" where
  "predicted_mean s =
     fold (\<lambda>i x. vec_add x (vec_scale (weights_m s ! i) (col (Xsig_pred_m s) i)))
       [0..<2 * n_aug_m s + 1] (vec_fill (x_m s) 0.0)"

definition predicted_covariance :: "UKF \<Rightarrow> vector \<Rightarrow> matrix" where
  "predicted_covariance s x =
     fold (\<lambda>i P. let x_diff = x_diff_of (Xsig_pred_m s) x i
                  in mat_add P (outer (vec_scale (weights_m s ! i) x_diff) x_diff))
       [0..<2 * n_aug_m s + 1] (mat_fill (P_m s) 0.0)"

definition PredictMeanAndCovariance :: "UKF \<Rightarrow> UKF" where
  "PredictMeanAndCovariance s =
     (let x = predicted_mean s
      in s\<lparr>x_m := x, P_m := predicted_covariance s x\<rparr>)"

text \<open>\<^verbatim>\<open>UKF::Prediction\<close>.\<close>

definition Prediction :: "real \<Rightarrow> UKF \<Rightarrow> UKF" where
  "Prediction delta_t s =
     (let Xsig_aug = GenerateSigmaPoints s
      in PredictMeanAndCovariance (SigmaPointsPrediction Xsig_aug delta_t s))"

subsection \<open>The two measurement updates\<close>

text \<open>The innovation covariance of the lidar update, line 246.\<close>

definition lidar_S :: "UKF \<Rightarrow> matrix" where
  "lidar_S s = mat_add (mat_mul (mat_mul (Lidar_H_m s) (P_m s)) (mat_transpose (Lidar_H_m s)))
                 (Lidar_R_m s)"

text \<open>\<^verbatim>\<open>UKF::UpdateLidar\<close>. The difference of line 244 needs operands of one size.\<close>

definition UpdateLidar :: "MeasurementPackage \<Rightarrow> UKF \<Rightarrow> UKF outcome" where
  "UpdateLidar meas_package s =
     (let z_pred = mat_vec (Lidar_H_m s) (x_m s)
      in if length (raw_measurements_m meas_package) \<noteq> length z_pred
         then Indeterminate Eigen_assert
         else
           let y = vec_sub (raw_measurements_m meas_package) z_pred;
               Ht = mat_transpose (Lidar_H_m s);
               S = lidar_S s
           in case inverse2 S of
                None \<Rightarrow> Indeterminate Singular_inverse
              | Some Si \<Rightarrow>
                  let PHt = mat_mul (P_m s) Ht;
                      K = mat_mul PHt Si;
                      I = mat_identity (n_x_m s)
                  in Returns
                       (s\<lparr>x_m := vec_add (x_m s) (mat_vec K y),
                          P_m := mat_mul (mat_sub I (mat_mul K (Lidar_H_m s))) (P_m s)\<rparr>))"

text \<open>The body of the loop at lines 268-282: one predicted sigma point projected into
  measurement space. The division of line 281 has no guard.\<close>

definition radar_projection :: "vector \<Rightarrow> vector outcome" where
  "radar_projection c =
     (let p_x = c ! 0; p_y = c ! 1; v = c ! 2; yaw = c ! 3;
          v1 = cos yaw * v;
          v2 = sin yaw * v
      in if sqrt (p_x * p_x + p_y * p_y) = 0 then Indeterminate Zero_range
         else Returns [sqrt (p_x * p_x + p_y * p_y),
                       atan2 p_y p_x,
                       (p_x * v1 + p_y * v2) / sqrt (p_x * p_x + p_y * p_y)])"

definition project_sigma_points :: "UKF \<Rightarrow> matrix outcome" where
  "project_sigma_points s =
     fold (\<lambda>i acc. and_then acc (\<lambda>Zsig.
              and_then (radar_projection (col (Xsig_pred_m s) i)) (\<lambda>z.
                Returns (set_col Zsig i z))))
       [0..<2 * n_aug_m s + 1] (Returns (mat_new (n_z_m s) (2 * n_aug_m s + 1)))"

text \<open>The difference of line 294 with its bearing normalised (lines 297-298), also computed
  at lines 311-314.\<close>

definition z_diff_of :: "matrix \<Rightarrow> vector \<Rightarrow> nat \<Rightarrow> vector" where
  "z_diff_of Zsig z_pred i = normalized_difference 1 (col Zsig i) z_pred"

definition predicted_measurement :: "UKF \<Rightarrow> matrix \<Rightarrow> vector" where
  "predicted_measurement s Zsig =
     fold (\<lambda>i z_pred. vec_add z_pred (vec_scale (weights_m s ! i) (col Zsig i)))
       [0..<2 * n_aug_m s + 1] (vec_fill (vec_new (n_z_m s)) 0.0)"

definition innovation_covariance :: "UKF \<Rightarrow> matrix \<Rightarrow> vector \<Rightarrow> matrix" where
  "innovation_covariance s Zsig z_pred =
     mat_add
       (fold (\<lambda>i S. let z_diff = z_diff_of Zsig z_pred i
                     in mat_add S (outer (vec_scale (weights_m s ! i) z_diff) z_diff))
          [0..<2 * n_aug_m s + 1] (mat_fill (mat_new (n_z_m s) (n_z_m s)) 0.0))
       (Radar_R_m s)"

definition cross_correlation :: "UKF \<Rightarrow> matrix \<Rightarrow> vector \<Rightarrow> matrix" where
  "cross_correlation s Zsig z_pred =
     fold (\<lambda>i Tc. let z_diff = z_diff_of Zsig z_pred i;
                       x_diff = x_diff_of (Xsig_pred_m s) (x_m s) i
                   in mat_add Tc (outer (vec_scale (weights_m s ! i) x_diff) z_diff))
       [0..<2 * n_aug_m s + 1] (mat_fill (mat_new (n_x_m s) (n_z_m s)) 0.0)"

text \<open>\<^verbatim>\<open>UKF::UpdateRadar\<close>.\<close>

definition UpdateRadar :: "MeasurementPackage \<Rightarrow> UKF \<Rightarrow> UKF outcome" where
  "UpdateRadar meas_package s =
     and_then (project_sigma_points s) (\<lambda>Zsig.
       let z_pred = predicted_measurement s Zsig;
           S = innovation_covariance s Zsig z_pred;
           Tc = cross_correlation s Zsig z_pred
       in case inverse3 S of
            None \<Rightarrow> Indeterminate Singular_inverse
          | Some Si \<Rightarrow>
              let K = mat_mul Tc Si
              in if length (raw_measurements_m meas_package) \<noteq> length z_pred
                 then Indeterminate Eigen_assert
                 else
                   let z_diff = normalized_difference 1 (raw_measurements_m meas_package) z_pred
                   in Returns
                        (s\<lparr>x_m := vec_add (x_m s) (mat_vec K z_diff),
                           P_m := mat_sub (P_m s) (mat_mul (mat_mul K S) (mat_transpose K))\<rparr>))"

subsection \<open>The entry point\<close>

text \<open>
  \<^verbatim>\<open>UKF::ProcessMeasurement\<close>. Next to the state it leaves, the model lists the member
  functions the call invokes, in order, with the elapsed time it hands to \<^verbatim>\<open>Prediction\<close>.
  Line 99 subtracts the two 64-bit timestamps, which wraps around, and divides the signed
  result by \<open>1000000.0\<close>.
\<close>

datatype call = Call_Prediction real | Call_UpdateLidar | Call_UpdateRadar

text \<open>The initialisation branch, lines 110-136.\<close>

definition first_measurement :: "MeasurementPackage \<Rightarrow> UKF \<Rightarrow> UKF outcome" where
  "first_measurement meas_package s =
     (let s1 = s\<lparr>is_initialized_m := True, time_us_m := timestamp_m meas_package\<rparr>;
          x = vec_fill (x_m s1) 0.0;
          raw = raw_measurements_m meas_package
      in if length raw < 2 then Indeterminate Eigen_assert
         else if sensor_type_m meas_package = LASER then
           Returns (s1\<lparr>x_m := x[0 := raw ! 0, 1 := raw ! 1],
                       P_m := [[std_laspx_m s * std_laspx_m s, 0, 0, 0, 0],
                               [0, std_laspy_m s * std_laspy_m s, 0, 0, 0],
                               [0, 0, 1, 0, 0],
                               [0, 0, 0, 1, 0],
                               [0, 0, 0, 0, 1]]\<rparr>)
         else
           let rho = raw ! 0;
               phi = raw ! 1
           in Returns (s1\<lparr>x_m := x[0 := rho * cos phi, 1 := rho * sin phi],
                          P_m := [[(std_radr_m s + std_radphi_m s) * (std_radr_m s + std_radphi_m s), 0, 0, 0, 0],
                                  [0, (std_radr_m s + std_radphi_m s) * (std_radr_m s + std_radphi_m s), 0, 0, 0],
                                  [0, 0, 1, 0, 0],
                                  [0, 0, 0, 1, 0],
                                  [0, 0, 0, 0, 1]]\<rparr>))"

definition ProcessMeasurement :: "MeasurementPackage \<Rightarrow> UKF \<Rightarrow> call list \<times> UKF outcome" where
  "ProcessMeasurement meas_package s =
     (if is_initialized_m s then
        let delta_t = real_of_int (sint (timestamp_m meas_package - time_us_m s)) / 1000000.0;
            predicted = (Prediction delta_t s)\<lparr>time_us_m := timestamp_m meas_package\<rparr>
        in if sensor_type_m meas_package = LASER \<and> use_laser_m s then
             ([Call_Prediction delta_t, Call_UpdateLidar], UpdateLidar meas_package predicted)
           else if sensor_type_m meas_package = RADAR \<and> use_radar_m s then
             ([Call_Prediction delta_t, Call_UpdateRadar], UpdateRadar meas_package predicted)
           else ([Call_Prediction delta_t], Returns predicted)
      else ([], first_measurement meas_package s))"

subsection \<open>Properties of a covariance matrix\<close>

definition symmetric :: "nat \<Rightarrow> matrix \<Rightarrow> bool" where
  "symmetric n M \<longleftrightarrow> (\<forall>i<n. \<forall>j<n. M ! i ! j = M ! j ! i)"

definition quad_form :: "matrix \<Rightarrow> vector \<Rightarrow> real" where
  "quad_form M v = (\<Sum>i<length v. \<Sum>j<length v. v ! i * M ! i ! j * v ! j)"

definition positive_semidefinite :: "nat \<Rightarrow> matrix \<Rightarrow> bool" where
  "positive_semidefinite n M \<longleftrightarrow> (\<forall>v. length v = n \<longrightarrow> 0 \<le> quad_form M v)"


text \<open>The determinant of a 2x2 matrix, as \<open>inverse2\<close> computes it.\<close>

definition det2 :: "matrix \<Rightarrow> real" where
  "det2 S = S ! 0 ! 0 * S ! 1 ! 1 - S ! 0 ! 1 * S ! 1 ! 0"

subsection \<open>States used as examples\<close>

text \<open>A filter whose 15 predicted sigma points all sit at position \<open>(1, 0)\<close>, with the mean
  there too and the identity as covariance.\<close>

definition calm_filter :: UKF where
  "calm_filter =
     UKF_ctor [1, 0, 0, 0, 0] (mat_identity 5) (replicate 15 1 # replicate 4 (replicate 15 0)) 0"


text \<open>A filter fresh from the constructor: the vectors and matrices it allocates hold zeros,
  the reference time is 0.\<close>

definition fresh_filter :: UKF where
  "fresh_filter = UKF_ctor (vec_new 5) (mat_new 5 5) (mat_new 5 15) 0"

text \<open>The state \<open>fresh_filter\<close> is left in by the radar record \<open>(0.33, 0, 0)\<close> stamped 2 s, its
  first measurement (lemma \<open>first_radar\<close>).\<close>

definition near_filter :: UKF where
  "near_filter =
     fresh_filter\<lparr>is_initialized_m := True,
       time_us_m := 2000000,
       x_m := [33 / 100, 0, 0, 0, 0],
       P_m := [[1089 / 10000, 0, 0, 0, 0],
               [0, 1089 / 10000, 0, 0, 0],
               [0, 0, 1, 0, 0],
               [0, 0, 0, 1, 0],
               [0, 0, 0, 0, 1]]\<rparr>"

text \<open>The predicted sigma points, and the state, that \<^verbatim>\<open>Prediction(0.5)\<close> leaves from
  \<open>near_filter\<close> (lemmas \<open>near_predicted_sigma_points\<close> and \<open>near_Prediction\<close>).\<close>

definition near_Xsig_pred :: matrix where
  "near_Xsig_pred =
     [[33 / 100, 33 / 100 + 33 / 100 * sqrt 3, 33 / 100, 33 / 100 + sqrt 3 / 2, 33 / 100, 33 / 100,
       33 / 100 + sqrt 3 / 4, 33 / 100,
       33 / 100 - 33 / 100 * sqrt 3, 33 / 100, 33 / 100 - sqrt 3 / 2, 33 / 100, 33 / 100,
       33 / 100 - sqrt 3 / 4, 33 / 100],
      [0, 0, 33 / 100 * sqrt 3, 0, 0, 0, 0, 0, 0, - (33 / 100 * sqrt 3), 0, 0, 0, 0, 0],
      [0, 0, 0, sqrt 3, 0, 0, sqrt 3, 0, 0, 0, - sqrt 3, 0, 0, - sqrt 3, 0],
      [0, 0, 0, 0, sqrt 3, sqrt 3 / 2, 0, sqrt 3 / 4, 0, 0, 0, - sqrt 3, - (sqrt 3 / 2), 0, - (sqrt 3 / 4)],
      [0, 0, 0, 0, 0, sqrt 3, 0, sqrt 3, 0, 0, 0, 0, - sqrt 3, 0, - sqrt 3]]"

definition near_predicted :: UKF where
  "near_predicted =
     near_filter\<lparr>Xsig_pred_m := near_Xsig_pred,
       x_m := [33 / 100, 0, 0, 0, 0],
       P_m := [[2107 / 5000, 0, 3 / 4, 0, 0],
               [0, 1089 / 10000, 0, 0, 0],
               [3 / 4, 0, 2, 0, 0],
               [0, 0, 0, 21 / 16, 3 / 4],
               [0, 0, 0, 3 / 4, 2]]\<rparr>"

text \<open>What the radar update computes from \<open>near_predicted\<close>: the sigma points in measurement
  space, the predicted measurement and the innovation covariance (lemmas \<open>near_project\<close>,
  \<open>near_predicted_measurement\<close> and \<open>near_innovation_covariance\<close>).\<close>

definition near_Zsig :: matrix where
  "near_Zsig =
     [[33 / 100, 33 / 100 + 33 / 100 * sqrt 3, 66 / 100, 33 / 100 + sqrt 3 / 2, 33 / 100, 33 / 100,
       33 / 100 + sqrt 3 / 4, 33 / 100,
       33 / 100 * sqrt 3 - 33 / 100, 66 / 100, sqrt 3 / 2 - 33 / 100, 33 / 100, 33 / 100,
       sqrt 3 / 4 - 33 / 100, 33 / 100],
      [0, 0, pi / 3, 0, 0, 0, 0, 0, pi, - (pi / 3), pi, 0, 0, pi, 0],
      [0, 0, 0, sqrt 3, 0, 0, sqrt 3, 0, 0, 0, sqrt 3, 0, 0, sqrt 3, 0]]"

definition near_z_pred :: vector where
  "near_z_pred = [11 / 100 + 9 / 25 * sqrt 3, pi / 2, 2 / 3 * sqrt 3]"

definition near_S :: matrix where
  "near_S =
     [[3283 / 10000 - 99 / 1250 * sqrt 3, - (11 / 50 * pi), 3 / 100 - 11 / 150 * sqrt 3],
      [- (11 / 50 * pi), 31 / 108 * (pi * pi) + 9 / 10000, 0],
      [3 / 100 - 11 / 150 * sqrt 3, 0, 227 / 300]]"

text \<open>The predicted sigma points, and the state, that \<^verbatim>\<open>Prediction(-1)\<close> leaves from
  \<open>near_filter\<close> (lemmas \<open>near_back_sigma_points\<close> and \<open>near_back_Prediction\<close>).\<close>

definition near_Xsig_back :: matrix where
  "near_Xsig_back =
     [[33 / 100, 33 / 100 + 33 / 100 * sqrt 3, 33 / 100, 33 / 100 - sqrt 3, 33 / 100, 33 / 100,
       33 / 100 + sqrt 3, 33 / 100,
       33 / 100 - 33 / 100 * sqrt 3, 33 / 100, 33 / 100 + sqrt 3, 33 / 100, 33 / 100,
       33 / 100 - sqrt 3, 33 / 100],
      [0, 0, 33 / 100 * sqrt 3, 0, 0, 0, 0, 0, 0, - (33 / 100 * sqrt 3), 0, 0, 0, 0, 0],
      [0, 0, 0, sqrt 3, 0, 0, - (2 * sqrt 3), 0, 0, 0, - sqrt 3, 0, 0, 2 * sqrt 3, 0],
      [0, 0, 0, 0, sqrt 3, - sqrt 3, 0, sqrt 3, 0, 0, 0, - sqrt 3, sqrt 3, 0, - sqrt 3],
      [0, 0, 0, 0, 0, sqrt 3, 0, - (2 * sqrt 3), 0, 0, 0, 0, - sqrt 3, 0, 2 * sqrt 3]]"

definition near_rewound :: UKF where
  "near_rewound =
     near_filter\<lparr>Xsig_pred_m := near_Xsig_back,
       x_m := [33 / 100, 0, 0, 0, 0],
       P_m := [[21089 / 10000, 0, - 3, 0, 0],
               [0, 1089 / 10000, 0, 0, 0],
               [- 3, 0, 5, 0, 0],
               [0, 0, 0, 3, - 3],
               [0, 0, 0, - 3, 5]]\<rparr>"





section \<open>Auxiliary facts\<close>

subsection \<open>The constructed filter\<close>

lemma ctor_fields:
  "n_x_m (UKF_ctor x0 P0 X0 t0) = 5"
  "n_aug_m (UKF_ctor x0 P0 X0 t0) = 7"
  "n_z_m (UKF_ctor x0 P0 X0 t0) = 3"
  "lambda_m (UKF_ctor x0 P0 X0 t0) = - 4"
  "weights_m (UKF_ctor x0 P0 X0 t0) = (- 4 / 3) # replicate 14 (1 / 6)"
  "std_a_m (UKF_ctor x0 P0 X0 t0) = 2"
  "std_yawdd_m (UKF_ctor x0 P0 X0 t0) = 2"
  "std_laspx_m (UKF_ctor x0 P0 X0 t0) = 15 / 100"
  "std_laspy_m (UKF_ctor x0 P0 X0 t0) = 15 / 100"
  "std_radr_m (UKF_ctor x0 P0 X0 t0) = 3 / 10"
  "std_radphi_m (UKF_ctor x0 P0 X0 t0) = 3 / 100"
  "std_radrd_m (UKF_ctor x0 P0 X0 t0) = 3 / 10"
  "Lidar_H_m (UKF_ctor x0 P0 X0 t0) = [[1, 0, 0, 0, 0], [0, 1, 0, 0, 0]]"
  "Lidar_R_m (UKF_ctor x0 P0 X0 t0) = [[225 / 10000, 0], [0, 225 / 10000]]"
  "Radar_R_m (UKF_ctor x0 P0 X0 t0) = [[9 / 100, 0, 0], [0, 9 / 10000, 0], [0, 0, 9 / 100]]"
  by (simp_all add: UKF_ctor_def Let_def vec_fill_def vec_new_def mat_fill_def mat_new_def
        set_coeff_def eval_nat_numeral)

lemma configured_fields:
  assumes "configured s"
  shows "n_x_m s = 5" "n_aug_m s = 7" "n_z_m s = 3" "lambda_m s = - 4"
    "weights_m s = (- 4 / 3) # replicate 14 (1 / 6)"
    "std_a_m s = 2" "std_yawdd_m s = 2" "std_laspx_m s = 15 / 100" "std_laspy_m s = 15 / 100"
    "std_radr_m s = 3 / 10" "std_radphi_m s = 3 / 100" "std_radrd_m s = 3 / 10"
    "Lidar_H_m s = [[1, 0, 0, 0, 0], [0, 1, 0, 0, 0]]"
    "Lidar_R_m s = [[225 / 10000, 0], [0, 225 / 10000]]"
    "Radar_R_m s = [[9 / 100, 0, 0], [0, 9 / 10000, 0], [0, 0, 9 / 100]]"
    "length (x_m s) = 5" "sized 5 5 (P_m s)" "sized 5 15 (Xsig_pred_m s)"
proof -
  let ?c = "UKF_ctor (x_m s) (P_m s) (Xsig_pred_m s) (time_us_m s)"
  from assms have eq: "s\<lparr>is_initialized_m := False, use_laser_m := True, use_radar_m := True\<rparr> = ?c"
    by (simp add: configured_def)
  show "n_x_m s = 5" using arg_cong [OF eq, of n_x_m] by (simp add: ctor_fields)
  show "n_aug_m s = 7" using arg_cong [OF eq, of n_aug_m] by (simp add: ctor_fields)
  show "n_z_m s = 3" using arg_cong [OF eq, of n_z_m] by (simp add: ctor_fields)
  show "lambda_m s = - 4" using arg_cong [OF eq, of lambda_m] by (simp add: ctor_fields)
  show "weights_m s = (- 4 / 3) # replicate 14 (1 / 6)" using arg_cong [OF eq, of weights_m] by (simp add: ctor_fields)
  show "std_a_m s = 2" using arg_cong [OF eq, of std_a_m] by (simp add: ctor_fields)
  show "std_yawdd_m s = 2" using arg_cong [OF eq, of std_yawdd_m] by (simp add: ctor_fields)
  show "std_laspx_m s = 15 / 100" using arg_cong [OF eq, of std_laspx_m] by (simp add: ctor_fields)
  show "std_laspy_m s = 15 / 100" using arg_cong [OF eq, of std_laspy_m] by (simp add: ctor_fields)
  show "std_radr_m s = 3 / 10" using arg_cong [OF eq, of std_radr_m] by (simp add: ctor_fields)
  show "std_radphi_m s = 3 / 100" using arg_cong [OF eq, of std_radphi_m] by (simp add: ctor_fields)
  show "std_radrd_m s = 3 / 10" using arg_cong [OF eq, of std_radrd_m] by (simp add: ctor_fields)
  show "Lidar_H_m s = [[1, 0, 0, 0, 0], [0, 1, 0, 0, 0]]" using arg_cong [OF eq, of Lidar_H_m] by (simp add: ctor_fields)
  show "Lidar_R_m s = [[225 / 10000, 0], [0, 225 / 10000]]" using arg_cong [OF eq, of Lidar_R_m] by (simp add: ctor_fields)
  show "Radar_R_m s = [[9 / 100, 0, 0], [0, 9 / 10000, 0], [0, 0, 9 / 100]]" using arg_cong [OF eq, of Radar_R_m] by (simp add: ctor_fields)
  show "length (x_m s) = 5" "sized 5 5 (P_m s)" "sized 5 15 (Xsig_pred_m s)"
    using assms by (simp_all add: configured_def)
qed

lemma configured_ctor:
  "length x0 = 5 \<Longrightarrow> sized 5 5 P0 \<Longrightarrow> sized 5 15 X0 \<Longrightarrow> configured (UKF_ctor x0 P0 X0 t0)"
  by (simp add: configured_def UKF_ctor_def Let_def)

subsection \<open>Sizes and coefficients of the matrix operations\<close>

lemma sized_length: "sized r c M \<Longrightarrow> length M = r"
  by (simp add: sized_def)

lemma sized_nth: "sized r c M \<Longrightarrow> i < r \<Longrightarrow> length (M ! i) = c"
  by (simp add: sized_def)

lemma sizedI: "length M = r \<Longrightarrow> (\<And>i. i < r \<Longrightarrow> length (M ! i) = c) \<Longrightarrow> sized r c M"
  by (auto simp: sized_def in_set_conv_nth)

lemma sized_cols: "sized r c M \<Longrightarrow> 0 < r \<Longrightarrow> cols M = c"
  by (cases M) (auto simp: sized_def cols_def)

lemma nth_col: "i < length M \<Longrightarrow> col M j ! i = M ! i ! j"
  by (simp add: col_def)

lemma length_col: "length (col M j) = length M"
  by (simp add: col_def)

lemma nth_vec_add: "i < length a \<Longrightarrow> i < length b \<Longrightarrow> vec_add a b ! i = a ! i + b ! i"
  by (simp add: vec_add_def)

lemma length_vec_add: "length (vec_add a b) = min (length a) (length b)"
  by (simp add: vec_add_def)

lemma nth_vec_sub: "i < length a \<Longrightarrow> i < length b \<Longrightarrow> vec_sub a b ! i = a ! i - b ! i"
  by (simp add: vec_sub_def)

lemma length_vec_sub: "length (vec_sub a b) = min (length a) (length b)"
  by (simp add: vec_sub_def)

lemma nth_vec_scale: "i < length a \<Longrightarrow> vec_scale c a ! i = c * a ! i"
  by (simp add: vec_scale_def)

lemma length_vec_scale: "length (vec_scale c a) = length a"
  by (simp add: vec_scale_def)

lemma length_normalize_at: "length (normalize_at k d) = length d"
  by (simp add: normalize_at_def)

lemma sized_outer: "sized (length a) (length b) (outer a b)"
  by (auto simp: sized_def outer_def)

lemma nth_outer: "i < length a \<Longrightarrow> j < length b \<Longrightarrow> outer a b ! i ! j = a ! i * b ! j"
  by (simp add: outer_def)

lemma sized_mat_add: "sized r c A \<Longrightarrow> sized r c B \<Longrightarrow> sized r c (mat_add A B)"
  by (rule sizedI) (simp_all add: mat_add_def sized_def length_vec_add)

lemma nth_mat_add:
  "sized r c A \<Longrightarrow> sized r c B \<Longrightarrow> i < r \<Longrightarrow> j < c \<Longrightarrow> mat_add A B ! i ! j = A ! i ! j + B ! i ! j"
  by (simp add: mat_add_def sized_def nth_vec_add)

lemma sized_mat_sub: "sized r c A \<Longrightarrow> sized r c B \<Longrightarrow> sized r c (mat_sub A B)"
  by (rule sizedI) (simp_all add: mat_sub_def sized_def length_vec_sub)

lemma nth_mat_sub:
  "sized r c A \<Longrightarrow> sized r c B \<Longrightarrow> i < r \<Longrightarrow> j < c \<Longrightarrow> mat_sub A B ! i ! j = A ! i ! j - B ! i ! j"
  by (simp add: mat_sub_def sized_def nth_vec_sub)

lemma sized_mat_fill: "sized r c M \<Longrightarrow> sized r c (mat_fill M a)"
  by (auto simp: sized_def mat_fill_def vec_fill_def)

lemma nth_mat_fill: "sized r c M \<Longrightarrow> i < r \<Longrightarrow> j < c \<Longrightarrow> mat_fill M a ! i ! j = a"
  by (simp add: sized_def mat_fill_def vec_fill_def)

lemma sized_mat_new: "sized r c (mat_new r c)"
  by (simp add: sized_def mat_new_def)

lemma sized_mat_identity: "sized n n (mat_identity n)"
  by (auto simp: sized_def mat_identity_def)

lemma nth_mat_identity: "i < n \<Longrightarrow> j < n \<Longrightarrow> mat_identity n ! i ! j = (if i = j then 1 else 0)"
  by (simp add: mat_identity_def)

lemma sized_mat_transpose: "sized r c A \<Longrightarrow> 0 < r \<Longrightarrow> sized c r (mat_transpose A)"
  by (rule sizedI) (simp_all add: mat_transpose_def sized_cols length_col sized_length)

lemma nth_mat_transpose:
  "sized r c A \<Longrightarrow> i < c \<Longrightarrow> j < r \<Longrightarrow> mat_transpose A ! i ! j = A ! j ! i"
  by (cases "r = 0") (simp_all add: mat_transpose_def sized_cols nth_col sized_length)

lemma sized_mat_mul: "sized r k A \<Longrightarrow> sized k c B \<Longrightarrow> 0 < k \<Longrightarrow> sized r c (mat_mul A B)"
  by (rule sizedI) (simp_all add: mat_mul_def sized_cols sized_length)

lemma nth_mat_mul:
  "sized r k A \<Longrightarrow> sized k c B \<Longrightarrow> 0 < k \<Longrightarrow> i < r \<Longrightarrow> j < c \<Longrightarrow>
   mat_mul A B ! i ! j = (\<Sum>l<k. A ! i ! l * B ! l ! j)"
  by (simp add: mat_mul_def sized_cols sized_length sized_nth dot_def nth_col)

lemma fold_vec_add_length:
  "length z = n \<Longrightarrow> (\<And>i. i \<in> set ns \<Longrightarrow> length (f i) = n) \<Longrightarrow>
   length (fold (\<lambda>i x. vec_add x (f i)) ns z) = n"
  by (induction ns arbitrary: z) (simp_all add: length_vec_add)

lemma fold_vec_add_nth:
  "length z = n \<Longrightarrow> (\<And>i. i \<in> set ns \<Longrightarrow> length (f i) = n) \<Longrightarrow> j < n \<Longrightarrow>
   fold (\<lambda>i x. vec_add x (f i)) ns z ! j = z ! j + (\<Sum>i\<leftarrow>ns. f i ! j)"
  by (induction ns arbitrary: z) (simp_all add: length_vec_add nth_vec_add add.assoc)

lemma fold_mat_add_sized:
  "sized r c Z \<Longrightarrow> (\<And>i. i \<in> set ns \<Longrightarrow> sized r c (F i)) \<Longrightarrow>
   sized r c (fold (\<lambda>i P. mat_add P (F i)) ns Z)"
  by (induction ns arbitrary: Z) (simp_all add: sized_mat_add)

lemma fold_mat_add_nth:
  "sized r c Z \<Longrightarrow> (\<And>i. i \<in> set ns \<Longrightarrow> sized r c (F i)) \<Longrightarrow> a < r \<Longrightarrow> b < c \<Longrightarrow>
   fold (\<lambda>i P. mat_add P (F i)) ns Z ! a ! b = Z ! a ! b + (\<Sum>i\<leftarrow>ns. F i ! a ! b)"
  by (induction ns arbitrary: Z) (simp_all add: sized_mat_add nth_mat_add add.assoc)

lemma sum_list_upt: "(\<Sum>i\<leftarrow>[0..<n]. g i) = (\<Sum>i<n. g i)"
  by (simp add: interv_sum_list_conv_sum_set_nat lessThan_atLeast0)

subsection \<open>Predicted mean and covariance\<close>

lemma length_vec_fill: "length (vec_fill v c) = length v"
  by (simp add: vec_fill_def)

lemma nth_vec_fill: "i < length v \<Longrightarrow> vec_fill v c ! i = c"
  by (simp add: vec_fill_def)

lemma length_x_diff_of:
  "length X = n \<Longrightarrow> length x = n \<Longrightarrow> length (x_diff_of X x i) = n"
  by (simp add: x_diff_of_def normalized_difference_def length_normalize_at length_vec_sub length_col)

lemma predicted_mean_length:
  assumes "configured s"
  shows "length (predicted_mean s) = 5"
  unfolding predicted_mean_def
  by (rule fold_vec_add_length)
     (simp_all add: length_vec_fill length_vec_scale length_col
        configured_fields(16) [OF assms] sized_length [OF configured_fields(18) [OF assms]])

lemma predicted_mean_nth:
  assumes "configured s" and "j < 5"
  shows "predicted_mean s ! j = (\<Sum>i<15. weights_m s ! i * Xsig_pred_m s ! j ! i)"
proof -
  have len: "length (Xsig_pred_m s) = 5"
    by (rule sized_length [OF configured_fields(18) [OF assms(1)]])
  have "predicted_mean s ! j =
      vec_fill (x_m s) 0.0 ! j
      + (\<Sum>i\<leftarrow>[0..<2 * n_aug_m s + 1]. vec_scale (weights_m s ! i) (col (Xsig_pred_m s) i) ! j)"
    unfolding predicted_mean_def
    by (rule fold_vec_add_nth [where n = 5])
       (simp_all add: length_vec_fill length_vec_scale length_col len assms(2)
          configured_fields(16) [OF assms(1)])
  also have "\<dots> = (\<Sum>i<15. weights_m s ! i * Xsig_pred_m s ! j ! i)"
    using assms(2)
    by (simp add: sum_list_upt nth_vec_fill nth_vec_scale nth_col length_col len
          configured_fields(2,16) [OF assms(1)])
  finally show ?thesis .
qed

lemma predicted_covariance_sized:
  assumes "configured s" and "length x = 5"
  shows "sized 5 5 (predicted_covariance s x)"
proof -
  have len: "length (Xsig_pred_m s) = 5"
    by (rule sized_length [OF configured_fields(18) [OF assms(1)]])
  have d: "length (x_diff_of (Xsig_pred_m s) x i) = 5" for i
    by (rule length_x_diff_of [OF len assms(2)])
  show ?thesis
    unfolding predicted_covariance_def Let_def
  proof (rule fold_mat_add_sized)
    show "sized 5 5 (mat_fill (P_m s) 0.0)"
      by (rule sized_mat_fill [OF configured_fields(17) [OF assms(1)]])
  next
    fix i
    show "sized 5 5 (outer (vec_scale (weights_m s ! i) (x_diff_of (Xsig_pred_m s) x i))
                      (x_diff_of (Xsig_pred_m s) x i))"
      using sized_outer [of "vec_scale (weights_m s ! i) (x_diff_of (Xsig_pred_m s) x i)"
                            "x_diff_of (Xsig_pred_m s) x i"]
      by (simp add: length_vec_scale d)
  qed
qed

lemma predicted_covariance_nth:
  assumes "configured s" and "length x = 5" and "a < 5" and "b < 5"
  shows "predicted_covariance s x ! a ! b =
         (\<Sum>i<15. weights_m s ! i * x_diff_of (Xsig_pred_m s) x i ! a
                      * x_diff_of (Xsig_pred_m s) x i ! b)"
proof -
  have len: "length (Xsig_pred_m s) = 5"
    by (rule sized_length [OF configured_fields(18) [OF assms(1)]])
  have d: "length (x_diff_of (Xsig_pred_m s) x i) = 5" for i
    by (rule length_x_diff_of [OF len assms(2)])
  let ?F = "\<lambda>i. outer (vec_scale (weights_m s ! i) (x_diff_of (Xsig_pred_m s) x i))
                   (x_diff_of (Xsig_pred_m s) x i)"
  have szF: "sized 5 5 (?F i)" for i
    using sized_outer [of "vec_scale (weights_m s ! i) (x_diff_of (Xsig_pred_m s) x i)"
                          "x_diff_of (Xsig_pred_m s) x i"]
    by (simp add: length_vec_scale d)
  have sz0: "sized 5 5 (mat_fill (P_m s) 0.0)"
    by (rule sized_mat_fill [OF configured_fields(17) [OF assms(1)]])
  have "predicted_covariance s x ! a ! b =
        mat_fill (P_m s) 0.0 ! a ! b + (\<Sum>i\<leftarrow>[0..<2 * n_aug_m s + 1]. ?F i ! a ! b)"
    unfolding predicted_covariance_def Let_def
    by (rule fold_mat_add_nth [OF sz0 szF assms(3,4)])
  also have "\<dots> = (\<Sum>i<15. weights_m s ! i * x_diff_of (Xsig_pred_m s) x i ! a
                      * x_diff_of (Xsig_pred_m s) x i ! b)"
    using assms(3,4)
    by (simp add: sum_list_upt nth_mat_fill [OF configured_fields(17) [OF assms(1)]]
          nth_outer length_vec_scale nth_vec_scale d configured_fields(2) [OF assms(1)])
  finally show ?thesis .
qed

lemma predicted_covariance_symmetric:
  assumes "configured s" and "length x = 5"
  shows "symmetric 5 (predicted_covariance s x)"
  unfolding symmetric_def
  by (auto simp: predicted_covariance_nth [OF assms] mult_ac)

lemma x_diff_of_nth:
  assumes "length X = n" "length x = n" "a < n"
  shows "x_diff_of X x i ! a =
           (if a = 3 then normalize_angle (X ! a ! i - x ! a) else X ! a ! i - x ! a)"
  using assms
  by (simp add: x_diff_of_def normalized_difference_def normalize_at_def length_vec_sub length_col nth_vec_sub nth_col)

lemma sum15: "(\<Sum>i<15. g i) = g (0::nat) + g (Suc 0) + g 2 + g 3 + g 4 + g 5 + g 6 + g 7 + g 8 + g 9 + g 10 + g 11 + g 12 + g 13 + (g 14 :: real)"
  by (simp add: eval_nat_numeral lessThan_Suc)

subsection \<open>The lidar update\<close>

lemma sum5: "(\<Sum>i<5. g i) = g (0::nat) + g (Suc 0) + g 2 + g 3 + (g 4 :: real)"
  by (simp add: eval_nat_numeral lessThan_Suc)

lemma sum2: "(\<Sum>i<2. g i) = g (0::nat) + (g (Suc 0) :: real)"
  by (simp add: eval_nat_numeral lessThan_Suc)

lemma sum3: "(\<Sum>i<3. g i) = g (0::nat) + g (Suc 0) + (g 2 :: real)"
  by (simp add: eval_nat_numeral lessThan_Suc)

lemma sized_Lidar_H: "sized 2 5 [[1, 0, 0, 0, 0], [0, 1, 0, 0, 0::real]]"
  by (simp add: sized_def)

lemma sized_2_2: "sized 2 2 [[a, b], [c, d]]"
  by (simp add: sized_def)

lemma less2_cases: "a < (2::nat) \<Longrightarrow> a = 0 \<or> a = 1"
  by auto

lemma Lidar_H_times:
  assumes "sized 5 c P" and "a < 2" and "j < c"
  shows "mat_mul [[1, 0, 0, 0, 0], [0, 1, 0, 0, 0]] P ! a ! j = P ! a ! j"
  using less2_cases [OF assms(2)]
  by (auto simp: nth_mat_mul [OF sized_Lidar_H assms(1) _ assms(2,3)] sum5)

lemma times_Lidar_Ht:
  assumes "sized r 5 P" and "i < r" and "b < 2"
  shows "mat_mul P (mat_transpose [[1, 0, 0, 0, 0], [0, 1, 0, 0, 0]]) ! i ! b = P ! i ! b"
proof -
  have szt: "sized 5 2 (mat_transpose [[1, 0, 0, 0, 0], [0, 1, 0, 0, 0]])"
    by (rule sized_mat_transpose [OF sized_Lidar_H]) simp
  show ?thesis
    using less2_cases [OF assms(3)]
    by (auto simp: nth_mat_mul [OF assms(1) szt _ assms(2,3)] sum5
          nth_mat_transpose [OF sized_Lidar_H])
qed

lemma lidar_S_sized:
  assumes "configured s"
  shows "sized 2 2 (lidar_S s)"
proof -
  note c = configured_fields [OF assms]
  have szt: "sized 5 2 (mat_transpose [[1, 0, 0, 0, 0], [0, 1, 0, 0, 0]])"
    by (rule sized_mat_transpose [OF sized_Lidar_H]) simp
  have "sized 2 5 (mat_mul [[1, 0, 0, 0, 0], [0, 1, 0, 0, 0]] (P_m s))"
    by (rule sized_mat_mul [OF sized_Lidar_H c(17)]) simp
  then have "sized 2 2 (mat_mul (mat_mul [[1, 0, 0, 0, 0], [0, 1, 0, 0, 0]] (P_m s))
                  (mat_transpose [[1, 0, 0, 0, 0], [0, 1, 0, 0, 0]]))"
    by (rule sized_mat_mul [OF _ szt]) simp
  then show ?thesis
    unfolding lidar_S_def c(13,14) by (rule sized_mat_add [OF _ sized_2_2])
qed

lemma lidar_S_nth:
  assumes "configured s" and "a < 2" and "b < 2"
  shows "lidar_S s ! a ! b = P_m s ! a ! b + (if a = b then 225 / 10000 else 0)"
proof -
  note c = configured_fields [OF assms(1)]
  have szt: "sized 5 2 (mat_transpose [[1, 0, 0, 0, 0], [0, 1, 0, 0, 0]])"
    by (rule sized_mat_transpose [OF sized_Lidar_H]) simp
  have hp: "sized 2 5 (mat_mul [[1, 0, 0, 0, 0], [0, 1, 0, 0, 0]] (P_m s))"
    by (rule sized_mat_mul [OF sized_Lidar_H c(17)]) simp
  have hpht: "sized 2 2 (mat_mul (mat_mul [[1, 0, 0, 0, 0], [0, 1, 0, 0, 0]] (P_m s))
                  (mat_transpose [[1, 0, 0, 0, 0], [0, 1, 0, 0, 0]]))"
    by (rule sized_mat_mul [OF hp szt]) simp
  have "lidar_S s ! a ! b =
        mat_mul [[1, 0, 0, 0, 0], [0, 1, 0, 0, 0]] (P_m s) ! a ! b + [[225 / 10000, 0], [0, 225 / 10000]] ! a ! b"
    unfolding lidar_S_def c(13,14)
    by (simp add: nth_mat_add [OF hpht sized_2_2 assms(2,3)] times_Lidar_Ht [OF hp assms(2,3)])
  also have "\<dots> = P_m s ! a ! b + (if a = b then 225 / 10000 else 0)"
    using less2_cases [OF assms(2)] less2_cases [OF assms(3)] assms(2,3)
    by (auto simp: Lidar_H_times [OF c(17)])
  finally show ?thesis .
qed

lemma inverse2_sized: "inverse2 S = Some Si \<Longrightarrow> sized 2 2 Si"
  by (auto simp: inverse2_def Let_def sized_def split: if_splits)

lemma UpdateLidar_Returns:
  "UpdateLidar m s = Returns s' \<longleftrightarrow>
     length (raw_measurements_m m) = length (mat_vec (Lidar_H_m s) (x_m s)) \<and>
     (\<exists>Si. inverse2 (lidar_S s) = Some Si \<and>
        s' = s\<lparr>x_m := vec_add (x_m s)
                      (mat_vec (mat_mul (mat_mul (P_m s) (mat_transpose (Lidar_H_m s))) Si)
                         (vec_sub (raw_measurements_m m) (mat_vec (Lidar_H_m s) (x_m s)))),
               P_m := mat_mul (mat_sub (mat_identity (n_x_m s))
                        (mat_mul (mat_mul (mat_mul (P_m s) (mat_transpose (Lidar_H_m s))) Si) (Lidar_H_m s)))
                        (P_m s)\<rparr>)"
  by (auto simp: UpdateLidar_def Let_def lidar_S_def split: option.splits)

lemma sum_delta_sub:
  "i < (n::nat) \<Longrightarrow> (\<Sum>k<n. ((if i = k then 1 else 0) - c k) * p k) = p i - (\<Sum>k<n. c k * (p k :: real))"
proof -
  assume i: "i < n"
  have pick: "(\<Sum>k<n. if i = k then p k else 0) = p i"
    using i by (subst sum.delta') simp_all
  have "(\<Sum>k<n. ((if i = k then 1 else 0) - c k) * p k)
        = (\<Sum>k<n. (if i = k then p k else 0) - c k * p k)"
    by (rule sum.cong) (simp_all add: left_diff_distrib)
  also have "\<dots> = p i - (\<Sum>k<n. c k * p k)"
    by (simp add: sum_subtractf pick)
  finally show ?thesis .
qed

text \<open>The coefficients of the covariance after the lidar update.\<close>

lemma lidar_P_nth:
  assumes conf: "configured s" and inv: "inverse2 (lidar_S s) = Some Si"
    and i: "i < 5" and j: "j < 5"
  shows "mat_mul (mat_sub (mat_identity (n_x_m s))
            (mat_mul (mat_mul (mat_mul (P_m s) (mat_transpose (Lidar_H_m s))) Si) (Lidar_H_m s)))
            (P_m s) ! i ! j
         = P_m s ! i ! j
           - ((P_m s ! i ! 0 * Si ! 0 ! 0 + P_m s ! i ! Suc 0 * Si ! Suc 0 ! 0) * P_m s ! 0 ! j
              + (P_m s ! i ! 0 * Si ! 0 ! Suc 0 + P_m s ! i ! Suc 0 * Si ! Suc 0 ! Suc 0) * P_m s ! Suc 0 ! j)"
proof -
  note c = configured_fields [OF conf]
  let ?H = "[[1, 0, 0, 0, 0], [0, 1, 0, 0, 0::real]]"
  let ?P = "P_m s"
  have szt: "sized 5 2 (mat_transpose ?H)"
    by (rule sized_mat_transpose [OF sized_Lidar_H]) simp
  have szSi: "sized 2 2 Si"
    by (rule inverse2_sized [OF inv])
  have szPHt: "sized 5 2 (mat_mul ?P (mat_transpose ?H))"
    by (rule sized_mat_mul [OF c(17) szt]) simp
  have szK: "sized 5 2 (mat_mul (mat_mul ?P (mat_transpose ?H)) Si)"
    by (rule sized_mat_mul [OF szPHt szSi]) simp
  have szKH: "sized 5 5 (mat_mul (mat_mul (mat_mul ?P (mat_transpose ?H)) Si) ?H)"
    by (rule sized_mat_mul [OF szK sized_Lidar_H]) simp
  have szIKH: "sized 5 5 (mat_sub (mat_identity 5) (mat_mul (mat_mul (mat_mul ?P (mat_transpose ?H)) Si) ?H))"
    by (rule sized_mat_sub [OF sized_mat_identity szKH])
  have K: "mat_mul (mat_mul ?P (mat_transpose ?H)) Si ! i ! a
           = ?P ! i ! 0 * Si ! 0 ! a + ?P ! i ! Suc 0 * Si ! Suc 0 ! a" if "a < 2" for a
    using that i
    by (simp add: nth_mat_mul [OF szPHt szSi] sum2 times_Lidar_Ht [OF c(17)])
  have KH: "mat_mul (mat_mul (mat_mul ?P (mat_transpose ?H)) Si) ?H ! i ! k
           = (if k < 2 then mat_mul (mat_mul ?P (mat_transpose ?H)) Si ! i ! k else 0)" if "k < 5" for k
  proof -
    from that have "k = 0 \<or> k = 1 \<or> k = 2 \<or> k = 3 \<or> k = 4" by auto
    then show ?thesis
      using i by (auto simp: nth_mat_mul [OF szK sized_Lidar_H] sum2)
  qed
  have "mat_mul (mat_sub (mat_identity 5) (mat_mul (mat_mul (mat_mul ?P (mat_transpose ?H)) Si) ?H)) ?P ! i ! j
        = (\<Sum>k<5. ((if i = k then 1 else 0)
              - mat_mul (mat_mul (mat_mul ?P (mat_transpose ?H)) Si) ?H ! i ! k) * ?P ! k ! j)"
    using i j
    by (simp add: nth_mat_mul [OF szIKH c(17)] nth_mat_sub [OF sized_mat_identity szKH]
          nth_mat_identity)
  also have "\<dots> = ?P ! i ! j
        - (\<Sum>k<5. mat_mul (mat_mul (mat_mul ?P (mat_transpose ?H)) Si) ?H ! i ! k * ?P ! k ! j)"
    by (rule sum_delta_sub [OF i])
  also have "\<dots> = ?P ! i ! j
           - ((?P ! i ! 0 * Si ! 0 ! 0 + ?P ! i ! Suc 0 * Si ! Suc 0 ! 0) * ?P ! 0 ! j
              + (?P ! i ! 0 * Si ! 0 ! Suc 0 + ?P ! i ! Suc 0 * Si ! Suc 0 ! Suc 0) * ?P ! Suc 0 ! j)"
    by (simp add: sum5 KH K)
  finally show ?thesis
    by (simp add: c(1,13))
qed

lemma vector5: "length v = 5 \<Longrightarrow> v = [v ! 0, v ! 1, v ! 2, v ! 3, v ! 4]"
  by (rule nth_equalityI) (auto simp: less_Suc_eq eval_nat_numeral)

lemma quad_form5:
  "length v = 5 \<Longrightarrow>
   quad_form M v = (\<Sum>i<5. \<Sum>j<5. v ! i * M ! i ! j * v ! j)"
  by (simp add: quad_form_def)

lemma inverse2_Some:
  assumes "inverse2 S = Some Si"
  shows "S ! 0 ! 0 * S ! Suc 0 ! Suc 0 - S ! 0 ! Suc 0 * S ! Suc 0 ! 0 \<noteq> 0"
    and "Si ! 0 ! 0 = S ! Suc 0 ! Suc 0 / (S ! 0 ! 0 * S ! Suc 0 ! Suc 0 - S ! 0 ! Suc 0 * S ! Suc 0 ! 0)"
    and "Si ! 0 ! Suc 0 = - S ! 0 ! Suc 0 / (S ! 0 ! 0 * S ! Suc 0 ! Suc 0 - S ! 0 ! Suc 0 * S ! Suc 0 ! 0)"
    and "Si ! Suc 0 ! 0 = - S ! Suc 0 ! 0 / (S ! 0 ! 0 * S ! Suc 0 ! Suc 0 - S ! 0 ! Suc 0 * S ! Suc 0 ! 0)"
    and "Si ! Suc 0 ! Suc 0 = S ! 0 ! 0 / (S ! 0 ! 0 * S ! Suc 0 ! Suc 0 - S ! 0 ! Suc 0 * S ! Suc 0 ! 0)"
  using assms by (auto simp: inverse2_def Let_def split: if_splits)

lemma symmetricD: "symmetric n M \<Longrightarrow> i < n \<Longrightarrow> j < n \<Longrightarrow> M ! i ! j = M ! j ! i"
  by (simp add: symmetric_def)

lemma lidar_update_symmetric:
  assumes conf: "configured s" and sym: "symmetric 5 (P_m s)"
    and inv: "inverse2 (lidar_S s) = Some Si"
  shows "symmetric 5 (mat_mul (mat_sub (mat_identity (n_x_m s))
            (mat_mul (mat_mul (mat_mul (P_m s) (mat_transpose (Lidar_H_m s))) Si) (Lidar_H_m s)))
            (P_m s))"
  unfolding symmetric_def
proof (intro allI impI)
  fix i j :: nat
  assume i: "i < 5" and j: "j < 5"
  have Si: "Si ! 0 ! Suc 0 = Si ! Suc 0 ! 0"
    using symmetricD [OF sym, of 0 "Suc 0"] lidar_S_nth [OF conf, of 0 "Suc 0"] lidar_S_nth [OF conf, of "Suc 0" 0]
    by (simp add: inverse2_Some(3,4) [OF inv])
  have P: "P_m s ! i ! j = P_m s ! j ! i" "P_m s ! i ! 0 = P_m s ! 0 ! i"
    "P_m s ! i ! Suc 0 = P_m s ! Suc 0 ! i" "P_m s ! j ! 0 = P_m s ! 0 ! j" "P_m s ! j ! Suc 0 = P_m s ! Suc 0 ! j"
    using i j by (simp_all add: symmetricD [OF sym])
  show "mat_mul (mat_sub (mat_identity (n_x_m s))
            (mat_mul (mat_mul (mat_mul (P_m s) (mat_transpose (Lidar_H_m s))) Si) (Lidar_H_m s)))
            (P_m s) ! i ! j
      = mat_mul (mat_sub (mat_identity (n_x_m s))
            (mat_mul (mat_mul (mat_mul (P_m s) (mat_transpose (Lidar_H_m s))) Si) (Lidar_H_m s)))
            (P_m s) ! j ! i"
    unfolding lidar_P_nth [OF conf inv i j] lidar_P_nth [OF conf inv j i] P Si
    by (simp add: algebra_simps)
qed

text \<open>A positive semi-definite symmetric matrix has a non-negative leading 2x2 minor.\<close>

lemma psd_minor:
  assumes psd: "positive_semidefinite 5 P" and sym: "symmetric 5 P"
  shows "0 \<le> P ! 0 ! 0" and "0 \<le> P ! Suc 0 ! Suc 0" and "P ! 0 ! Suc 0 * P ! 0 ! Suc 0 \<le> P ! 0 ! 0 * P ! Suc 0 ! Suc 0"
proof -
  have s01: "P ! Suc 0 ! 0 = P ! 0 ! Suc 0"
    using symmetricD [OF sym, of "Suc 0" 0] by simp
  have q: "0 \<le> P ! 0 ! 0 * a * a + 2 * P ! 0 ! Suc 0 * a * b + P ! Suc 0 ! Suc 0 * b * b" for a b
  proof -
    have "0 \<le> quad_form P [a, b, 0, 0, 0]"
      using psd by (simp add: positive_semidefinite_def)
    then show ?thesis
      by (simp add: quad_form_def sum5 s01 algebra_simps)
  qed
  show p00: "0 \<le> P ! 0 ! 0" using q [of 1 0] by simp
  show p11: "0 \<le> P ! Suc 0 ! Suc 0" using q [of 0 1] by simp
  show "P ! 0 ! Suc 0 * P ! 0 ! Suc 0 \<le> P ! 0 ! 0 * P ! Suc 0 ! Suc 0"
  proof (cases "P ! Suc 0 ! Suc 0 = 0")
    case True
    have "P ! 0 ! Suc 0 = 0"
    proof (rule ccontr)
      assume nz: "P ! 0 ! Suc 0 \<noteq> 0"
      have "0 \<le> P ! 0 ! 0 + 2 * P ! 0 ! Suc 0 * (- (P ! 0 ! 0 + 1) / (2 * P ! 0 ! Suc 0))"
        using q [of 1 "- (P ! 0 ! 0 + 1) / (2 * P ! 0 ! Suc 0)"] True by simp
      then show False using nz by simp
    qed
    then show ?thesis using True by simp
  next
    case False
    then have pos: "0 < P ! Suc 0 ! Suc 0" using p11 by simp
    have "0 \<le> P ! Suc 0 ! Suc 0 * (P ! 0 ! 0 * P ! Suc 0 ! Suc 0 - P ! 0 ! Suc 0 * P ! 0 ! Suc 0)"
      using q [of "P ! Suc 0 ! Suc 0" "- P ! 0 ! Suc 0"] by (simp add: algebra_simps)
    then have "0 \<le> P ! 0 ! 0 * P ! Suc 0 ! Suc 0 - P ! 0 ! Suc 0 * P ! 0 ! Suc 0"
      using pos by (simp add: zero_le_mult_iff)
    then show ?thesis by simp
  qed
qed

lemma lidar_S_det_pos:
  assumes conf: "configured s" and psd: "positive_semidefinite 5 (P_m s)" and sym: "symmetric 5 (P_m s)"
  shows "0 < lidar_S s ! 0 ! 0 * lidar_S s ! Suc 0 ! Suc 0 - lidar_S s ! 0 ! Suc 0 * lidar_S s ! Suc 0 ! 0"
proof -
  note m = psd_minor [OF psd sym]
  have s01: "P_m s ! Suc 0 ! 0 = P_m s ! 0 ! Suc 0"
    using symmetricD [OF sym, of "Suc 0" 0] by simp
  have "0 < (P_m s ! 0 ! 0 * P_m s ! Suc 0 ! Suc 0 - P_m s ! 0 ! Suc 0 * P_m s ! 0 ! Suc 0)
            + (225 / 10000) * (P_m s ! 0 ! 0 + P_m s ! Suc 0 ! Suc 0) + (225 / 10000) * (225 / 10000)"
    using m by (intro add_nonneg_pos add_nonneg_nonneg) simp_all
  moreover have "lidar_S s ! 0 ! 0 * lidar_S s ! Suc 0 ! Suc 0 - lidar_S s ! 0 ! Suc 0 * lidar_S s ! Suc 0 ! 0
      = (P_m s ! 0 ! 0 * P_m s ! Suc 0 ! Suc 0 - P_m s ! 0 ! Suc 0 * P_m s ! 0 ! Suc 0)
            + (225 / 10000) * (P_m s ! 0 ! 0 + P_m s ! Suc 0 ! Suc 0) + (225 / 10000) * (225 / 10000)"
    by (simp add: lidar_S_nth [OF conf] s01 algebra_simps)
  ultimately show ?thesis
    by simp
qed

lemma lidar_inverse_exists:
  assumes conf: "configured s" and psd: "positive_semidefinite 5 (P_m s)" and sym: "symmetric 5 (P_m s)"
  shows "\<exists>Si. inverse2 (lidar_S s) = Some Si"
  using lidar_S_det_pos [OF assms] by (simp add: inverse2_def Let_def)

lemma symmetric5_rewrites:
  assumes "symmetric 5 P"
  shows "P ! Suc 0 ! 0 = P ! 0 ! Suc 0" "P ! 2 ! 0 = P ! 0 ! 2" "P ! 3 ! 0 = P ! 0 ! 3" "P ! 4 ! 0 = P ! 0 ! 4"
    "P ! 2 ! Suc 0 = P ! Suc 0 ! 2" "P ! 3 ! Suc 0 = P ! Suc 0 ! 3" "P ! 4 ! Suc 0 = P ! Suc 0 ! 4"
    "P ! 3 ! 2 = P ! 2 ! 3" "P ! 4 ! 2 = P ! 2 ! 4" "P ! 4 ! 3 = P ! 3 ! 4"
  using assms by (simp_all add: symmetric_def)

lemma quad_form_shift:
  assumes sym: "symmetric 5 P" and len: "length v = 5"
  shows "quad_form P [v ! 0 - y0, v ! Suc 0 - y1, v ! 2, v ! 3, v ! 4]
         = quad_form P v
           - 2 * (y0 * (\<Sum>i<5. v ! i * P ! i ! 0) + y1 * (\<Sum>i<5. v ! i * P ! i ! Suc 0))
           + (P ! 0 ! 0 * y0 * y0 + 2 * P ! 0 ! Suc 0 * y0 * y1 + P ! Suc 0 ! Suc 0 * y1 * y1)"
proof -
  define w where "w = [v ! 0 - y0, v ! Suc 0 - y1, v ! 2, v ! 3, v ! 4]"
  have w: "length w = 5" "w ! 0 = v ! 0 - y0" "w ! Suc 0 = v ! Suc 0 - y1"
    "w ! 2 = v ! 2" "w ! 3 = v ! 3" "w ! 4 = v ! 4"
    by (simp_all add: w_def)
  have "quad_form P w
         = quad_form P v
           - 2 * (y0 * (\<Sum>i<5. v ! i * P ! i ! 0) + y1 * (\<Sum>i<5. v ! i * P ! i ! Suc 0))
           + (P ! 0 ! 0 * y0 * y0 + 2 * P ! 0 ! Suc 0 * y0 * y1 + P ! Suc 0 ! Suc 0 * y1 * y1)"
    by (simp add: quad_form_def len w sum5 symmetric5_rewrites [OF sym] algebra_simps)
  then show ?thesis
    by (simp only: w_def)
qed

lemma lidar_quad_form:
  assumes conf: "configured s" and sym: "symmetric 5 (P_m s)"
    and inv: "inverse2 (lidar_S s) = Some Si" and len: "length v = 5"
  shows "quad_form (mat_mul (mat_sub (mat_identity (n_x_m s))
            (mat_mul (mat_mul (mat_mul (P_m s) (mat_transpose (Lidar_H_m s))) Si) (Lidar_H_m s)))
            (P_m s)) v
         = quad_form (P_m s) v
           - ((Si ! 0 ! 0 * (\<Sum>i<5. v ! i * P_m s ! i ! 0) + Si ! 0 ! Suc 0 * (\<Sum>i<5. v ! i * P_m s ! i ! Suc 0))
                * (\<Sum>i<5. v ! i * P_m s ! i ! 0)
              + (Si ! Suc 0 ! 0 * (\<Sum>i<5. v ! i * P_m s ! i ! 0) + Si ! Suc 0 ! Suc 0 * (\<Sum>i<5. v ! i * P_m s ! i ! Suc 0))
                * (\<Sum>i<5. v ! i * P_m s ! i ! Suc 0))"
proof -
  have Si: "Si ! Suc 0 ! 0 = Si ! 0 ! Suc 0"
    using symmetricD [OF sym, of 0 "Suc 0"] lidar_S_nth [OF conf, of 0 "Suc 0"] lidar_S_nth [OF conf, of "Suc 0" 0]
    by (simp add: inverse2_Some(3,4) [OF inv])
  show ?thesis
    by (simp add: quad_form_def len sum5 lidar_P_nth [OF conf inv] Si
          symmetric5_rewrites [OF sym] algebra_simps)
qed

lemma lidar_update_psd:
  assumes conf: "configured s" and psd: "positive_semidefinite 5 (P_m s)"
    and sym: "symmetric 5 (P_m s)" and inv: "inverse2 (lidar_S s) = Some Si"
  shows "positive_semidefinite 5 (mat_mul (mat_sub (mat_identity (n_x_m s))
            (mat_mul (mat_mul (mat_mul (P_m s) (mat_transpose (Lidar_H_m s))) Si) (Lidar_H_m s)))
            (P_m s))"
  unfolding positive_semidefinite_def
proof (intro allI impI)
  fix v :: vector
  assume len: "length v = 5"
  define u0 where "u0 = (\<Sum>i<5. v ! i * P_m s ! i ! 0)"
  define u1 where "u1 = (\<Sum>i<5. v ! i * P_m s ! i ! Suc 0)"
  define y0 where "y0 = Si ! 0 ! 0 * u0 + Si ! 0 ! Suc 0 * u1"
  define y1 where "y1 = Si ! Suc 0 ! 0 * u0 + Si ! Suc 0 ! Suc 0 * u1"
  define r :: real where "r = 225 / 10000"
  define p00 where "p00 = P_m s ! 0 ! 0"
  define p01 where "p01 = P_m s ! 0 ! Suc 0"
  define p11 where "p11 = P_m s ! Suc 0 ! Suc 0"
  define D where "D = (p00 + r) * (p11 + r) - p01 * p01"
  have p10: "P_m s ! Suc 0 ! 0 = p01"
    using symmetricD [OF sym, of "Suc 0" 0] by (simp add: p01_def)
  have S: "lidar_S s ! 0 ! 0 = p00 + r" "lidar_S s ! 0 ! Suc 0 = p01"
    "lidar_S s ! Suc 0 ! 0 = p01" "lidar_S s ! Suc 0 ! Suc 0 = p11 + r"
    using lidar_S_nth [OF conf, of 0 0] lidar_S_nth [OF conf, of 0 "Suc 0"]
      lidar_S_nth [OF conf, of "Suc 0" 0] lidar_S_nth [OF conf, of "Suc 0" "Suc 0"]
    by (simp_all add: p00_def p01_def p11_def r_def p10)
  have D: "D \<noteq> 0"
    using inverse2_Some(1) [OF inv] by (simp add: S D_def)
  have Si: "Si ! 0 ! 0 = (p11 + r) / D" "Si ! 0 ! Suc 0 = - p01 / D"
    "Si ! Suc 0 ! 0 = - p01 / D" "Si ! Suc 0 ! Suc 0 = (p00 + r) / D"
    using inverse2_Some(2-5) [OF inv] by (simp_all add: S D_def)
  have y: "y0 = ((p11 + r) * u0 - p01 * u1) / D" "y1 = ((p00 + r) * u1 - p01 * u0) / D"
    using D by (simp_all add: y0_def y1_def Si diff_divide_distrib add_divide_distrib algebra_simps)
  have solve0: "(p00 + r) * y0 + p01 * y1 = u0"
  proof -
    have "(p00 + r) * y0 + p01 * y1
          = ((p00 + r) * ((p11 + r) * u0 - p01 * u1) + p01 * ((p00 + r) * u1 - p01 * u0)) / D"
      unfolding y by (simp add: add_divide_distrib)
    also have "(p00 + r) * ((p11 + r) * u0 - p01 * u1) + p01 * ((p00 + r) * u1 - p01 * u0) = D * u0"
      by (simp add: D_def algebra_simps)
    also have "D * u0 / D = u0"
      using D by simp
    finally show ?thesis .
  qed
  have solve1: "p01 * y0 + (p11 + r) * y1 = u1"
  proof -
    have "p01 * y0 + (p11 + r) * y1
          = (p01 * ((p11 + r) * u0 - p01 * u1) + (p11 + r) * ((p00 + r) * u1 - p01 * u0)) / D"
      unfolding y by (simp add: add_divide_distrib)
    also have "p01 * ((p11 + r) * u0 - p01 * u1) + (p11 + r) * ((p00 + r) * u1 - p01 * u0) = D * u1"
      by (simp add: D_def algebra_simps)
    also have "D * u1 / D = u1"
      using D by simp
    finally show ?thesis .
  qed
  have after: "quad_form (mat_mul (mat_sub (mat_identity (n_x_m s))
            (mat_mul (mat_mul (mat_mul (P_m s) (mat_transpose (Lidar_H_m s))) Si) (Lidar_H_m s)))
            (P_m s)) v = quad_form (P_m s) v - (y0 * u0 + y1 * u1)"
    unfolding lidar_quad_form [OF conf sym inv len] y0_def y1_def u0_def u1_def ..
  define A where "A = y0 * u0 + y1 * u1"
  define R where "R = r * (y0 * y0 + y1 * y1)"
  define B where "B = p00 * y0 * y0 + 2 * p01 * y0 * y1 + p11 * y1 * y1"
  have "0 \<le> quad_form (P_m s) [v ! 0 - y0, v ! Suc 0 - y1, v ! 2, v ! 3, v ! 4]"
    using psd by (simp add: positive_semidefinite_def)
  then have shifted: "0 \<le> quad_form (P_m s) v - 2 * A + B"
    unfolding quad_form_shift [OF sym len] u0_def u1_def p00_def p01_def p11_def A_def B_def .
  have "B = y0 * ((p00 + r) * y0 + p01 * y1) + y1 * (p01 * y0 + (p11 + r) * y1)
          - r * (y0 * y0 + y1 * y1)"
    by (simp add: B_def algebra_simps)
  also have "\<dots> = A - R"
    unfolding solve0 solve1 A_def R_def ..
  finally have B: "B = A - R" .
  have "0 \<le> R"
    by (simp add: R_def r_def)
  with shifted B have "0 \<le> quad_form (P_m s) v - A"
    by linarith
  then show "0 \<le> quad_form (mat_mul (mat_sub (mat_identity (n_x_m s))
            (mat_mul (mat_mul (mat_mul (P_m s) (mat_transpose (Lidar_H_m s))) Si) (Lidar_H_m s)))
            (P_m s)) v"
    unfolding after A_def .
qed

subsection \<open>The radar update\<close>

lemma sized_set_col:
  "sized r c M \<Longrightarrow> length v = r \<Longrightarrow> sized r c (set_col M j v)"
  by (rule sizedI) (simp_all add: set_col_def sized_def)

lemma radar_projection_length: "radar_projection c = Returns z \<Longrightarrow> length z = 3"
  by (auto simp: radar_projection_def Let_def split: if_splits)

lemma fold_projection_sized:
  "fold (\<lambda>i acc. and_then acc (\<lambda>Zsig. and_then (radar_projection (g i)) (\<lambda>z. Returns (set_col Zsig i z))))
     is acc0 = Returns Z \<Longrightarrow>
   (\<And>Z0. acc0 = Returns Z0 \<Longrightarrow> sized 3 c Z0) \<Longrightarrow> sized 3 c Z"
proof (induction "is" arbitrary: acc0)
  case Nil
  then show ?case by simp
next
  case (Cons i "is")
  show ?case
  proof (rule Cons.IH)
    show "fold (\<lambda>i acc. and_then acc (\<lambda>Zsig. and_then (radar_projection (g i)) (\<lambda>z. Returns (set_col Zsig i z))))
            is (and_then acc0 (\<lambda>Zsig. and_then (radar_projection (g i)) (\<lambda>z. Returns (set_col Zsig i z)))) = Returns Z"
      using Cons.prems(1) by simp
  next
    fix Z0
    assume "and_then acc0 (\<lambda>Zsig. and_then (radar_projection (g i)) (\<lambda>z. Returns (set_col Zsig i z))) = Returns Z0"
    then show "sized 3 c Z0"
      using Cons.prems(2)
      by (auto simp: and_then_def sized_set_col radar_projection_length split: outcome.splits)
  qed
qed

lemma project_sigma_points_sized:
  assumes "configured s" and "project_sigma_points s = Returns Zsig"
  shows "sized 3 15 Zsig"
proof (rule fold_projection_sized)
  show "fold (\<lambda>i acc. and_then acc (\<lambda>Z. and_then (radar_projection (col (Xsig_pred_m s) i)) (\<lambda>z. Returns (set_col Z i z))))
          [0..<2 * n_aug_m s + 1] (Returns (mat_new (n_z_m s) (2 * n_aug_m s + 1))) = Returns Zsig"
    using assms(2) by (simp add: project_sigma_points_def)
next
  fix Z0
  assume "Returns (mat_new (n_z_m s) (2 * n_aug_m s + 1)) = Returns Z0"
  then show "sized 3 15 Z0"
    using sized_mat_new [of 3 15] by (auto simp: configured_fields(2,3) [OF assms(1)])
qed

lemma length_z_diff_of:
  "length Zsig = n \<Longrightarrow> length z_pred = n \<Longrightarrow> length (z_diff_of Zsig z_pred i) = n"
  by (simp add: z_diff_of_def normalized_difference_def length_normalize_at length_vec_sub length_col)

lemma predicted_measurement_length:
  assumes "configured s" and "sized 3 15 Zsig"
  shows "length (predicted_measurement s Zsig) = 3"
  unfolding predicted_measurement_def
  by (rule fold_vec_add_length)
     (simp_all add: length_vec_fill length_vec_scale length_col vec_new_def
        configured_fields(3) [OF assms(1)] sized_length [OF assms(2)])

lemma sized_Radar_R: "sized 3 3 [[9 / 100, 0, 0], [0, 9 / 10000, 0], [0, 0, 9 / 100::real]]"
  by (simp add: sized_def)

lemma less3_cases: "a < (3::nat) \<Longrightarrow> a = 0 \<or> a = Suc 0 \<or> a = 2"
  by auto

lemma innovation_covariance_props:
  assumes conf: "configured s" and Z: "length Zsig = 3" and z: "length z_pred = 3"
  shows "sized 3 3 (innovation_covariance s Zsig z_pred)"
    and "symmetric 3 (innovation_covariance s Zsig z_pred)"
proof -
  note c = configured_fields [OF conf]
  let ?F = "\<lambda>i. outer (vec_scale (weights_m s ! i) (z_diff_of Zsig z_pred i)) (z_diff_of Zsig z_pred i)"
  let ?S0 = "fold (\<lambda>i S. mat_add S (?F i)) [0..<2 * n_aug_m s + 1]
               (mat_fill (mat_new (n_z_m s) (n_z_m s)) 0.0)"
  have d: "length (z_diff_of Zsig z_pred i) = 3" for i
    by (rule length_z_diff_of [OF Z z])
  have szF: "sized 3 3 (?F i)" for i
    using sized_outer [of "vec_scale (weights_m s ! i) (z_diff_of Zsig z_pred i)" "z_diff_of Zsig z_pred i"]
    by (simp add: length_vec_scale d)
  have sz0: "sized 3 3 (mat_fill (mat_new (n_z_m s) (n_z_m s)) 0.0)"
    unfolding c(3) by (rule sized_mat_fill [OF sized_mat_new])
  have szS0: "sized 3 3 ?S0"
    by (rule fold_mat_add_sized [OF sz0 szF])
  have S: "innovation_covariance s Zsig z_pred = mat_add ?S0 [[9 / 100, 0, 0], [0, 9 / 10000, 0], [0, 0, 9 / 100]]"
    by (simp add: innovation_covariance_def Let_def c(15))
  show "sized 3 3 (innovation_covariance s Zsig z_pred)"
    unfolding S by (rule sized_mat_add [OF szS0 sized_Radar_R])
  have S0: "?S0 ! a ! b = (\<Sum>i\<leftarrow>[0..<2 * n_aug_m s + 1]. ?F i ! a ! b)" if "a < 3" "b < 3" for a b
    using fold_mat_add_nth [OF sz0 szF that, where ns = "[0..<2 * n_aug_m s + 1]"]
    by (simp add: nth_mat_fill [OF sized_mat_new] that c(3))
  have S0sym: "?S0 ! a ! b = ?S0 ! b ! a" if "a < 3" "b < 3" for a b
    unfolding S0 [OF that] S0 [OF that(2,1)]
    using that by (simp add: nth_outer length_vec_scale nth_vec_scale d mult_ac)
  show "symmetric 3 (innovation_covariance s Zsig z_pred)"
    unfolding symmetric_def S
  proof (intro allI impI)
    fix a b :: nat
    assume ab: "a < 3" "b < 3"
    show "mat_add ?S0 [[9 / 100, 0, 0], [0, 9 / 10000, 0], [0, 0, 9 / 100]] ! a ! b
        = mat_add ?S0 [[9 / 100, 0, 0], [0, 9 / 10000, 0], [0, 0, 9 / 100]] ! b ! a"
      unfolding nth_mat_add [OF szS0 sized_Radar_R ab] nth_mat_add [OF szS0 sized_Radar_R ab(2,1)]
        S0sym [OF ab]
      using less3_cases [OF ab(1)] less3_cases [OF ab(2)] by auto
  qed
qed

lemma cross_correlation_sized:
  assumes conf: "configured s" and Z: "length Zsig = 3" and z: "length z_pred = 3"
  shows "sized 5 3 (cross_correlation s Zsig z_pred)"
proof -
  note c = configured_fields [OF conf]
  have dz: "length (z_diff_of Zsig z_pred i) = 3" for i
    by (rule length_z_diff_of [OF Z z])
  have dx: "length (x_diff_of (Xsig_pred_m s) (x_m s) i) = 5" for i
    by (rule length_x_diff_of [OF sized_length [OF c(18)] c(16)])
  show ?thesis
    unfolding cross_correlation_def Let_def
  proof (rule fold_mat_add_sized)
    show "sized 5 3 (mat_fill (mat_new (n_x_m s) (n_z_m s)) 0.0)"
      unfolding c(1,3) by (rule sized_mat_fill [OF sized_mat_new])
  next
    fix i
    show "sized 5 3 (outer (vec_scale (weights_m s ! i) (x_diff_of (Xsig_pred_m s) (x_m s) i))
             (z_diff_of Zsig z_pred i))"
      using sized_outer [of "vec_scale (weights_m s ! i) (x_diff_of (Xsig_pred_m s) (x_m s) i)"
                "z_diff_of Zsig z_pred i"]
      by (simp add: length_vec_scale dx dz)
  qed
qed

lemma inverse3_sized: "inverse3 S = Some Si \<Longrightarrow> sized 3 3 Si"
  by (auto simp: inverse3_def Let_def sized_def split: if_splits)

text \<open>\<open>P - K * S * K\<^sup>T\<close> is symmetric when \<open>P\<close> and \<open>S\<close> are.\<close>

lemma sub_KSKt_symmetric:
  assumes P: "sized 5 5 P" "symmetric 5 P" and S: "sized 3 3 S" "symmetric 3 S" and K: "sized 5 3 K"
  shows "symmetric 5 (mat_sub P (mat_mul (mat_mul K S) (mat_transpose K)))"
  unfolding symmetric_def
proof (intro allI impI)
  fix i j :: nat
  assume i: "i < 5" and j: "j < 5"
  have szKS: "sized 5 3 (mat_mul K S)"
    by (rule sized_mat_mul [OF K S(1)]) simp
  have szKt: "sized 3 5 (mat_transpose K)"
    by (rule sized_mat_transpose [OF K]) simp
  have szKSKt: "sized 5 5 (mat_mul (mat_mul K S) (mat_transpose K))"
    by (rule sized_mat_mul [OF szKS szKt]) simp
  have Ssym: "S ! Suc 0 ! 0 = S ! 0 ! Suc 0" "S ! 2 ! 0 = S ! 0 ! 2" "S ! 2 ! Suc 0 = S ! Suc 0 ! 2"
    using S(2) by (simp_all add: symmetric_def)
  have entry: "mat_mul (mat_mul K S) (mat_transpose K) ! a ! b
        = (\<Sum>l<3. (\<Sum>k<3. K ! a ! k * S ! k ! l) * K ! b ! l)" if "a < 5" "b < 5" for a b
    using that
    by (simp add: nth_mat_mul [OF szKS szKt] nth_mat_mul [OF K S(1)] nth_mat_transpose [OF K])
  show "mat_sub P (mat_mul (mat_mul K S) (mat_transpose K)) ! i ! j
      = mat_sub P (mat_mul (mat_mul K S) (mat_transpose K)) ! j ! i"
    unfolding nth_mat_sub [OF P(1) szKSKt i j] nth_mat_sub [OF P(1) szKSKt j i]
      entry [OF i j] entry [OF j i] symmetricD [OF P(2) i j]
    by (simp add: sum3 Ssym algebra_simps)
qed

subsection \<open>A lower bound on \<open>pi\<close>\<close>

lemma cos_coeff_vals:
  "cos_coeff 0 = 1" "cos_coeff 1 = 0" "cos_coeff 2 = - 1 / 2" "cos_coeff 3 = 0"
  "cos_coeff 4 = 1 / 24" "cos_coeff 5 = 0" "cos_coeff 6 = - 1 / 720" "cos_coeff 7 = 0"
  "cos_coeff 8 = 1 / 40320" "cos_coeff 9 = 0"
  by (simp_all add: cos_coeff_def fact_numeral)

lemma sum10: "(\<Sum>m<10. g m) = g (0::nat) + g 1 + g 2 + g 3 + g 4 + g 5 + g 6 + g 7 + g 8 + (g 9 :: real)"
  by (simp add: eval_nat_numeral lessThan_Suc)

lemma cos_155_pos: "0 < cos (155 / 100 :: real)"
proof -
  obtain t :: real where t: "cos (155 / 100) = (\<Sum>m<10. cos_coeff m * (155 / 100) ^ m)
      + (cos (t + 1 / 2 * real (10::nat) * pi) / fact 10) * (155 / 100) ^ 10"
    using Maclaurin_cos_expansion2 [of "155 / 100" 10] by auto
  have s: "(2 / 100 :: real) < (\<Sum>m<10. cos_coeff m * (155 / 100) ^ m)"
    unfolding sum10 cos_coeff_vals by (simp add: power_divide)
  have "- 1 \<le> cos (t + 1 / 2 * real (10::nat) * pi)"
    by simp
  then have "- ((155 / 100) ^ 10 / fact 10) \<le> (cos (t + 1 / 2 * real (10::nat) * pi) / fact 10) * (155 / 100 :: real) ^ 10"
    by (simp add: field_simps)
  moreover have "(155 / 100 :: real) ^ 10 / fact 10 < 1 / 100"
    by (simp add: fact_numeral power_divide)
  ultimately show ?thesis
    using t s by linarith
qed

lemma pi_gt_31: "31 / 10 < pi"
proof (rule ccontr)
  assume "\<not> 31 / 10 < pi"
  then have le: "pi \<le> 31 / 10" by simp
  have "31 / 10 < 2 * pi" using pi_ge_two by linarith
  with le have "sin (31 / 10 :: real) \<le> 0" by (rule sin_le_zero)
  moreover have "sin (31 / 10 :: real) = 2 * sin (155 / 100) * cos (155 / 100)"
    using sin_double [of "155 / 100 :: real"] by simp
  moreover have "0 < sin (155 / 100 :: real)"
    by (rule sin_gt_zero_02) simp_all
  ultimately show False
    using cos_155_pos by (simp add: mult_le_0_iff)
qed

subsection \<open>The normalisation loops\<close>

lemma wrap_down_props:
  "wrap_down a \<le> pi \<and> (a \<le> pi \<longrightarrow> wrap_down a = a) \<and> (pi < a \<longrightarrow> - pi < wrap_down a)
   \<and> (\<exists>n::int. wrap_down a = a + 2 * pi * of_int n)"
proof (induction a rule: wrap_down.induct)
  case (1 a)
  show ?case
  proof (cases "pi < a")
    case True
    note ih = "1.IH" [OF True]
    have eq: "wrap_down a = wrap_down (a - 2 * pi)"
      using True by (subst wrap_down.simps) simp
    from ih obtain n :: int where n: "wrap_down (a - 2 * pi) = a - 2 * pi + 2 * pi * of_int n"
      by blast
    have "wrap_down a = a + 2 * pi * of_int (n - 1)"
      unfolding eq n by (simp add: algebra_simps)
    then have ex: "\<exists>n::int. wrap_down a = a + 2 * pi * of_int n" ..
    have lo: "- pi < wrap_down a"
    proof (cases "a - 2 * pi \<le> pi")
      case True
      with ih have "wrap_down (a - 2 * pi) = a - 2 * pi" by simp
      with \<open>pi < a\<close> show ?thesis unfolding eq by simp
    next
      case False
      with ih show ?thesis unfolding eq by simp
    qed
    show ?thesis
      using True ih lo ex unfolding eq by simp
  next
    case False
    then have eq: "wrap_down a = a"
      by (subst wrap_down.simps) simp
    have "a = a + 2 * pi * of_int 0" by simp
    then have "\<exists>n::int. a = a + 2 * pi * of_int n" ..
    then show ?thesis
      using False unfolding eq by simp
  qed
qed

lemma wrap_up_props:
  "- pi \<le> wrap_up a \<and> (- pi \<le> a \<longrightarrow> wrap_up a = a) \<and> (a < - pi \<longrightarrow> wrap_up a < pi)
   \<and> (\<exists>n::int. wrap_up a = a + 2 * pi * of_int n)"
proof (induction a rule: wrap_up.induct)
  case (1 a)
  show ?case
  proof (cases "a < - pi")
    case True
    note ih = "1.IH" [OF True]
    have eq: "wrap_up a = wrap_up (a + 2 * pi)"
      using True by (subst wrap_up.simps) simp
    from ih obtain n :: int where n: "wrap_up (a + 2 * pi) = a + 2 * pi + 2 * pi * of_int n"
      by blast
    have "wrap_up a = a + 2 * pi * of_int (n + 1)"
      unfolding eq n by (simp add: algebra_simps)
    then have ex: "\<exists>n::int. wrap_up a = a + 2 * pi * of_int n" ..
    have hi: "wrap_up a < pi"
    proof (cases "- pi \<le> a + 2 * pi")
      case True
      with ih have "wrap_up (a + 2 * pi) = a + 2 * pi" by simp
      with \<open>a < - pi\<close> show ?thesis unfolding eq by simp
    next
      case False
      with ih show ?thesis unfolding eq by simp
    qed
    show ?thesis
      using True ih hi ex unfolding eq by simp
  next
    case False
    then have eq: "wrap_up a = a"
      by (subst wrap_up.simps) simp
    have "a = a + 2 * pi * of_int 0" by simp
    then have "\<exists>n::int. a = a + 2 * pi * of_int n" ..
    then show ?thesis
      using False unfolding eq by simp
  qed
qed



lemma normalize_angle_id: "- pi \<le> a \<Longrightarrow> a \<le> pi \<Longrightarrow> normalize_angle a = a"
  using wrap_down_props [of a] wrap_up_props [of a] by (simp add: normalize_angle_def)



subsection \<open>The two difference quotients of the curved path\<close>

lemma sin_quotient_limit:
  "((\<lambda>h. (sin (yaw + h * delta_t) - sin yaw) / h) \<longlongrightarrow> cos yaw * delta_t) (at (0::real))"
proof -
  have "((\<lambda>w. sin (yaw + w * delta_t)) has_field_derivative cos yaw * delta_t) (at 0)"
    by (auto intro!: derivative_eq_intros)
  then have "(\<lambda>h. (sin (yaw + (0 + h) * delta_t) - sin (yaw + 0 * delta_t)) / h) \<midarrow>0\<rightarrow> cos yaw * delta_t"
    unfolding DERIV_def .
  then show ?thesis by simp
qed

lemma cos_quotient_limit:
  "((\<lambda>h. (- 1 * cos (yaw + h * delta_t) + cos yaw) / h) \<longlongrightarrow> sin yaw * delta_t) (at (0::real))"
proof -
  have "((\<lambda>w. - cos (yaw + w * delta_t)) has_field_derivative sin yaw * delta_t) (at 0)"
    by (auto intro!: derivative_eq_intros)
  then have "(\<lambda>h. (- cos (yaw + (0 + h) * delta_t) - - cos (yaw + 0 * delta_t)) / h) \<midarrow>0\<rightarrow> sin yaw * delta_t"
    unfolding DERIV_def .
  then show ?thesis by simp
qed

subsection \<open>The first measurement\<close>

lemma first_measurement_laser:
  assumes "configured s" and "sensor_type_m m = LASER" and "raw_measurements_m m = [a, b]"
  shows "first_measurement m s =
     Returns (s\<lparr>is_initialized_m := True, time_us_m := timestamp_m m,
                x_m := [a, b, 0, 0, 0],
                P_m := [[225 / 10000, 0, 0, 0, 0],
                        [0, 225 / 10000, 0, 0, 0],
                        [0, 0, 1, 0, 0],
                        [0, 0, 0, 1, 0],
                        [0, 0, 0, 0, 1]]\<rparr>)"
proof -
  note c = configured_fields [OF assms(1)]
  obtain x0 x1 x2 x3 x4 where x: "x_m s = [x0, x1, x2, x3, x4]"
    using vector5 [OF c(16)] by blast
  show ?thesis
    by (simp add: first_measurement_def Let_def assms(2,3) c(8,9) x vec_fill_def)
qed

subsection \<open>The covariance after the three operations\<close>

lemma upt15: "[0..<15] = [0, 1, 2, 3, 4, 5, 6, 7, 8, 9, 10, 11, 12, 13, 14]"
  by (simp add: upt_conv_Cons)

lemma normalize_angle_0: "normalize_angle 0 = 0"
  by (rule normalize_angle_id) simp_all

lemma UpdateRadar_symmetric:
  assumes conf: "configured s" and sym: "symmetric 5 (P_m s)"
    and ret: "UpdateRadar m s = Returns s'"
  shows "symmetric 5 (P_m s')"
proof -
  note c = configured_fields [OF conf]
  from ret obtain Zsig where Z: "project_sigma_points s = Returns Zsig"
    by (auto simp: UpdateRadar_def and_then_def split: outcome.splits)
  let ?z = "predicted_measurement s Zsig"
  let ?S = "innovation_covariance s Zsig ?z"
  let ?Tc = "cross_correlation s Zsig ?z"
  from ret Z obtain Si where Si: "inverse3 ?S = Some Si"
    and P': "P_m s' = mat_sub (P_m s) (mat_mul (mat_mul (mat_mul ?Tc Si) ?S) (mat_transpose (mat_mul ?Tc Si)))"
    by (auto simp: UpdateRadar_def and_then_def Let_def split: option.splits if_splits)
  have szZ: "sized 3 15 Zsig"
    by (rule project_sigma_points_sized [OF conf Z])
  have lZ: "length Zsig = 3"
    by (rule sized_length [OF szZ])
  have lz: "length ?z = 3"
    by (rule predicted_measurement_length [OF conf szZ])
  have K: "sized 5 3 (mat_mul ?Tc Si)"
    by (rule sized_mat_mul [OF cross_correlation_sized [OF conf lZ lz] inverse3_sized [OF Si]]) simp
  show ?thesis
    unfolding P'
    by (rule sub_KSKt_symmetric [OF c(17) sym innovation_covariance_props [OF conf lZ lz] K])
qed

lemma UpdateLidar_symmetric:
  assumes conf: "configured s" and sym: "symmetric 5 (P_m s)"
    and ret: "UpdateLidar m s = Returns s'"
  shows "symmetric 5 (P_m s')"
proof -
  from ret obtain Si where Si: "inverse2 (lidar_S s) = Some Si"
    and P': "P_m s' = mat_mul (mat_sub (mat_identity (n_x_m s))
                        (mat_mul (mat_mul (mat_mul (P_m s) (mat_transpose (Lidar_H_m s))) Si) (Lidar_H_m s)))
                        (P_m s)"
    unfolding UpdateLidar_Returns by auto
  show ?thesis
    unfolding P' by (rule lidar_update_symmetric [OF conf sym Si])
qed

lemma UpdateLidar_psd:
  assumes conf: "configured s" and sym: "symmetric 5 (P_m s)"
    and psd: "positive_semidefinite 5 (P_m s)" and len: "length (raw_measurements_m m) = 2"
  shows "\<exists>s'. UpdateLidar m s = Returns s' \<and> positive_semidefinite 5 (P_m s')"
proof -
  note c = configured_fields [OF conf]
  obtain Si where Si: "inverse2 (lidar_S s) = Some Si"
    using lidar_inverse_exists [OF conf psd sym] by blast
  have l: "length (raw_measurements_m m) = length (mat_vec (Lidar_H_m s) (x_m s))"
    by (simp add: len c(13) mat_vec_def)
  let ?s' = "s\<lparr>x_m := vec_add (x_m s)
                      (mat_vec (mat_mul (mat_mul (P_m s) (mat_transpose (Lidar_H_m s))) Si)
                         (vec_sub (raw_measurements_m m) (mat_vec (Lidar_H_m s) (x_m s)))),
               P_m := mat_mul (mat_sub (mat_identity (n_x_m s))
                        (mat_mul (mat_mul (mat_mul (P_m s) (mat_transpose (Lidar_H_m s))) Si) (Lidar_H_m s)))
                        (P_m s)\<rparr>"
  have "UpdateLidar m s = Returns ?s'"
    unfolding UpdateLidar_Returns using l Si by blast
  moreover have "positive_semidefinite 5 (P_m ?s')"
    using lidar_update_psd [OF conf psd sym Si] by simp
  ultimately show ?thesis by blast
qed

lemma PredictMeanAndCovariance_symmetric:
  assumes "configured s"
  shows "symmetric 5 (P_m (PredictMeanAndCovariance s))"
  using predicted_covariance_symmetric [OF assms predicted_mean_length [OF assms]]
  by (simp add: PredictMeanAndCovariance_def Let_def)

lemma identity_symmetric: "symmetric 5 (mat_identity 5)"
  by (auto simp: symmetric_def nth_mat_identity)

lemma identity_psd: "positive_semidefinite 5 (mat_identity 5)"
  unfolding positive_semidefinite_def
proof (intro allI impI)
  fix v :: vector
  assume len: "length v = 5"
  have "quad_form (mat_identity 5) v = (\<Sum>i<5. v ! i * v ! i)"
    by (simp add: quad_form_def len sum5 nth_mat_identity)
  also have "0 \<le> \<dots>"
    by (rule sum_nonneg) simp
  finally show "0 \<le> quad_form (mat_identity 5) v" .
qed

lemma configured_calm: "configured calm_filter"
  unfolding calm_filter_def
  by (rule configured_ctor) (simp_all add: sized_def mat_identity_def)

lemma calm_fields:
  "Xsig_pred_m calm_filter = [[1,1,1,1,1,1,1,1,1,1,1,1,1,1,1], [0,0,0,0,0,0,0,0,0,0,0,0,0,0,0], [0,0,0,0,0,0,0,0,0,0,0,0,0,0,0],
     [0,0,0,0,0,0,0,0,0,0,0,0,0,0,0], [0,0,0,0,0,0,0,0,0,0,0,0,0,0,0]]"
  "x_m calm_filter = [1, 0, 0, 0, 0]"
  "P_m calm_filter = mat_identity 5"
  by (simp_all add: calm_filter_def UKF_ctor_def Let_def eval_nat_numeral)

lemma calm_project:
  "project_sigma_points calm_filter = Returns [[1,1,1,1,1,1,1,1,1,1,1,1,1,1,1], [0,0,0,0,0,0,0,0,0,0,0,0,0,0,0], [0,0,0,0,0,0,0,0,0,0,0,0,0,0,0]]"
  by (simp add: project_sigma_points_def configured_fields(2,3) [OF configured_calm] upt15
        calm_fields and_then_def radar_projection_def col_def set_col_def mat_new_def atan2_def Let_def
        eval_nat_numeral)

lemma calm_z_pred: "predicted_measurement calm_filter [[1,1,1,1,1,1,1,1,1,1,1,1,1,1,1], [0,0,0,0,0,0,0,0,0,0,0,0,0,0,0], [0,0,0,0,0,0,0,0,0,0,0,0,0,0,0]] = [1, 0, 0]"
  by (simp add: predicted_measurement_def configured_fields(2,3,5) [OF configured_calm] upt15
        vec_add_def vec_scale_def col_def vec_fill_def vec_new_def eval_nat_numeral)

lemma calm_S: "innovation_covariance calm_filter [[1,1,1,1,1,1,1,1,1,1,1,1,1,1,1], [0,0,0,0,0,0,0,0,0,0,0,0,0,0,0], [0,0,0,0,0,0,0,0,0,0,0,0,0,0,0]] [1, 0, 0]
   = [[9 / 100, 0, 0], [0, 9 / 10000, 0], [0, 0, 9 / 100]]"
  by (simp add: innovation_covariance_def configured_fields(2,3,5,15) [OF configured_calm] upt15
        z_diff_of_def normalized_difference_def normalize_at_def normalize_angle_0
        mat_add_def vec_add_def vec_sub_def vec_scale_def outer_def col_def mat_fill_def vec_fill_def mat_new_def
        eval_nat_numeral)

lemma calm_radar_returns:
  "\<exists>s'. UpdateRadar \<lparr>timestamp_m = 0, sensor_type_m = RADAR, raw_measurements_m = [1, 0, 0]\<rparr> calm_filter = Returns s'"
  by (simp add: UpdateRadar_def calm_project and_then_def calm_z_pred calm_S Let_def
        inverse3_def det3_def)

subsection \<open>The range of a predicted position\<close>

lemma range_zero_iff: "sqrt (p_x * p_x + p_y * p_y) = 0 \<longleftrightarrow> p_x = 0 \<and> p_y = 0"
proof -
  have "p_x * p_x + p_y * p_y = 0 \<longleftrightarrow> p_x = 0 \<and> p_y = 0"
    by (rule sum_squares_eq_zero_iff)
  then show ?thesis by simp
qed

subsection \<open>The entry point, and evaluations on the example states\<close>

lemma first_measurement_Returns:
  assumes "2 \<le> length (raw_measurements_m m)"
  shows "\<exists>s'. first_measurement m s = Returns s' \<and> is_initialized_m s' \<and> time_us_m s' = timestamp_m m
           \<and> first_measurement m (s\<lparr>use_laser_m := ul, use_radar_m := ur\<rparr>)
               = Returns (s'\<lparr>use_laser_m := ul, use_radar_m := ur\<rparr>)"
  using assms by (simp add: first_measurement_def Let_def)

lemma first_measurement_take:
  assumes "2 \<le> length (raw_measurements_m m)"
  shows "first_measurement (m\<lparr>raw_measurements_m := take 2 (raw_measurements_m m)\<rparr>) s
         = first_measurement m s"
  using assms by (simp add: first_measurement_def Let_def)

lemma UpdateLidar_time_us: "UpdateLidar m s = Returns s' \<Longrightarrow> time_us_m s' = time_us_m s"
  unfolding UpdateLidar_Returns by auto

lemma UpdateRadar_time_us: "UpdateRadar m s = Returns s' \<Longrightarrow> time_us_m s' = time_us_m s"
  by (auto simp: UpdateRadar_def and_then_def Let_def split: outcome.splits option.splits if_splits)

lemma ProcessMeasurement_time_us:
  assumes "is_initialized_m s" and "snd (ProcessMeasurement m s) = Returns s'"
  shows "time_us_m s' = timestamp_m m"
  using assms
  by (auto simp: ProcessMeasurement_def Let_def and_then_def
        dest!: UpdateLidar_time_us UpdateRadar_time_us split: if_splits outcome.splits)

lemma upt7: "[0..<7] = [0, 1, 2, 3, 4, 5, 6]"
  by (simp add: upt_conv_Cons)

lemma sums_small:
  "(\<Sum>k<(0::nat). g k) = (0::real)"
  "(\<Sum>k<Suc 0. g k) = (g 0 :: real)"
  "(\<Sum>k<(2::nat). g k) = g 0 + (g (Suc 0) :: real)"
  "(\<Sum>k<(3::nat). g k) = g 0 + g (Suc 0) + (g 2 :: real)"
  "(\<Sum>k<(4::nat). g k) = g 0 + g (Suc 0) + g 2 + (g 3 :: real)"
  "(\<Sum>k<(5::nat). g k) = g 0 + g (Suc 0) + g 2 + g 3 + (g 4 :: real)"
  "(\<Sum>k<(6::nat). g k) = g 0 + g (Suc 0) + g 2 + g 3 + g 4 + (g 5 :: real)"
  by (simp_all add: eval_nat_numeral lessThan_Suc)

lemma calm_P_aug:
  "augmented_covariance calm_filter =
    [[1, 0, 0, 0, 0, 0, 0],
     [0, 1, 0, 0, 0, 0, 0],
     [0, 0, 1, 0, 0, 0, 0],
     [0, 0, 0, 1, 0, 0, 0],
     [0, 0, 0, 0, 1, 0, 0],
     [0, 0, 0, 0, 0, 4, 0],
     [0, 0, 0, 0, 0, 0, 4]]"
  by (simp add: augmented_covariance_def configured_fields(2,6,7) [OF configured_calm] upt7
        calm_fields mat_identity_def upt_conv_Cons)

lemma augmented_covariance_cong:
  "P_m s' = P_m s \<Longrightarrow> n_aug_m s' = n_aug_m s \<Longrightarrow> std_a_m s' = std_a_m s \<Longrightarrow>
   std_yawdd_m s' = std_yawdd_m s \<Longrightarrow> augmented_covariance s' = augmented_covariance s"
  by (simp add: augmented_covariance_def)


lemma sums7: "(\<Sum>k<(7::nat). g k) = g 0 + g (Suc 0) + g 2 + g 3 + g 4 + g 5 + (g 6 :: real)"
  by (simp add: eval_nat_numeral lessThan_Suc)


lemma inverse2_None: "inverse2 S = None \<longleftrightarrow> det2 S = 0"
  by (simp add: inverse2_def det2_def Let_def)


lemma inverse3_None: "inverse3 S = None \<longleftrightarrow> det3 S = 0"
  by (simp add: inverse3_def Let_def)

subsection \<open>The class invariant\<close>

lemma configured_update:
  assumes "configured s" and "length x' = 5" and "sized 5 5 P'" and "sized 5 15 X'"
  shows "configured (s\<lparr>is_initialized_m := b, x_m := x', P_m := P', Xsig_pred_m := X', time_us_m := t'\<rparr>)"
proof -
  from assms(1) have eq: "s\<lparr>is_initialized_m := False, use_laser_m := True, use_radar_m := True\<rparr>
       = UKF_ctor (x_m s) (P_m s) (Xsig_pred_m s) (time_us_m s)"
    by (simp add: configured_def)
  have "s\<lparr>is_initialized_m := b, x_m := x', P_m := P', Xsig_pred_m := X', time_us_m := t',
          is_initialized_m := False, use_laser_m := True, use_radar_m := True\<rparr>
        = (s\<lparr>is_initialized_m := False, use_laser_m := True, use_radar_m := True\<rparr>)
            \<lparr>x_m := x', P_m := P', Xsig_pred_m := X', time_us_m := t'\<rparr>"
    by simp
  also have "\<dots> = (UKF_ctor (x_m s) (P_m s) (Xsig_pred_m s) (time_us_m s))
            \<lparr>x_m := x', P_m := P', Xsig_pred_m := X', time_us_m := t'\<rparr>"
    by (simp only: eq)
  also have "\<dots> = UKF_ctor x' P' X' t'"
    by (simp add: UKF_ctor_def Let_def)
  finally show ?thesis
    using assms by (simp add: configured_def)
qed

lemma predict_sigma_point_length: "length (predict_sigma_point delta_t c) = 5"
  by (simp add: predict_sigma_point_def Let_def split_beta)

lemma fold_set_col_sized:
  "sized r c X \<Longrightarrow> (\<And>i. length (g i) = r) \<Longrightarrow> sized r c (fold (\<lambda>i X. set_col X i (g i)) ns X)"
  by (induction ns arbitrary: X) (simp_all add: sized_set_col)

lemma SigmaPointsPrediction_configured:
  assumes "configured s"
  shows "configured (SigmaPointsPrediction Xsig_aug delta_t s)"
proof -
  note c = configured_fields [OF assms]
  have "sized 5 15 (fold (\<lambda>i X. set_col X i (predict_sigma_point delta_t (col Xsig_aug i)))
           [0..<2 * n_aug_m s + 1] (Xsig_pred_m s))"
    by (rule fold_set_col_sized [OF c(18)]) (rule predict_sigma_point_length)
  from configured_update [OF assms c(16) c(17) this, where b = "is_initialized_m s" and t' = "time_us_m s"]
  show ?thesis
    by (simp add: SigmaPointsPrediction_def)
qed

lemma PredictMeanAndCovariance_configured:
  assumes "configured s"
  shows "configured (PredictMeanAndCovariance s)"
proof -
  note c = configured_fields [OF assms]
  note l = predicted_mean_length [OF assms]
  from configured_update [OF assms l predicted_covariance_sized [OF assms l] c(18),
      where b = "is_initialized_m s" and t' = "time_us_m s"]
  show ?thesis
    by (simp add: PredictMeanAndCovariance_def Let_def)
qed

lemma Prediction_configured:
  assumes "configured s"
  shows "configured (Prediction delta_t s)" and "symmetric 5 (P_m (Prediction delta_t s))"
proof -
  note c = SigmaPointsPrediction_configured [OF assms, of "GenerateSigmaPoints s" delta_t]
  show "configured (Prediction delta_t s)"
    unfolding Prediction_def Let_def by (rule PredictMeanAndCovariance_configured [OF c])
  show "symmetric 5 (P_m (Prediction delta_t s))"
    unfolding Prediction_def Let_def by (rule PredictMeanAndCovariance_symmetric [OF c])
qed

lemma length_mat_vec: "length (mat_vec A v) = length A"
  by (simp add: mat_vec_def)

lemma UpdateLidar_configured:
  assumes conf: "configured s" and ret: "UpdateLidar m s = Returns s'"
  shows "configured s'"
proof -
  note c = configured_fields [OF conf]
  from ret obtain Si where Si: "inverse2 (lidar_S s) = Some Si"
    and s': "s' = s\<lparr>x_m := vec_add (x_m s)
                      (mat_vec (mat_mul (mat_mul (P_m s) (mat_transpose (Lidar_H_m s))) Si)
                         (vec_sub (raw_measurements_m m) (mat_vec (Lidar_H_m s) (x_m s)))),
               P_m := mat_mul (mat_sub (mat_identity (n_x_m s))
                        (mat_mul (mat_mul (mat_mul (P_m s) (mat_transpose (Lidar_H_m s))) Si) (Lidar_H_m s)))
                        (P_m s)\<rparr>"
    unfolding UpdateLidar_Returns by auto
  let ?H = "[[1, 0, 0, 0, 0], [0, 1, 0, 0, 0::real]]"
  have szt: "sized 5 2 (mat_transpose ?H)"
    by (rule sized_mat_transpose [OF sized_Lidar_H]) simp
  have szK: "sized 5 2 (mat_mul (mat_mul (P_m s) (mat_transpose ?H)) Si)"
    by (intro sized_mat_mul [OF sized_mat_mul [OF c(17) szt] inverse2_sized [OF Si]]) simp_all
  have szKH: "sized 5 5 (mat_mul (mat_mul (mat_mul (P_m s) (mat_transpose ?H)) Si) ?H)"
    by (rule sized_mat_mul [OF szK sized_Lidar_H]) simp
  have szP: "sized 5 5 (mat_mul (mat_sub (mat_identity 5)
                 (mat_mul (mat_mul (mat_mul (P_m s) (mat_transpose ?H)) Si) ?H)) (P_m s))"
    by (rule sized_mat_mul [OF sized_mat_sub [OF sized_mat_identity szKH] c(17)]) simp
  have lx: "length (vec_add (x_m s)
                      (mat_vec (mat_mul (mat_mul (P_m s) (mat_transpose ?H)) Si)
                         (vec_sub (raw_measurements_m m) (mat_vec ?H (x_m s))))) = 5"
    by (simp add: length_vec_add length_mat_vec sized_length [OF szK] c(16))
  from configured_update [OF conf lx szP c(18), where b = "is_initialized_m s" and t' = "time_us_m s"]
  show ?thesis
    unfolding s' c(1,13) by simp
qed

lemma UpdateRadar_configured:
  assumes conf: "configured s" and ret: "UpdateRadar m s = Returns s'"
  shows "configured s'"
proof -
  note c = configured_fields [OF conf]
  from ret obtain Zsig where Z: "project_sigma_points s = Returns Zsig"
    by (auto simp: UpdateRadar_def and_then_def split: outcome.splits)
  let ?z = "predicted_measurement s Zsig"
  let ?S = "innovation_covariance s Zsig ?z"
  let ?Tc = "cross_correlation s Zsig ?z"
  from ret Z obtain Si where Si: "inverse3 ?S = Some Si"
    and s': "s' = s\<lparr>x_m := vec_add (x_m s) (mat_vec (mat_mul ?Tc Si)
                          (normalized_difference 1 (raw_measurements_m m) ?z)),
                    P_m := mat_sub (P_m s) (mat_mul (mat_mul (mat_mul ?Tc Si) ?S)
                             (mat_transpose (mat_mul ?Tc Si)))\<rparr>"
    by (auto simp: UpdateRadar_def and_then_def Let_def split: option.splits if_splits)
  have szZ: "sized 3 15 Zsig"
    by (rule project_sigma_points_sized [OF conf Z])
  have lZ: "length Zsig = 3"
    by (rule sized_length [OF szZ])
  have lz: "length ?z = 3"
    by (rule predicted_measurement_length [OF conf szZ])
  have K: "sized 5 3 (mat_mul ?Tc Si)"
    by (rule sized_mat_mul [OF cross_correlation_sized [OF conf lZ lz] inverse3_sized [OF Si]]) simp
  have KS: "sized 5 3 (mat_mul (mat_mul ?Tc Si) ?S)"
    by (rule sized_mat_mul [OF K innovation_covariance_props(1) [OF conf lZ lz]]) simp
  have Kt: "sized 3 5 (mat_transpose (mat_mul ?Tc Si))"
    by (rule sized_mat_transpose [OF K]) simp
  have szP: "sized 5 5 (mat_sub (P_m s) (mat_mul (mat_mul (mat_mul ?Tc Si) ?S)
                             (mat_transpose (mat_mul ?Tc Si))))"
    by (rule sized_mat_sub [OF c(17) sized_mat_mul [OF KS Kt]]) simp
  have lx: "length (vec_add (x_m s) (mat_vec (mat_mul ?Tc Si)
                          (normalized_difference 1 (raw_measurements_m m) ?z))) = 5"
    by (simp add: length_vec_add length_mat_vec sized_length [OF K] c(16))
  from configured_update [OF conf lx szP c(18), where b = "is_initialized_m s" and t' = "time_us_m s"]
  show ?thesis
    unfolding s' by simp
qed

lemma first_measurement_configured:
  assumes conf: "configured s" and ret: "first_measurement m s = Returns s'"
  shows "configured s'"
proof -
  note c = configured_fields [OF conf]
  have sz: "sized 5 5 [[a, 0, 0, 0, 0], [0, b, 0, 0, 0], [0, 0, 1, 0, 0], [0, 0, 0, 1, 0], [0, 0, 0, 0, 1]]" for a b :: real
    by (simp add: sized_def)
  have lx: "length ((vec_fill (x_m s) 0)[0 := a, 1 := b]) = 5" for a b
    by (simp add: length_vec_fill c(16))
  show ?thesis
  proof (cases "sensor_type_m m = LASER")
    case True
    with ret have "s' = s\<lparr>is_initialized_m := True,
        x_m := (vec_fill (x_m s) 0)[0 := raw_measurements_m m ! 0, 1 := raw_measurements_m m ! 1],
        P_m := [[std_laspx_m s * std_laspx_m s, 0, 0, 0, 0],
                [0, std_laspy_m s * std_laspy_m s, 0, 0, 0],
                [0, 0, 1, 0, 0], [0, 0, 0, 1, 0], [0, 0, 0, 0, 1]],
        Xsig_pred_m := Xsig_pred_m s, time_us_m := timestamp_m m\<rparr>"
      by (auto simp: first_measurement_def Let_def split: if_splits)
    then show ?thesis
      using configured_update [OF conf lx sz c(18)] by simp
  next
    case False
    with ret have "s' = s\<lparr>is_initialized_m := True,
        x_m := (vec_fill (x_m s) 0)[0 := raw_measurements_m m ! 0 * cos (raw_measurements_m m ! 1),
                                     1 := raw_measurements_m m ! 0 * sin (raw_measurements_m m ! 1)],
        P_m := [[(std_radr_m s + std_radphi_m s) * (std_radr_m s + std_radphi_m s), 0, 0, 0, 0],
                [0, (std_radr_m s + std_radphi_m s) * (std_radr_m s + std_radphi_m s), 0, 0, 0],
                [0, 0, 1, 0, 0], [0, 0, 0, 1, 0], [0, 0, 0, 0, 1]],
        Xsig_pred_m := Xsig_pred_m s, time_us_m := timestamp_m m\<rparr>"
      by (auto simp: first_measurement_def Let_def split: if_splits)
    then show ?thesis
      using configured_update [OF conf lx sz c(18)] by simp
  qed
qed

lemma configured_time_us: "configured s \<Longrightarrow> configured (s\<lparr>time_us_m := t\<rparr>)"
  using configured_update [where s = s and x' = "x_m s" and P' = "P_m s" and X' = "Xsig_pred_m s"
      and b = "is_initialized_m s" and t' = t]
  by (simp add: configured_fields(16,17,18))

text \<open>The class invariant is kept by the entry point.\<close>

lemma ProcessMeasurement_configured:
  assumes conf: "configured s" and ret: "snd (ProcessMeasurement m s) = Returns s'"
  shows "configured s'"
proof (cases "is_initialized_m s")
  case False
  with ret have "first_measurement m s = Returns s'"
    by (simp add: ProcessMeasurement_def)
  then show ?thesis
    by (rule first_measurement_configured [OF conf])
next
  case True
  let ?dt = "real_of_int (sint (timestamp_m m - time_us_m s)) / 1000000"
  let ?s1 = "Prediction ?dt s"
  have c1: "configured (?s1\<lparr>time_us_m := timestamp_m m\<rparr>)"
    by (rule configured_time_us [OF Prediction_configured(1) [OF conf]])
  from ret True consider
      "UpdateLidar m (?s1\<lparr>time_us_m := timestamp_m m\<rparr>) = Returns s'"
    | "UpdateRadar m (?s1\<lparr>time_us_m := timestamp_m m\<rparr>) = Returns s'"
    | "s' = ?s1\<lparr>time_us_m := timestamp_m m\<rparr>"
    by (auto simp: ProcessMeasurement_def Let_def split: if_splits)
  then show ?thesis
  proof cases
    case 1
    then show ?thesis by (rule UpdateLidar_configured [OF c1])
  next
    case 2
    then show ?thesis by (rule UpdateRadar_configured [OF c1])
  next
    case 3
    then show ?thesis using c1 by simp
  qed
qed

subsection \<open>The filter \<open>turned_filter\<close>\<close>



subsection \<open>The run from a fresh filter: the first radar record\<close>

lemma configured_fresh: "configured fresh_filter"
  unfolding fresh_filter_def
  by (rule configured_ctor) (simp_all add: sized_mat_new vec_new_def)

lemma fresh_fields:
  "\<not> is_initialized_m fresh_filter" "time_us_m fresh_filter = 0" "x_m fresh_filter = [0, 0, 0, 0, 0]"
  "use_laser_m fresh_filter" "use_radar_m fresh_filter"
  by (simp_all add: fresh_filter_def UKF_ctor_def Let_def vec_new_def eval_nat_numeral)

lemma first_radar:
  "ProcessMeasurement \<lparr>timestamp_m = 2000000, sensor_type_m = RADAR, raw_measurements_m = [33 / 100, 0, 0]\<rparr> fresh_filter
     = ([], Returns near_filter)"
  by (simp add: ProcessMeasurement_def first_measurement_def Let_def fresh_fields near_filter_def
        configured_fields(10,11) [OF configured_fresh] vec_fill_def)

lemma configured_near: "configured near_filter"
  using ProcessMeasurement_configured [OF configured_fresh, of _ near_filter] first_radar
  by (metis snd_conv)

lemma near_fields:
  "is_initialized_m near_filter" "time_us_m near_filter = 2000000" "x_m near_filter = [33 / 100, 0, 0, 0, 0]"
  "use_laser_m near_filter" "use_radar_m near_filter"
  "P_m near_filter = [[1089 / 10000, 0, 0, 0, 0],
               [0, 1089 / 10000, 0, 0, 0],
               [0, 0, 1, 0, 0],
               [0, 0, 0, 1, 0],
               [0, 0, 0, 0, 1]]"
  by (simp_all add: near_filter_def fresh_fields)

lemma near_P_aug:
  "augmented_covariance near_filter =
    [[1089 / 10000, 0, 0, 0, 0, 0, 0],
     [0, 1089 / 10000, 0, 0, 0, 0, 0],
     [0, 0, 1, 0, 0, 0, 0],
     [0, 0, 0, 1, 0, 0, 0],
     [0, 0, 0, 0, 1, 0, 0],
     [0, 0, 0, 0, 0, 4, 0],
     [0, 0, 0, 0, 0, 0, 4]]"
  by (simp add: augmented_covariance_def configured_fields(2,6,7) [OF configured_near] upt7
        near_fields)

lemma sqrt_1089: "sqrt (1089 / 10000) = 33 / 100"
  by (rule real_sqrt_unique) (simp_all add: power2_eq_square)

lemma near_llt:
  "llt [[1089 / 10000, 0, 0, 0, 0, 0, 0],
     [0, 1089 / 10000, 0, 0, 0, 0, 0],
     [0, 0, 1, 0, 0, 0, 0],
     [0, 0, 0, 1, 0, 0, 0],
     [0, 0, 0, 0, 1, 0, 0],
     [0, 0, 0, 0, 0, 4, 0],
     [0, 0, 0, 0, 0, 0, 4]]
   = ([[33 / 100, 0, 0, 0, 0, 0, 0],
     [0, 33 / 100, 0, 0, 0, 0, 0],
     [0, 0, 1, 0, 0, 0, 0],
     [0, 0, 0, 1, 0, 0, 0],
     [0, 0, 0, 0, 1, 0, 0],
     [0, 0, 0, 0, 0, 2, 0],
     [0, 0, 0, 0, 0, 0, 2]], Success)"
  by (simp add: llt_def llt_inplace_def llt_column_def llt_pivot_def upt7 Let_def sums_small sums7
        sqrt_1089 eval_nat_numeral)

lemma near_sigma_points:
  "GenerateSigmaPoints near_filter =
     [[33 / 100, 33 / 100 + 33 / 100 * sqrt 3, 33 / 100, 33 / 100, 33 / 100, 33 / 100, 33 / 100, 33 / 100,
       33 / 100 - 33 / 100 * sqrt 3, 33 / 100, 33 / 100, 33 / 100, 33 / 100, 33 / 100, 33 / 100],
      [0, 0, 33 / 100 * sqrt 3, 0, 0, 0, 0, 0, 0, - (33 / 100 * sqrt 3), 0, 0, 0, 0, 0],
      [0, 0, 0, sqrt 3, 0, 0, 0, 0, 0, 0, - sqrt 3, 0, 0, 0, 0],
      [0, 0, 0, 0, sqrt 3, 0, 0, 0, 0, 0, 0, - sqrt 3, 0, 0, 0],
      [0, 0, 0, 0, 0, sqrt 3, 0, 0, 0, 0, 0, 0, - sqrt 3, 0, 0],
      [0, 0, 0, 0, 0, 0, 2 * sqrt 3, 0, 0, 0, 0, 0, 0, - (2 * sqrt 3), 0],
      [0, 0, 0, 0, 0, 0, 0, 2 * sqrt 3, 0, 0, 0, 0, 0, 0, - (2 * sqrt 3)]]"
  by (simp add: GenerateSigmaPoints_def Let_def configured_fields(2,4) [OF configured_near]
        near_P_aug near_llt matrixL_def augmented_mean_def near_fields upt7
        set_col_def col_def vec_add_def vec_sub_def vec_scale_def mat_new_def eval_nat_numeral)

subsection \<open>The run from a fresh filter: the prediction over 0.5 s\<close>

lemma sqrt3_bounds: "17 / 10 < sqrt 3" "sqrt 3 < 7 / 4"
proof -
  show "17 / 10 < sqrt 3"
    by (rule real_less_rsqrt) (simp add: power2_eq_square)
  show "sqrt 3 < 7 / 4"
    by (rule real_less_lsqrt) (simp_all add: power2_eq_square)
qed

lemma predict_straight:
  "predict_sigma_point dt [px, py, v, yaw, 0, nu_a, nu_yawdd] =
     [px + v * cos yaw * dt + dt * dt * cos yaw * nu_a / 2,
      py + v * sin yaw * dt + dt * dt * sin yaw * nu_a / 2,
      v + dt * nu_a,
      yaw + dt * dt * nu_yawdd / 2,
      dt * nu_yawdd]"
  by (simp add: predict_sigma_point_def straight_line_def Let_def)

lemma predict_at_rest:
  "predict_sigma_point dt [px, py, 0, yaw, yawd, nu_a, nu_yawdd] =
     [px + dt * dt * cos yaw * nu_a / 2,
      py + dt * dt * sin yaw * nu_a / 2,
      dt * nu_a,
      yaw + yawd * dt + dt * dt * nu_yawdd / 2,
      yawd + dt * nu_yawdd]"
  by (simp add: predict_sigma_point_def straight_line_def curved_path_def Let_def)



lemma near_Xsig_pred0: "Xsig_pred_m near_filter = mat_new 5 15"
  by (simp add: near_filter_def fresh_filter_def UKF_ctor_def Let_def)

lemma near_predicted_sigma_points:
  "Xsig_pred_m (SigmaPointsPrediction (GenerateSigmaPoints near_filter) (1 / 2) near_filter) = near_Xsig_pred"
  by (simp add: SigmaPointsPrediction_def near_sigma_points configured_fields(2) [OF configured_near]
        upt15 predict_straight predict_at_rest
        set_col_def col_def near_Xsig_pred0 mat_new_def eval_nat_numeral
        near_Xsig_pred_def)

lemma matrix55:
  "sized 5 5 M \<Longrightarrow>
   M = [[M ! 0 ! 0, M ! 0 ! 1, M ! 0 ! 2, M ! 0 ! 3, M ! 0 ! 4],
        [M ! 1 ! 0, M ! 1 ! 1, M ! 1 ! 2, M ! 1 ! 3, M ! 1 ! 4],
        [M ! 2 ! 0, M ! 2 ! 1, M ! 2 ! 2, M ! 2 ! 3, M ! 2 ! 4],
        [M ! 3 ! 0, M ! 3 ! 1, M ! 3 ! 2, M ! 3 ! 3, M ! 3 ! 4],
        [M ! 4 ! 0, M ! 4 ! 1, M ! 4 ! 2, M ! 4 ! 3, M ! 4 ! 4]]"
  using vector5 [of M] vector5 [of "M ! 0"] vector5 [of "M ! 1"] vector5 [of "M ! 2"]
    vector5 [of "M ! 3"] vector5 [of "M ! 4"]
  by (simp add: sized_def)

lemma sqrt3_angles:
  "normalize_angle (sqrt 3) = sqrt 3" "normalize_angle (- sqrt 3) = - sqrt 3"
  "normalize_angle (sqrt 3 / 2) = sqrt 3 / 2" "normalize_angle (- (sqrt 3 / 2)) = - (sqrt 3 / 2)"
  "normalize_angle (sqrt 3 / 4) = sqrt 3 / 4" "normalize_angle (- (sqrt 3 / 4)) = - (sqrt 3 / 4)"
  by (rule normalize_angle_id; use sqrt3_bounds pi_gt_31 in linarith)+

lemma near_Xsig_pred_sized: "sized 5 15 near_Xsig_pred"
  by (simp add: sized_def near_Xsig_pred_def)

lemma configured_near_moved:
  "configured (SigmaPointsPrediction (GenerateSigmaPoints near_filter) (1 / 2) near_filter)"
  by (rule SigmaPointsPrediction_configured [OF configured_near])

lemma near_moved_weights:
  "weights_m (SigmaPointsPrediction (GenerateSigmaPoints near_filter) (1 / 2) near_filter)
     = (- 4 / 3) # replicate 14 (1 / 6)"
  by (rule configured_fields(5) [OF configured_near_moved])

lemma near_predicted_mean:
  "predicted_mean (SigmaPointsPrediction (GenerateSigmaPoints near_filter) (1 / 2) near_filter)
     = [33 / 100, 0, 0, 0, 0]"
  apply (subst vector5 [OF predicted_mean_length [OF configured_near_moved]])
  apply (simp add: predicted_mean_nth [OF configured_near_moved] near_predicted_sigma_points
      near_moved_weights sum15 near_Xsig_pred_def eval_nat_numeral)
  apply (simp add: field_simps)
  done

lemma near_predicted_covariance:
  "predicted_covariance (SigmaPointsPrediction (GenerateSigmaPoints near_filter) (1 / 2) near_filter)
      [33 / 100, 0, 0, 0, 0]
     = [[2107 / 5000, 0, 3 / 4, 0, 0],
        [0, 1089 / 10000, 0, 0, 0],
        [3 / 4, 0, 2, 0, 0],
        [0, 0, 0, 21 / 16, 3 / 4],
        [0, 0, 0, 3 / 4, 2]]"
  apply (subst matrix55 [OF predicted_covariance_sized [OF configured_near_moved]])
   apply simp
  apply (simp add: predicted_covariance_nth [OF configured_near_moved] near_predicted_sigma_points
      near_moved_weights sum15 x_diff_of_nth [where n = 5] near_Xsig_pred_sized [THEN sized_length]
      near_Xsig_pred_def sqrt3_angles normalize_angle_0 eval_nat_numeral)
  done

lemma near_moved:
  "SigmaPointsPrediction (GenerateSigmaPoints near_filter) (1 / 2) near_filter
     = near_filter\<lparr>Xsig_pred_m := near_Xsig_pred\<rparr>"
  using near_predicted_sigma_points by (simp add: SigmaPointsPrediction_def)

lemma near_Prediction: "Prediction (1 / 2) near_filter = near_predicted"
  unfolding Prediction_def PredictMeanAndCovariance_def Let_def near_predicted_mean
    near_predicted_covariance
  by (simp add: near_moved near_predicted_def)

subsection \<open>The run from a fresh filter: the sigma points in measurement space\<close>

lemma project_ahead:
  "0 < px \<Longrightarrow> radar_projection [px, 0, v, yaw, yawd] = Returns [px, 0, cos yaw * v]"
  by (simp add: radar_projection_def Let_def atan2_def)

lemma project_behind:
  "px < 0 \<Longrightarrow> radar_projection [px, 0, v, yaw, yawd] = Returns [- px, pi, - (cos yaw * v)]"
  by (simp add: radar_projection_def Let_def atan2_def field_simps)

lemma arctan_sqrt3: "arctan (sqrt 3) = pi / 3"
proof (rule arctan_unique)
  show "- (pi / 2) < pi / 3" "pi / 3 < pi / 2"
    using pi_gt_zero by linarith+
  show "tan (pi / 3) = sqrt 3"
    by (rule tan_60)
qed

lemma project_aside:
  "0 < a \<Longrightarrow> radar_projection [a, a * sqrt 3, 0, 0, 0] = Returns [2 * a, pi / 3, 0]"
  "0 < a \<Longrightarrow> radar_projection [a, - (a * sqrt 3), 0, 0, 0] = Returns [2 * a, - (pi / 3), 0]"
proof -
  assume a: "0 < a"
  have r: "sqrt (a * a + a * sqrt 3 * (a * sqrt 3)) = 2 * a"
  proof -
    have "a * a + a * sqrt 3 * (a * sqrt 3) = (2 * a)\<^sup>2"
      by (simp add: power2_eq_square algebra_simps)
    then have "sqrt (a * a + a * sqrt 3 * (a * sqrt 3)) = \<bar>2 * a\<bar>"
      by (simp only: real_sqrt_abs)
    then show ?thesis
      using a by simp
  qed
  show "radar_projection [a, a * sqrt 3, 0, 0, 0] = Returns [2 * a, pi / 3, 0]"
    using a by (simp add: radar_projection_def Let_def atan2_def r arctan_sqrt3)
  show "radar_projection [a, - (a * sqrt 3), 0, 0, 0] = Returns [2 * a, - (pi / 3), 0]"
    using a by (simp add: radar_projection_def Let_def atan2_def r arctan_sqrt3 arctan_minus)
qed

lemma near_columns:
  "col near_Xsig_pred 0 = [33 / 100, 0, 0, 0, 0]"
  "col near_Xsig_pred (Suc 0) = [33 / 100 + 33 / 100 * sqrt 3, 0, 0, 0, 0]"
  "col near_Xsig_pred 2 = [33 / 100, 33 / 100 * sqrt 3, 0, 0, 0]"
  "col near_Xsig_pred 3 = [33 / 100 + sqrt 3 / 2, 0, sqrt 3, 0, 0]"
  "col near_Xsig_pred 4 = [33 / 100, 0, 0, sqrt 3, 0]"
  "col near_Xsig_pred 5 = [33 / 100, 0, 0, sqrt 3 / 2, sqrt 3]"
  "col near_Xsig_pred 6 = [33 / 100 + sqrt 3 / 4, 0, sqrt 3, 0, 0]"
  "col near_Xsig_pred 7 = [33 / 100, 0, 0, sqrt 3 / 4, sqrt 3]"
  "col near_Xsig_pred 8 = [33 / 100 - 33 / 100 * sqrt 3, 0, 0, 0, 0]"
  "col near_Xsig_pred 9 = [33 / 100, - (33 / 100 * sqrt 3), 0, 0, 0]"
  "col near_Xsig_pred 10 = [33 / 100 - sqrt 3 / 2, 0, - sqrt 3, 0, 0]"
  "col near_Xsig_pred 11 = [33 / 100, 0, 0, - sqrt 3, 0]"
  "col near_Xsig_pred 12 = [33 / 100, 0, 0, - (sqrt 3 / 2), - sqrt 3]"
  "col near_Xsig_pred 13 = [33 / 100 - sqrt 3 / 4, 0, - sqrt 3, 0, 0]"
  "col near_Xsig_pred 14 = [33 / 100, 0, 0, - (sqrt 3 / 4), - sqrt 3]"
  by (simp_all add: col_def near_Xsig_pred_def)

lemma near_projections:
  "radar_projection (col near_Xsig_pred 0) = Returns [33 / 100, 0, 0]"
  "radar_projection (col near_Xsig_pred (Suc 0)) = Returns [33 / 100 + 33 / 100 * sqrt 3, 0, 0]"
  "radar_projection (col near_Xsig_pred 2) = Returns [66 / 100, pi / 3, 0]"
  "radar_projection (col near_Xsig_pred 3) = Returns [33 / 100 + sqrt 3 / 2, 0, sqrt 3]"
  "radar_projection (col near_Xsig_pred 4) = Returns [33 / 100, 0, 0]"
  "radar_projection (col near_Xsig_pred 5) = Returns [33 / 100, 0, 0]"
  "radar_projection (col near_Xsig_pred 6) = Returns [33 / 100 + sqrt 3 / 4, 0, sqrt 3]"
  "radar_projection (col near_Xsig_pred 7) = Returns [33 / 100, 0, 0]"
  "radar_projection (col near_Xsig_pred 8) = Returns [33 / 100 * sqrt 3 - 33 / 100, pi, 0]"
  "radar_projection (col near_Xsig_pred 9) = Returns [66 / 100, - (pi / 3), 0]"
  "radar_projection (col near_Xsig_pred 10) = Returns [sqrt 3 / 2 - 33 / 100, pi, sqrt 3]"
  "radar_projection (col near_Xsig_pred 11) = Returns [33 / 100, 0, 0]"
  "radar_projection (col near_Xsig_pred 12) = Returns [33 / 100, 0, 0]"
  "radar_projection (col near_Xsig_pred 13) = Returns [sqrt 3 / 4 - 33 / 100, pi, sqrt 3]"
  "radar_projection (col near_Xsig_pred 14) = Returns [33 / 100, 0, 0]"
proof -
  note b = sqrt3_bounds
  show "radar_projection (col near_Xsig_pred 0) = Returns [33 / 100, 0, 0]"
    unfolding near_columns by (subst project_ahead) simp_all
  show "radar_projection (col near_Xsig_pred (Suc 0)) = Returns [33 / 100 + 33 / 100 * sqrt 3, 0, 0]"
    unfolding near_columns by (subst project_ahead) (use b in simp_all)
  show "radar_projection (col near_Xsig_pred 2) = Returns [66 / 100, pi / 3, 0]"
    unfolding near_columns by (subst project_aside(1)) simp_all
  show "radar_projection (col near_Xsig_pred 3) = Returns [33 / 100 + sqrt 3 / 2, 0, sqrt 3]"
    unfolding near_columns by (subst project_ahead) (use b in simp_all)
  show "radar_projection (col near_Xsig_pred 4) = Returns [33 / 100, 0, 0]"
    unfolding near_columns by (subst project_ahead) simp_all
  show "radar_projection (col near_Xsig_pred 5) = Returns [33 / 100, 0, 0]"
    unfolding near_columns by (subst project_ahead) simp_all
  show "radar_projection (col near_Xsig_pred 6) = Returns [33 / 100 + sqrt 3 / 4, 0, sqrt 3]"
    unfolding near_columns by (subst project_ahead) (use b in simp_all)
  show "radar_projection (col near_Xsig_pred 7) = Returns [33 / 100, 0, 0]"
    unfolding near_columns by (subst project_ahead) simp_all
  show "radar_projection (col near_Xsig_pred 8) = Returns [33 / 100 * sqrt 3 - 33 / 100, pi, 0]"
    unfolding near_columns by (subst project_behind) (use b in simp_all)
  show "radar_projection (col near_Xsig_pred 9) = Returns [66 / 100, - (pi / 3), 0]"
    unfolding near_columns by (subst project_aside(2)) simp_all
  show "radar_projection (col near_Xsig_pred 10) = Returns [sqrt 3 / 2 - 33 / 100, pi, sqrt 3]"
    unfolding near_columns by (subst project_behind) (use b in simp_all)
  show "radar_projection (col near_Xsig_pred 11) = Returns [33 / 100, 0, 0]"
    unfolding near_columns by (subst project_ahead) simp_all
  show "radar_projection (col near_Xsig_pred 12) = Returns [33 / 100, 0, 0]"
    unfolding near_columns by (subst project_ahead) simp_all
  show "radar_projection (col near_Xsig_pred 13) = Returns [sqrt 3 / 4 - 33 / 100, pi, sqrt 3]"
    unfolding near_columns by (subst project_behind) (use b in simp_all)
  show "radar_projection (col near_Xsig_pred 14) = Returns [33 / 100, 0, 0]"
    unfolding near_columns by (subst project_ahead) simp_all
qed

lemma configured_near_predicted: "configured near_predicted"
  using Prediction_configured(1) [OF configured_near, of "1 / 2"] by (simp add: near_Prediction)

lemma near_predicted_fields:
  "Xsig_pred_m near_predicted = near_Xsig_pred"
  "x_m near_predicted = [33 / 100, 0, 0, 0, 0]"
  "P_m near_predicted = [[2107 / 5000, 0, 3 / 4, 0, 0],
               [0, 1089 / 10000, 0, 0, 0],
               [3 / 4, 0, 2, 0, 0],
               [0, 0, 0, 21 / 16, 3 / 4],
               [0, 0, 0, 3 / 4, 2]]"
  "is_initialized_m near_predicted" "use_radar_m near_predicted" "use_laser_m near_predicted"
  "time_us_m near_predicted = 2000000"
  by (simp_all add: near_predicted_def near_fields)

lemma near_project: "project_sigma_points near_predicted = Returns near_Zsig"
  apply (simp add: project_sigma_points_def configured_fields(2,3) [OF configured_near_predicted] upt15
        near_predicted_fields near_projections and_then_def)
  apply (simp add: set_col_def mat_new_def near_Zsig_def eval_nat_numeral)
  done

subsection \<open>Coefficients of the radar update\<close>

lemma z_diff_of_nth:
  assumes "length Z = n" "length z = n" "a < n"
  shows "z_diff_of Z z i ! a =
           (if a = 1 then normalize_angle (Z ! a ! i - z ! a) else Z ! a ! i - z ! a)"
  using assms
  by (simp add: z_diff_of_def normalized_difference_def normalize_at_def length_vec_sub length_col nth_vec_sub nth_col)

lemma predicted_measurement_nth:
  assumes "configured s" and "sized 3 15 Zsig" and "j < 3"
  shows "predicted_measurement s Zsig ! j = (\<Sum>i<15. weights_m s ! i * Zsig ! j ! i)"
proof -
  note c = configured_fields [OF assms(1)]
  have len: "length Zsig = 3"
    by (rule sized_length [OF assms(2)])
  have "predicted_measurement s Zsig ! j =
      vec_fill (vec_new (n_z_m s)) 0.0 ! j
      + (\<Sum>i\<leftarrow>[0..<2 * n_aug_m s + 1]. vec_scale (weights_m s ! i) (col Zsig i) ! j)"
    unfolding predicted_measurement_def
    by (rule fold_vec_add_nth [where n = 3])
       (simp_all add: length_vec_fill length_vec_scale length_col len assms(3) c(3) vec_new_def)
  also have "\<dots> = (\<Sum>i<15. weights_m s ! i * Zsig ! j ! i)"
    using assms(3)
    by (simp add: sum_list_upt nth_vec_fill nth_vec_scale nth_col length_col len c(2,3) vec_new_def)
  finally show ?thesis .
qed

lemma innovation_covariance_nth:
  assumes conf: "configured s" and Z: "length Zsig = 3" and z: "length z_pred = 3"
    and a: "a < 3" and b: "b < 3"
  shows "innovation_covariance s Zsig z_pred ! a ! b =
           (\<Sum>i<15. weights_m s ! i * z_diff_of Zsig z_pred i ! a * z_diff_of Zsig z_pred i ! b)
           + [[9 / 100, 0, 0], [0, 9 / 10000, 0], [0, 0, 9 / 100]] ! a ! b"
proof -
  note c = configured_fields [OF conf]
  let ?F = "\<lambda>i. outer (vec_scale (weights_m s ! i) (z_diff_of Zsig z_pred i)) (z_diff_of Zsig z_pred i)"
  let ?S0 = "fold (\<lambda>i S. mat_add S (?F i)) [0..<2 * n_aug_m s + 1]
               (mat_fill (mat_new (n_z_m s) (n_z_m s)) 0.0)"
  have d: "length (z_diff_of Zsig z_pred i) = 3" for i
    by (rule length_z_diff_of [OF Z z])
  have szF: "sized 3 3 (?F i)" for i
    using sized_outer [of "vec_scale (weights_m s ! i) (z_diff_of Zsig z_pred i)" "z_diff_of Zsig z_pred i"]
    by (simp add: length_vec_scale d)
  have sz0: "sized 3 3 (mat_fill (mat_new (n_z_m s) (n_z_m s)) 0.0)"
    unfolding c(3) by (rule sized_mat_fill [OF sized_mat_new])
  have szS0: "sized 3 3 ?S0"
    by (rule fold_mat_add_sized [OF sz0 szF])
  have S: "innovation_covariance s Zsig z_pred = mat_add ?S0 [[9 / 100, 0, 0], [0, 9 / 10000, 0], [0, 0, 9 / 100]]"
    by (simp add: innovation_covariance_def Let_def c(15))
  have S0: "?S0 ! a ! b = (\<Sum>i\<leftarrow>[0..<2 * n_aug_m s + 1]. ?F i ! a ! b)"
    using fold_mat_add_nth [OF sz0 szF a b, where ns = "[0..<2 * n_aug_m s + 1]"]
    by (simp add: nth_mat_fill [OF sized_mat_new] a b c(3))
  show ?thesis
    unfolding S nth_mat_add [OF szS0 sized_Radar_R a b] S0
    using a b by (simp add: sum_list_upt nth_outer length_vec_scale nth_vec_scale d c(2))
qed

lemma cross_correlation_nth:
  assumes conf: "configured s" and Z: "length Zsig = 3" and z: "length z_pred = 3"
    and a: "a < 5" and b: "b < 3"
  shows "cross_correlation s Zsig z_pred ! a ! b =
           (\<Sum>i<15. weights_m s ! i * x_diff_of (Xsig_pred_m s) (x_m s) i ! a
                        * z_diff_of Zsig z_pred i ! b)"
proof -
  note c = configured_fields [OF conf]
  have dz: "length (z_diff_of Zsig z_pred i) = 3" for i
    by (rule length_z_diff_of [OF Z z])
  have dx: "length (x_diff_of (Xsig_pred_m s) (x_m s) i) = 5" for i
    by (rule length_x_diff_of [OF sized_length [OF c(18)] c(16)])
  let ?F = "\<lambda>i. outer (vec_scale (weights_m s ! i) (x_diff_of (Xsig_pred_m s) (x_m s) i))
                   (z_diff_of Zsig z_pred i)"
  have szF: "sized 5 3 (?F i)" for i
    using sized_outer [of "vec_scale (weights_m s ! i) (x_diff_of (Xsig_pred_m s) (x_m s) i)"
                "z_diff_of Zsig z_pred i"]
    by (simp add: length_vec_scale dx dz)
  have sz0: "sized 5 3 (mat_fill (mat_new (n_x_m s) (n_z_m s)) 0.0)"
    unfolding c(1,3) by (rule sized_mat_fill [OF sized_mat_new])
  have "cross_correlation s Zsig z_pred ! a ! b =
        mat_fill (mat_new (n_x_m s) (n_z_m s)) 0.0 ! a ! b
        + (\<Sum>i\<leftarrow>[0..<2 * n_aug_m s + 1]. ?F i ! a ! b)"
    unfolding cross_correlation_def Let_def
    by (rule fold_mat_add_nth [OF sz0 szF a b])
  also have "\<dots> = (\<Sum>i<15. weights_m s ! i * x_diff_of (Xsig_pred_m s) (x_m s) i ! a
                        * z_diff_of Zsig z_pred i ! b)"
    using a b
    by (simp add: sum_list_upt nth_mat_fill [OF sized_mat_new] c(1,2,3)
          nth_outer length_vec_scale nth_vec_scale dx dz)
  finally show ?thesis .
qed

lemma inverse3_Some:
  assumes "inverse3 S = Some Si"
  shows "det3 S \<noteq> 0"
    and "Si =
           [[(S ! 1 ! 1 * S ! 2 ! 2 - S ! 1 ! 2 * S ! 2 ! 1) / det3 S,
             (S ! 0 ! 2 * S ! 2 ! 1 - S ! 0 ! 1 * S ! 2 ! 2) / det3 S,
             (S ! 0 ! 1 * S ! 1 ! 2 - S ! 0 ! 2 * S ! 1 ! 1) / det3 S],
            [(S ! 1 ! 2 * S ! 2 ! 0 - S ! 1 ! 0 * S ! 2 ! 2) / det3 S,
             (S ! 0 ! 0 * S ! 2 ! 2 - S ! 0 ! 2 * S ! 2 ! 0) / det3 S,
             (S ! 0 ! 2 * S ! 1 ! 0 - S ! 0 ! 0 * S ! 1 ! 2) / det3 S],
            [(S ! 1 ! 0 * S ! 2 ! 1 - S ! 1 ! 1 * S ! 2 ! 0) / det3 S,
             (S ! 0 ! 1 * S ! 2 ! 0 - S ! 0 ! 0 * S ! 2 ! 1) / det3 S,
             (S ! 0 ! 0 * S ! 1 ! 1 - S ! 0 ! 1 * S ! 1 ! 0) / det3 S]]"
  using assms by (auto simp: inverse3_def Let_def split: if_splits)

text \<open>The inverse times the matrix is the identity.\<close>

lemma inverse3_left:
  assumes inv: "inverse3 S = Some Si" and a: "a < 3" and l: "l < 3"
  shows "(\<Sum>k<3. Si ! a ! k * S ! k ! l) = (if a = l then 1 else 0)"
proof -
  note d = inverse3_Some(1) [OF inv]
  have Si: "Si ! 0 ! 0 = (S ! 1 ! 1 * S ! 2 ! 2 - S ! 1 ! 2 * S ! 2 ! 1) / det3 S"
    "Si ! 0 ! Suc 0 = (S ! 0 ! 2 * S ! 2 ! 1 - S ! 0 ! 1 * S ! 2 ! 2) / det3 S"
    "Si ! 0 ! 2 = (S ! 0 ! 1 * S ! 1 ! 2 - S ! 0 ! 2 * S ! 1 ! 1) / det3 S"
    "Si ! Suc 0 ! 0 = (S ! 1 ! 2 * S ! 2 ! 0 - S ! 1 ! 0 * S ! 2 ! 2) / det3 S"
    "Si ! Suc 0 ! Suc 0 = (S ! 0 ! 0 * S ! 2 ! 2 - S ! 0 ! 2 * S ! 2 ! 0) / det3 S"
    "Si ! Suc 0 ! 2 = (S ! 0 ! 2 * S ! 1 ! 0 - S ! 0 ! 0 * S ! 1 ! 2) / det3 S"
    "Si ! 2 ! 0 = (S ! 1 ! 0 * S ! 2 ! 1 - S ! 1 ! 1 * S ! 2 ! 0) / det3 S"
    "Si ! 2 ! Suc 0 = (S ! 0 ! 1 * S ! 2 ! 0 - S ! 0 ! 0 * S ! 2 ! 1) / det3 S"
    "Si ! 2 ! 2 = (S ! 0 ! 0 * S ! 1 ! 1 - S ! 0 ! 1 * S ! 1 ! 0) / det3 S"
    by (simp_all add: inverse3_Some(2) [OF inv])
  from less3_cases [OF a] less3_cases [OF l] show ?thesis
  proof (elim disjE)
    assume "a = 0" "l = 0"
    then show ?thesis
      by (simp add: sum3 Si add_divide_distrib [symmetric] d) (simp add: det3_def algebra_simps)
  next
    assume "a = 0" "l = Suc 0"
    then show ?thesis
      by (simp add: sum3 Si add_divide_distrib [symmetric] d) (simp add: algebra_simps)
  next
    assume "a = 0" "l = 2"
    then show ?thesis
      by (simp add: sum3 Si add_divide_distrib [symmetric] d) (simp add: algebra_simps)
  next
    assume "a = Suc 0" "l = 0"
    then show ?thesis
      by (simp add: sum3 Si add_divide_distrib [symmetric] d) (simp add: algebra_simps)
  next
    assume "a = Suc 0" "l = Suc 0"
    then show ?thesis
      by (simp add: sum3 Si add_divide_distrib [symmetric] d) (simp add: det3_def algebra_simps)
  next
    assume "a = Suc 0" "l = 2"
    then show ?thesis
      by (simp add: sum3 Si add_divide_distrib [symmetric] d) (simp add: algebra_simps)
  next
    assume "a = 2" "l = 0"
    then show ?thesis
      by (simp add: sum3 Si add_divide_distrib [symmetric] d) (simp add: algebra_simps)
  next
    assume "a = 2" "l = Suc 0"
    then show ?thesis
      by (simp add: sum3 Si add_divide_distrib [symmetric] d) (simp add: algebra_simps)
  next
    assume "a = 2" "l = 2"
    then show ?thesis
      by (simp add: sum3 Si add_divide_distrib [symmetric] d) (simp add: det3_def algebra_simps)
  qed
qed

lemma UpdateRadar_Returns:
  "UpdateRadar m s = Returns s' \<longleftrightarrow>
     (\<exists>Zsig Si. project_sigma_points s = Returns Zsig
        \<and> inverse3 (innovation_covariance s Zsig (predicted_measurement s Zsig)) = Some Si
        \<and> length (raw_measurements_m m) = length (predicted_measurement s Zsig)
        \<and> s' = s\<lparr>x_m := vec_add (x_m s)
                      (mat_vec (mat_mul (cross_correlation s Zsig (predicted_measurement s Zsig)) Si)
                         (normalized_difference 1 (raw_measurements_m m) (predicted_measurement s Zsig))),
                    P_m := mat_sub (P_m s)
                      (mat_mul
                         (mat_mul (mat_mul (cross_correlation s Zsig (predicted_measurement s Zsig)) Si)
                            (innovation_covariance s Zsig (predicted_measurement s Zsig)))
                         (mat_transpose
                            (mat_mul (cross_correlation s Zsig (predicted_measurement s Zsig)) Si)))\<rparr>)"
  by (auto simp: UpdateRadar_def and_then_def Let_def split: outcome.splits option.splits)

text \<open>With \<open>K = Tc * S\<^sup>-\<^sup>1\<close> the product \<open>K * S\<close> is \<open>Tc\<close>, so that
  \<open>P - K * S * K\<^sup>T = P - Tc * K\<^sup>T\<close>.\<close>

lemma gain_times_S:
  assumes inv: "inverse3 S = Some Si" and l: "l < 3"
  shows "(\<Sum>k<3. (\<Sum>a<3. T a * Si ! a ! k) * S ! k ! l) = T l"
proof -
  have "(\<Sum>k<3. (\<Sum>a<3. T a * Si ! a ! k) * S ! k ! l)
      = (\<Sum>k<3. \<Sum>a<3. T a * (Si ! a ! k * S ! k ! l))"
    by (simp add: sum_distrib_right mult.assoc)
  also have "\<dots> = (\<Sum>a<3. \<Sum>k<3. T a * (Si ! a ! k * S ! k ! l))"
    by (rule sum.swap)
  also have "\<dots> = (\<Sum>a<3. T a * (\<Sum>k<3. Si ! a ! k * S ! k ! l))"
    by (simp add: sum_distrib_left)
  also have "\<dots> = (\<Sum>a<3. T a * (if a = l then 1 else 0))"
    by (rule sum.cong) (simp_all add: inverse3_left [OF inv _ l])
  also have "\<dots> = T l"
    using l by (simp add: sum3 less3_cases) (use less3_cases [OF l] in auto)
  finally show ?thesis .
qed

lemma radar_P_nth:
  assumes conf: "configured s" and Z: "length Zsig = 3" and z: "length z_pred = 3"
    and inv: "inverse3 (innovation_covariance s Zsig z_pred) = Some Si"
    and i: "i < 5" and j: "j < 5"
  shows "mat_sub (P_m s)
           (mat_mul (mat_mul (mat_mul (cross_correlation s Zsig z_pred) Si)
                       (innovation_covariance s Zsig z_pred))
              (mat_transpose (mat_mul (cross_correlation s Zsig z_pred) Si))) ! i ! j
         = P_m s ! i ! j
           - (\<Sum>l<3. cross_correlation s Zsig z_pred ! i ! l
                      * (\<Sum>a<3. cross_correlation s Zsig z_pred ! j ! a * Si ! a ! l))"
proof -
  note c = configured_fields [OF conf]
  let ?Tc = "cross_correlation s Zsig z_pred"
  let ?S = "innovation_covariance s Zsig z_pred"
  let ?K = "mat_mul ?Tc Si"
  have szT: "sized 5 3 ?Tc"
    by (rule cross_correlation_sized [OF conf Z z])
  have szSi: "sized 3 3 Si"
    by (rule inverse3_sized [OF inv])
  have szS: "sized 3 3 ?S"
    by (rule innovation_covariance_props(1) [OF conf Z z])
  have szK: "sized 5 3 ?K"
    by (rule sized_mat_mul [OF szT szSi]) simp
  have szKS: "sized 5 3 (mat_mul ?K ?S)"
    by (rule sized_mat_mul [OF szK szS]) simp
  have szKt: "sized 3 5 (mat_transpose ?K)"
    by (rule sized_mat_transpose [OF szK]) simp
  have szKSKt: "sized 5 5 (mat_mul (mat_mul ?K ?S) (mat_transpose ?K))"
    by (rule sized_mat_mul [OF szKS szKt]) simp
  have K: "?K ! r ! k = (\<Sum>a<3. ?Tc ! r ! a * Si ! a ! k)" if "r < 5" "k < 3" for r k
    using that by (simp add: nth_mat_mul [OF szT szSi])
  have KS: "mat_mul ?K ?S ! i ! l = ?Tc ! i ! l" if "l < 3" for l
  proof -
    have "mat_mul ?K ?S ! i ! l = (\<Sum>k<3. ?K ! i ! k * ?S ! k ! l)"
      using that i by (simp add: nth_mat_mul [OF szK szS])
    also have "\<dots> = (\<Sum>k<3. (\<Sum>a<3. ?Tc ! i ! a * Si ! a ! k) * ?S ! k ! l)"
      by (rule sum.cong) (simp_all add: K [OF i])
    also have "\<dots> = ?Tc ! i ! l"
      by (rule gain_times_S [OF inv that])
    finally show ?thesis .
  qed
  have "mat_mul (mat_mul ?K ?S) (mat_transpose ?K) ! i ! j
      = (\<Sum>l<3. mat_mul ?K ?S ! i ! l * mat_transpose ?K ! l ! j)"
    using i j by (simp add: nth_mat_mul [OF szKS szKt])
  also have "\<dots> = (\<Sum>l<3. ?Tc ! i ! l * (\<Sum>a<3. ?Tc ! j ! a * Si ! a ! l))"
    by (rule sum.cong) (simp_all add: KS nth_mat_transpose [OF szK _ j] K [OF j])
  finally show ?thesis
    by (simp add: nth_mat_sub [OF c(17) szKSKt i j])
qed

subsection \<open>The run from a fresh filter: the radar update\<close>

lemma near_Zsig_sized: "sized 3 15 near_Zsig"
  by (simp add: sized_def near_Zsig_def)

lemma near_weights: "weights_m near_predicted = (- 4 / 3) # replicate 14 (1 / 6)"
  by (rule configured_fields(5) [OF configured_near_predicted])



lemma vector3: "length v = 3 \<Longrightarrow> v = [v ! 0, v ! 1, v ! 2]"
  by (rule nth_equalityI) (auto simp: less_Suc_eq eval_nat_numeral)

lemma near_predicted_measurement: "predicted_measurement near_predicted near_Zsig = near_z_pred"
  apply (subst vector3 [OF predicted_measurement_length [OF configured_near_predicted near_Zsig_sized]])
  apply (simp add: predicted_measurement_nth [OF configured_near_predicted near_Zsig_sized]
      near_weights sum15)
  apply (simp add: near_Zsig_def near_z_pred_def eval_nat_numeral)
  apply (simp add: field_simps)
  done

lemma matrix33:
  "sized 3 3 M \<Longrightarrow>
   M = [[M ! 0 ! 0, M ! 0 ! 1, M ! 0 ! 2],
        [M ! 1 ! 0, M ! 1 ! 1, M ! 1 ! 2],
        [M ! 2 ! 0, M ! 2 ! 1, M ! 2 ! 2]]"
  using vector3 [of M] vector3 [of "M ! 0"] vector3 [of "M ! 1"] vector3 [of "M ! 2"]
  by (simp add: sized_def)

lemma near_z_length: "length near_z_pred = 3"
  by (simp add: near_z_pred_def)

lemma near_angles:
  "normalize_angle (- (pi / 2)) = - (pi / 2)"
  "normalize_angle (pi / 2) = pi / 2"
  "normalize_angle (pi / 3 - pi / 2) = pi / 3 - pi / 2"
  "normalize_angle (- (pi / 3) - pi / 2) = - (pi / 3) - pi / 2"
  "normalize_angle (pi - pi / 2) = pi / 2"
  "normalize_angle (- (pi / 6)) = - (pi / 6)"
  "normalize_angle (- (pi * 5 / 6)) = - (pi * 5 / 6)"
  by (rule trans [OF normalize_angle_id]; use pi_gt_zero in linarith)+

lemma near_innovation_covariance:
  "innovation_covariance near_predicted near_Zsig near_z_pred = near_S"
  apply (subst matrix33 [OF innovation_covariance_props(1)
        [OF configured_near_predicted near_Zsig_sized [THEN sized_length] near_z_length]])
  apply (simp add: innovation_covariance_nth
        [OF configured_near_predicted near_Zsig_sized [THEN sized_length] near_z_length]
      near_weights sum15 z_diff_of_nth [where n = 3] near_Zsig_sized [THEN sized_length] near_z_length)
  apply (simp add: near_Zsig_def near_z_pred_def eval_nat_numeral near_angles near_S_def)
  apply (simp add: field_simps near_angles)
  done

lemma near_cross_correlation:
  "cross_correlation near_predicted near_Zsig near_z_pred ! 1 ! 0 = 0"
  "cross_correlation near_predicted near_Zsig near_z_pred ! 1 ! 1 = 11 / 300 * sqrt 3 * pi"
  "cross_correlation near_predicted near_Zsig near_z_pred ! 1 ! 2 = 0"
proof -
  note n = cross_correlation_nth
      [OF configured_near_predicted near_Zsig_sized [THEN sized_length] near_z_length]
  note l = near_Zsig_sized [THEN sized_length] near_z_length near_Xsig_pred_sized [THEN sized_length]
  show "cross_correlation near_predicted near_Zsig near_z_pred ! 1 ! 0 = 0"
    apply (simp add: n near_weights sum15 z_diff_of_nth [where n = 3] x_diff_of_nth [where n = 5] l
        near_predicted_fields)
    apply (simp add: near_Zsig_def near_z_pred_def near_Xsig_pred_def eval_nat_numeral near_angles)
    done
  show "cross_correlation near_predicted near_Zsig near_z_pred ! 1 ! 1 = 11 / 300 * sqrt 3 * pi"
    apply (simp add: n near_weights sum15 z_diff_of_nth [where n = 3] x_diff_of_nth [where n = 5] l
        near_predicted_fields)
    apply (simp add: near_Zsig_def near_z_pred_def near_Xsig_pred_def eval_nat_numeral near_angles)
    apply (simp add: field_simps near_angles)
    done
  show "cross_correlation near_predicted near_Zsig near_z_pred ! 1 ! 2 = 0"
    apply (simp add: n near_weights sum15 z_diff_of_nth [where n = 3] x_diff_of_nth [where n = 5] l
        near_predicted_fields)
    apply (simp add: near_Zsig_def near_z_pred_def near_Xsig_pred_def eval_nat_numeral near_angles)
    done
qed

lemma near_S_entries:
  "near_S ! 0 ! 0 = 3283 / 10000 - 99 / 1250 * sqrt 3"
  "near_S ! 0 ! Suc 0 = - (11 / 50 * pi)"
  "near_S ! 0 ! 2 = 3 / 100 - 11 / 150 * sqrt 3"
  "near_S ! Suc 0 ! 0 = - (11 / 50 * pi)"
  "near_S ! Suc 0 ! Suc 0 = 31 / 108 * (pi * pi) + 9 / 10000"
  "near_S ! Suc 0 ! 2 = 0"
  "near_S ! 2 ! 0 = 3 / 100 - 11 / 150 * sqrt 3"
  "near_S ! 2 ! Suc 0 = 0"
  "near_S ! 2 ! 2 = 227 / 300"
  by (simp_all add: near_S_def)

text \<open>The minor of the bearing variance in \<open>near_S\<close>.\<close>

lemma near_minor:
  "near_S ! 0 ! 0 * near_S ! 2 ! 2 - near_S ! 0 ! 2 * near_S ! 2 ! 0
     = 694141 / 3000000 - 6941 / 125000 * sqrt 3"
proof -
  have "sqrt 3 * sqrt 3 = 3"
    by simp
  then have "(3 / 100 - 11 / 150 * sqrt 3) * (3 / 100 - 11 / 150 * sqrt 3)
      = 9 / 10000 - 11 / 2500 * sqrt 3 + 121 / 7500"
    by (simp add: algebra_simps)
  then show ?thesis
    unfolding near_S_entries by (simp add: algebra_simps)
qed

lemma near_minor_bounds:
  "134 / 1000 < 694141 / 3000000 - 6941 / 125000 * sqrt 3"
  "694141 / 3000000 - 6941 / 125000 * sqrt 3 < 137 / 1000"
  using sqrt3_bounds by linarith+

lemma near_det:
  "det3 near_S
     = (31 / 108 * (pi * pi) + 9 / 10000) * (694141 / 3000000 - 6941 / 125000 * sqrt 3)
       - 27467 / 750000 * (pi * pi)"
proof -
  have "det3 near_S
      = near_S ! Suc 0 ! Suc 0 * (near_S ! 0 ! 0 * near_S ! 2 ! 2 - near_S ! 0 ! 2 * near_S ! 2 ! 0)
        - near_S ! 0 ! Suc 0 * near_S ! Suc 0 ! 0 * near_S ! 2 ! 2"
    by (simp add: det3_def near_S_entries(6,8) algebra_simps)
  also have "\<dots> = (31 / 108 * (pi * pi) + 9 / 10000) * (694141 / 3000000 - 6941 / 125000 * sqrt 3)
       - 27467 / 750000 * (pi * pi)"
    unfolding near_minor unfolding near_S_entries by (simp add: algebra_simps)
  finally show ?thesis .
qed

lemma near_det_pos: "0 < det3 near_S"
proof -
  define A where "A = 694141 / 3000000 - 6941 / 125000 * sqrt 3"
  define p where "p = pi * pi"
  have A: "134 / 1000 < A" "A < 137 / 1000"
    unfolding A_def by (rule near_minor_bounds)+
  have p: "0 < p"
    unfolding p_def by simp
  have "det3 near_S = p * (31 / 108 * A - 27467 / 750000) + 9 / 10000 * A"
    unfolding near_det A_def p_def by (simp add: algebra_simps)
  moreover have "0 < p * (31 / 108 * A - 27467 / 750000)"
    by (rule mult_pos_pos [OF p]) (use A in linarith)
  ultimately show ?thesis
    using A by linarith
qed

text \<open>The variance of \<open>p_y\<close> after the radar update of \<open>near_predicted\<close>:
  \<open>P(1,1) - Tc(1,1)\<^sup>2 * S\<^sup>-\<^sup>1(1,1)\<close>, which is negative.\<close>

lemma near_variance_negative:
  assumes t: "t = 11 / 300 * sqrt 3 * pi"
  shows "1089 / 10000
     - t * (t * ((694141 / 3000000 - 6941 / 125000 * sqrt 3) / det3 near_S)) < 0"
proof -
  define A where "A = 694141 / 3000000 - 6941 / 125000 * sqrt 3"
  define p where "p = pi * pi"
  define D where "D = det3 near_S"
  have A: "134 / 1000 < A" "A < 137 / 1000"
    unfolding A_def by (rule near_minor_bounds)+
  have "3 < pi"
    using pi_gt_31 by linarith
  then have "3 * 3 < pi * pi"
    by (intro mult_strict_mono) simp_all
  then have p: "9 < p"
    unfolding p_def by simp
  have D: "0 < D"
    unfolding D_def by (rule near_det_pos)
  have Deq: "D = p * (31 / 108 * A - 27467 / 750000) + 9 / 10000 * A"
    unfolding D_def near_det A_def p_def by (simp add: algebra_simps)
  have "t * t = 11 / 300 * (11 / 300) * ((sqrt 3 * sqrt 3) * (pi * pi))"
    unfolding t by (simp only: mult_ac)
  also have "\<dots> = 121 / 30000 * p"
    by (simp add: p_def)
  finally have tt: "t * t = 121 / 30000 * p" .
  define X where "X = p * (27467 / 750000 - A / 4)"
  have "9 * (27467 / 750000 - A / 4) < X"
    unfolding X_def by (rule mult_strict_right_mono [OF p]) (use A in linarith)
  then have "9 / 10000 * A < X"
    using A by (simp add: algebra_simps)
  then have "1089 / 10000 * D < 121 / 30000 * p * A"
    unfolding Deq X_def by (simp add: algebra_simps)
  then have "1089 / 10000 < 121 / 30000 * p * A / D"
    using D by (simp add: pos_less_divide_eq)
  moreover have "t * (t * (A / D)) = 121 / 30000 * p * A / D"
    unfolding tt [symmetric] by simp
  ultimately show ?thesis
    unfolding A_def [symmetric] D_def [symmetric] by simp
qed

lemma near_inverse:
  "\<exists>Si. inverse3 near_S = Some Si
      \<and> Si ! 1 ! 1 = (694141 / 3000000 - 6941 / 125000 * sqrt 3) / det3 near_S"
proof -
  from near_det_pos have "det3 near_S \<noteq> 0"
    by simp
  then obtain Si where Si: "inverse3 near_S = Some Si"
    using inverse3_None [of near_S] by (cases "inverse3 near_S") simp_all
  have "Si ! 1 ! 1 = (near_S ! 0 ! 0 * near_S ! 2 ! 2 - near_S ! 0 ! 2 * near_S ! 2 ! 0) / det3 near_S"
    by (subst inverse3_Some(2) [OF Si]) simp
  then show ?thesis
    using Si unfolding near_minor by blast
qed

lemma near_radar_update:
  assumes "length (raw_measurements_m m) = 3"
  shows "\<exists>s'. UpdateRadar m near_predicted = Returns s' \<and> P_m s' ! 1 ! 1 < 0"
proof -
  note lZ = near_Zsig_sized [THEN sized_length]
  obtain Si where Si: "inverse3 near_S = Some Si"
    and Si11: "Si ! 1 ! 1 = (694141 / 3000000 - 6941 / 125000 * sqrt 3) / det3 near_S"
    using near_inverse by blast
  let ?Tc = "cross_correlation near_predicted near_Zsig near_z_pred"
  let ?s' = "near_predicted\<lparr>x_m := vec_add (x_m near_predicted)
                      (mat_vec (mat_mul ?Tc Si)
                         (normalized_difference 1 (raw_measurements_m m) near_z_pred)),
                    P_m := mat_sub (P_m near_predicted)
                      (mat_mul (mat_mul (mat_mul ?Tc Si) near_S)
                         (mat_transpose (mat_mul ?Tc Si)))\<rparr>"
  have r: "UpdateRadar m near_predicted = Returns ?s'"
    unfolding UpdateRadar_Returns
    using assms Si
    by (simp add: near_project near_predicted_measurement near_innovation_covariance near_z_length)
  have inv: "inverse3 (innovation_covariance near_predicted near_Zsig near_z_pred) = Some Si"
    using Si by (simp add: near_innovation_covariance)
  have "P_m ?s' ! 1 ! 1
      = P_m near_predicted ! 1 ! 1 - (\<Sum>l<3. ?Tc ! 1 ! l * (\<Sum>a<3. ?Tc ! 1 ! a * Si ! a ! l))"
    using radar_P_nth [OF configured_near_predicted lZ near_z_length inv, of 1 1]
    by (simp add: near_innovation_covariance)
  also have "\<dots> = 1089 / 10000 - ?Tc ! 1 ! 1 * (?Tc ! 1 ! 1 * Si ! 1 ! 1)"
    using near_cross_correlation(1,3) by (simp add: sum3 near_predicted_fields)
  also have "\<dots> < 0"
    unfolding Si11 by (rule near_variance_negative [OF near_cross_correlation(2)])
  finally show ?thesis
    using r by blast
qed

subsection \<open>The loops that write the sigma points\<close>

lemma nth_set_col:
  "sized r c M \<Longrightarrow> length v = r \<Longrightarrow> a < r \<Longrightarrow> b < c \<Longrightarrow>
   set_col M j v ! a ! b = (if b = j then v ! a else M ! a ! b)"
  by (simp add: set_col_def sized_def)

text \<open>The loop of \<^verbatim>\<open>SigmaPointsPrediction\<close> writes column \<open>i\<close> at step \<open>i\<close>.\<close>

lemma fold_set_col_nth:
  assumes "sized r c X" and "\<And>i. length (g i) = r" and "a < r" and "b < c"
  shows "fold (\<lambda>i X. set_col X i (g i)) [0..<n] X ! a ! b = (if b < n then g b ! a else X ! a ! b)"
proof (induction n)
  case 0
  show ?case by simp
next
  case (Suc n)
  have sz: "sized r c (fold (\<lambda>i X. set_col X i (g i)) [0..<n] X)"
    by (rule fold_set_col_sized [OF assms(1,2)])
  show ?case
    using Suc assms(3,4)
    by (auto simp: nth_set_col [OF sz assms(2)] less_Suc_eq)
qed

lemma Xsig_pred_nth:
  assumes "configured s" and "a < 5" and "b < 15"
  shows "Xsig_pred_m (SigmaPointsPrediction Xsig_aug delta_t s) ! a ! b
           = predict_sigma_point delta_t (col Xsig_aug b) ! a"
  using fold_set_col_nth [where n = 15 and g = "\<lambda>i. predict_sigma_point delta_t (col Xsig_aug i)",
      OF configured_fields(18) [OF assms(1)] predict_sigma_point_length assms(2,3)] assms(3)
  by (simp add: SigmaPointsPrediction_def configured_fields(2) [OF assms(1)])



subsection \<open>The Cholesky decomposition and the sigma points\<close>












subsection \<open>The prediction over \<open>-1\<close> s\<close>

lemma near_back_sigma_points:
  "Xsig_pred_m (SigmaPointsPrediction (GenerateSigmaPoints near_filter) (- 1) near_filter) = near_Xsig_back"
  by (simp add: SigmaPointsPrediction_def near_sigma_points configured_fields(2) [OF configured_near]
        upt15 predict_straight predict_at_rest
        set_col_def col_def near_Xsig_pred0 mat_new_def eval_nat_numeral
        near_Xsig_back_def)

lemma near_Xsig_back_sized: "sized 5 15 near_Xsig_back"
  by (simp add: sized_def near_Xsig_back_def)

lemma configured_near_back:
  "configured (SigmaPointsPrediction (GenerateSigmaPoints near_filter) (- 1) near_filter)"
  by (rule SigmaPointsPrediction_configured [OF configured_near])

lemma near_back_weights:
  "weights_m (SigmaPointsPrediction (GenerateSigmaPoints near_filter) (- 1) near_filter)
     = (- 4 / 3) # replicate 14 (1 / 6)"
  by (rule configured_fields(5) [OF configured_near_back])

lemma near_back_mean:
  "predicted_mean (SigmaPointsPrediction (GenerateSigmaPoints near_filter) (- 1) near_filter)
     = [33 / 100, 0, 0, 0, 0]"
  apply (subst vector5 [OF predicted_mean_length [OF configured_near_back]])
  apply (simp add: predicted_mean_nth [OF configured_near_back] near_back_sigma_points
      near_back_weights sum15 near_Xsig_back_def eval_nat_numeral)
  apply (simp add: field_simps)
  done

lemma near_back_covariance:
  "predicted_covariance (SigmaPointsPrediction (GenerateSigmaPoints near_filter) (- 1) near_filter)
      [33 / 100, 0, 0, 0, 0]
     = [[21089 / 10000, 0, - 3, 0, 0],
        [0, 1089 / 10000, 0, 0, 0],
        [- 3, 0, 5, 0, 0],
        [0, 0, 0, 3, - 3],
        [0, 0, 0, - 3, 5]]"
  apply (subst matrix55 [OF predicted_covariance_sized [OF configured_near_back]])
   apply simp
  apply (simp add: predicted_covariance_nth [OF configured_near_back] near_back_sigma_points
      near_back_weights sum15 x_diff_of_nth [where n = 5] near_Xsig_back_sized [THEN sized_length]
      near_Xsig_back_def sqrt3_angles normalize_angle_0 eval_nat_numeral)
  done

subsection \<open>The prediction from \<open>flipped_filter\<close>\<close>















subsection \<open>Coefficients of the lidar update\<close>

lemma nth_mat_vec:
  "sized r c A \<Longrightarrow> i < r \<Longrightarrow> mat_vec A v ! i = (\<Sum>k<c. A ! i ! k * v ! k)"
  by (simp add: mat_vec_def dot_def sized_def)

text \<open>The lidar update with an invertible innovation covariance, coefficient by coefficient.\<close>

lemma UpdateLidar_result:
  assumes conf: "configured s" and len: "length (raw_measurements_m m) = 2"
    and det: "det2 (lidar_S s) \<noteq> 0"
  shows "\<exists>s' Si. UpdateLidar m s = Returns s' \<and> inverse2 (lidar_S s) = Some Si
           \<and> Xsig_pred_m s' = Xsig_pred_m s \<and> time_us_m s' = time_us_m s
           \<and> is_initialized_m s' = is_initialized_m s
           \<and> use_laser_m s' = use_laser_m s \<and> use_radar_m s' = use_radar_m s
           \<and> (\<forall>i<5. x_m s' ! i = x_m s ! i
                  + ((P_m s ! i ! 0 * Si ! 0 ! 0 + P_m s ! i ! Suc 0 * Si ! Suc 0 ! 0)
                       * (raw_measurements_m m ! 0 - x_m s ! 0)
                     + (P_m s ! i ! 0 * Si ! 0 ! Suc 0 + P_m s ! i ! Suc 0 * Si ! Suc 0 ! Suc 0)
                       * (raw_measurements_m m ! Suc 0 - x_m s ! Suc 0)))
           \<and> (\<forall>i<5. \<forall>j<5. P_m s' ! i ! j = P_m s ! i ! j
                  - ((P_m s ! i ! 0 * Si ! 0 ! 0 + P_m s ! i ! Suc 0 * Si ! Suc 0 ! 0) * P_m s ! 0 ! j
                     + (P_m s ! i ! 0 * Si ! 0 ! Suc 0 + P_m s ! i ! Suc 0 * Si ! Suc 0 ! Suc 0)
                       * P_m s ! Suc 0 ! j))"
proof -
  note c = configured_fields [OF conf]
  let ?H = "[[1, 0, 0, 0, 0], [0, 1, 0, 0, 0::real]]"
  from det obtain Si where Si: "inverse2 (lidar_S s) = Some Si"
    using inverse2_None [of "lidar_S s"] by (cases "inverse2 (lidar_S s)") simp_all
  let ?K = "mat_mul (mat_mul (P_m s) (mat_transpose (Lidar_H_m s))) Si"
  let ?y = "vec_sub (raw_measurements_m m) (mat_vec (Lidar_H_m s) (x_m s))"
  let ?s' = "s\<lparr>x_m := vec_add (x_m s) (mat_vec ?K ?y),
               P_m := mat_mul (mat_sub (mat_identity (n_x_m s)) (mat_mul ?K (Lidar_H_m s))) (P_m s)\<rparr>"
  have l: "length (raw_measurements_m m) = length (mat_vec (Lidar_H_m s) (x_m s))"
    by (simp add: len c(13) mat_vec_def)
  have r: "UpdateLidar m s = Returns ?s'"
    unfolding UpdateLidar_Returns using l Si by blast
  have szt: "sized 5 2 (mat_transpose ?H)"
    by (rule sized_mat_transpose [OF sized_Lidar_H]) simp
  have szPHt: "sized 5 2 (mat_mul (P_m s) (mat_transpose ?H))"
    by (rule sized_mat_mul [OF c(17) szt]) simp
  have szK: "sized 5 2 (mat_mul (mat_mul (P_m s) (mat_transpose ?H)) Si)"
    by (rule sized_mat_mul [OF szPHt inverse2_sized [OF Si]]) simp
  have K: "mat_mul (mat_mul (P_m s) (mat_transpose ?H)) Si ! i ! a
           = P_m s ! i ! 0 * Si ! 0 ! a + P_m s ! i ! Suc 0 * Si ! Suc 0 ! a" if "i < 5" "a < 2" for i a
    using that
    by (simp add: nth_mat_mul [OF szPHt inverse2_sized [OF Si]] sum2 times_Lidar_Ht [OF c(17)])
  have Hx: "mat_vec ?H (x_m s) = [x_m s ! 0, x_m s ! Suc 0]"
    using c(16) by (simp add: mat_vec_def dot_def sum5)
  have y: "vec_sub (raw_measurements_m m) (mat_vec ?H (x_m s)) ! k
        = raw_measurements_m m ! k - x_m s ! k" if "k < 2" for k
    using that len less2_cases [OF that] by (auto simp: Hx nth_vec_sub)
  have x: "x_m ?s' ! i = x_m s ! i
                  + ((P_m s ! i ! 0 * Si ! 0 ! 0 + P_m s ! i ! Suc 0 * Si ! Suc 0 ! 0)
                       * (raw_measurements_m m ! 0 - x_m s ! 0)
                     + (P_m s ! i ! 0 * Si ! 0 ! Suc 0 + P_m s ! i ! Suc 0 * Si ! Suc 0 ! Suc 0)
                       * (raw_measurements_m m ! Suc 0 - x_m s ! Suc 0))" if "i < 5" for i
    using that
    by (simp add: c(13) nth_vec_add c(16) length_mat_vec sized_length [OF szK]
          nth_mat_vec [OF szK] sum2 K y)
  have P: "P_m ?s' ! i ! j = P_m s ! i ! j
                  - ((P_m s ! i ! 0 * Si ! 0 ! 0 + P_m s ! i ! Suc 0 * Si ! Suc 0 ! 0) * P_m s ! 0 ! j
                     + (P_m s ! i ! 0 * Si ! 0 ! Suc 0 + P_m s ! i ! Suc 0 * Si ! Suc 0 ! Suc 0)
                       * P_m s ! Suc 0 ! j)" if "i < 5" "j < 5" for i j
    using lidar_P_nth [OF conf Si that] by simp
  show ?thesis
    using r Si x P by (intro exI [of _ ?s'] exI [of _ Si]) simp
qed

subsection \<open>The lidar update after the two predictions\<close>

lemma near_back_moved:
  "SigmaPointsPrediction (GenerateSigmaPoints near_filter) (- 1) near_filter
     = near_filter\<lparr>Xsig_pred_m := near_Xsig_back\<rparr>"
  using near_back_sigma_points by (simp add: SigmaPointsPrediction_def)

lemma near_back_Prediction: "Prediction (- 1) near_filter = near_rewound"
  unfolding Prediction_def PredictMeanAndCovariance_def Let_def near_back_mean near_back_covariance
  by (simp add: near_back_moved near_rewound_def)

lemma configured_near_rewound: "configured near_rewound"
  using Prediction_configured(1) [OF configured_near, of "- 1"] by (simp add: near_back_Prediction)

lemma near_rewound_fields:
  "x_m near_rewound = [33 / 100, 0, 0, 0, 0]"
  "P_m near_rewound = [[21089 / 10000, 0, - 3, 0, 0],
               [0, 1089 / 10000, 0, 0, 0],
               [- 3, 0, 5, 0, 0],
               [0, 0, 0, 3, - 3],
               [0, 0, 0, - 3, 5]]"
  "Xsig_pred_m near_rewound = near_Xsig_back"
  "is_initialized_m near_rewound" "use_laser_m near_rewound" "use_radar_m near_rewound"
  by (simp_all add: near_rewound_def near_fields)

text \<open>The lidar update of the record \<open>[33 / 100, 0]\<close> after the prediction over \<open>-1\<close> s.\<close>

lemma near_rewound_lidar:
  assumes "raw_measurements_m m = [33 / 100, 0]"
  shows "\<exists>s'. UpdateLidar m (near_rewound\<lparr>time_us_m := t\<rparr>) = Returns s'
           \<and> time_us_m s' = t \<and> Xsig_pred_m s' = near_Xsig_back
           \<and> x_m s' ! 0 = 33 / 100 \<and> x_m s' ! 2 = 0
           \<and> P_m s' ! 0 ! 0 = 189801 / 8525600 \<and> P_m s' ! 0 ! 2 = - (675 / 21314)
           \<and> P_m s' ! 2 ! 2 = 8285 / 10657"
proof -
  let ?s = "near_rewound\<lparr>time_us_m := t\<rparr>"
  have conf: "configured ?s"
    by (rule configured_time_us [OF configured_near_rewound])
  have P: "P_m ?s = [[21089 / 10000, 0, - 3, 0, 0],
               [0, 1089 / 10000, 0, 0, 0],
               [- 3, 0, 5, 0, 0],
               [0, 0, 0, 3, - 3],
               [0, 0, 0, - 3, 5]]" and x: "x_m ?s = [33 / 100, 0, 0, 0, 0]"
    by (simp_all add: near_rewound_fields)
  have S: "lidar_S ?s ! 0 ! 0 = 21314 / 10000" "lidar_S ?s ! 0 ! Suc 0 = 0"
    "lidar_S ?s ! Suc 0 ! 0 = 0" "lidar_S ?s ! Suc 0 ! Suc 0 = 1314 / 10000"
    using lidar_S_nth [OF conf, of 0 0] lidar_S_nth [OF conf, of 0 "Suc 0"]
      lidar_S_nth [OF conf, of "Suc 0" 0] lidar_S_nth [OF conf, of "Suc 0" "Suc 0"]
    by (simp_all add: P)
  have det: "det2 (lidar_S ?s) \<noteq> 0"
    by (simp add: det2_def S)
  have len: "length (raw_measurements_m m) = 2"
    by (simp add: assms)
  from UpdateLidar_result [OF conf len det] obtain s' Si
    where r: "UpdateLidar m ?s = Returns s'" and Si: "inverse2 (lidar_S ?s) = Some Si"
      and X: "Xsig_pred_m s' = Xsig_pred_m ?s" and t: "time_us_m s' = time_us_m ?s"
      and xs: "\<forall>i<5. x_m s' ! i = x_m ?s ! i
                  + ((P_m ?s ! i ! 0 * Si ! 0 ! 0 + P_m ?s ! i ! Suc 0 * Si ! Suc 0 ! 0)
                       * (raw_measurements_m m ! 0 - x_m ?s ! 0)
                     + (P_m ?s ! i ! 0 * Si ! 0 ! Suc 0 + P_m ?s ! i ! Suc 0 * Si ! Suc 0 ! Suc 0)
                       * (raw_measurements_m m ! Suc 0 - x_m ?s ! Suc 0))"
      and Ps: "\<forall>i<5. \<forall>j<5. P_m s' ! i ! j = P_m ?s ! i ! j
                  - ((P_m ?s ! i ! 0 * Si ! 0 ! 0 + P_m ?s ! i ! Suc 0 * Si ! Suc 0 ! 0) * P_m ?s ! 0 ! j
                     + (P_m ?s ! i ! 0 * Si ! 0 ! Suc 0 + P_m ?s ! i ! Suc 0 * Si ! Suc 0 ! Suc 0)
                       * P_m ?s ! Suc 0 ! j)"
    by blast
  note i = inverse2_Some(2-5) [OF Si, unfolded S]
  have "x_m s' ! 0 = 33 / 100" "x_m s' ! 2 = 0"
    using xs [rule_format, of 0] xs [rule_format, of 2] unfolding P x assms by simp_all
  moreover have "P_m s' ! 0 ! 0 = 189801 / 8525600" "P_m s' ! 0 ! 2 = - (675 / 21314)"
    "P_m s' ! 2 ! 2 = 8285 / 10657"
    using Ps [rule_format, of 0 0] Ps [rule_format, of 0 2] Ps [rule_format, of 2 2]
    unfolding P i by simp_all
  ultimately show ?thesis
    using r X t by (simp add: near_rewound_fields)
qed




subsection \<open>When the projection of the sigma points is defined\<close>

lemma fold_projection_Indeterminate:
  "fold (\<lambda>i acc. and_then acc (\<lambda>Zsig. and_then (radar_projection (g i)) (\<lambda>z. Returns (set_col Zsig i z))))
     is (Indeterminate e) = Indeterminate e"
  by (induction "is") (simp_all add: and_then_def)

lemma fold_projection_Returns_iff:
  "(\<exists>Z. fold (\<lambda>i acc. and_then acc (\<lambda>Zsig. and_then (radar_projection (g i)) (\<lambda>z. Returns (set_col Zsig i z))))
          is (Returns Z0) = Returns Z)
   \<longleftrightarrow> (\<forall>i\<in>set is. \<exists>z. radar_projection (g i) = Returns z)"
proof (induction "is" arbitrary: Z0)
  case Nil
  show ?case by simp
next
  case (Cons i "is")
  let ?f = "\<lambda>i acc. and_then acc (\<lambda>Zsig. and_then (radar_projection (g i)) (\<lambda>z. Returns (set_col Zsig i z)))"
  show ?case
  proof (cases "radar_projection (g i)")
    case (Returns z)
    have h: "?f i (Returns Z0) = Returns (set_col Z0 i z)"
      by (simp add: and_then_def Returns)
    have "fold ?f (i # is) (Returns Z0) = fold ?f is (Returns (set_col Z0 i z))"
      unfolding fold_Cons comp_apply h ..
    then show ?thesis
      using Cons.IH [of "set_col Z0 i z"] Returns by simp
  next
    case (Indeterminate e)
    have h: "?f i (Returns Z0) = Indeterminate e"
      by (simp add: and_then_def Indeterminate)
    have "fold ?f (i # is) (Returns Z0) = Indeterminate e"
      unfolding fold_Cons comp_apply h by (rule fold_projection_Indeterminate)
    then show ?thesis
      using Indeterminate by simp
  qed
qed

lemma radar_projection_Returns:
  "(\<exists>z. radar_projection c = Returns z) \<longleftrightarrow> c ! 0 \<noteq> 0 \<or> c ! 1 \<noteq> 0"
  by (simp add: radar_projection_def Let_def range_zero_iff)

lemma project_sigma_points_Returns_iff:
  assumes "configured s"
  shows "(\<exists>Zsig. project_sigma_points s = Returns Zsig)
         \<longleftrightarrow> (\<forall>i<15. Xsig_pred_m s ! 0 ! i \<noteq> 0 \<or> Xsig_pred_m s ! 1 ! i \<noteq> 0)"
proof -
  note c = configured_fields [OF assms]
  have l: "length (Xsig_pred_m s) = 5"
    by (rule sized_length [OF c(18)])
  have e: "col (Xsig_pred_m s) i ! 0 = Xsig_pred_m s ! 0 ! i"
    "col (Xsig_pred_m s) i ! 1 = Xsig_pred_m s ! 1 ! i" for i
    by (simp_all add: col_def l)
  show ?thesis
    unfolding project_sigma_points_def fold_projection_Returns_iff radar_projection_Returns e
    by (auto simp: c(2))
qed

subsection \<open>When the two updates are defined\<close>

lemma UpdateLidar_Returns_iff:
  assumes conf: "configured s" and len: "length (raw_measurements_m m) = 2"
  shows "(\<exists>s'. UpdateLidar m s = Returns s') \<longleftrightarrow> det2 (lidar_S s) \<noteq> 0"
    and "det2 (lidar_S s) = 0 \<Longrightarrow> UpdateLidar m s = Indeterminate Singular_inverse"
proof -
  have l: "length (raw_measurements_m m) = length (mat_vec (Lidar_H_m s) (x_m s))"
    by (simp add: len configured_fields(13) [OF conf] mat_vec_def)
  show "(\<exists>s'. UpdateLidar m s = Returns s') \<longleftrightarrow> det2 (lidar_S s) \<noteq> 0"
    unfolding UpdateLidar_Returns using l inverse2_None [of "lidar_S s"] by auto
  show "det2 (lidar_S s) = 0 \<Longrightarrow> UpdateLidar m s = Indeterminate Singular_inverse"
    using l by (simp add: UpdateLidar_def Let_def inverse2_None [symmetric])
qed

lemma UpdateRadar_Returns_iff:
  assumes conf: "configured s" and len: "length (raw_measurements_m m) = 3"
    and Z: "project_sigma_points s = Returns Zsig"
  shows "(\<exists>s'. UpdateRadar m s = Returns s')
         \<longleftrightarrow> det3 (innovation_covariance s Zsig (predicted_measurement s Zsig)) \<noteq> 0"
    and "det3 (innovation_covariance s Zsig (predicted_measurement s Zsig)) = 0
         \<Longrightarrow> UpdateRadar m s = Indeterminate Singular_inverse"
proof -
  have l: "length (raw_measurements_m m) = length (predicted_measurement s Zsig)"
    by (simp add: len predicted_measurement_length [OF conf project_sigma_points_sized [OF conf Z]])
  show "(\<exists>s'. UpdateRadar m s = Returns s')
         \<longleftrightarrow> det3 (innovation_covariance s Zsig (predicted_measurement s Zsig)) \<noteq> 0"
    unfolding UpdateRadar_Returns
    using l Z inverse3_None [of "innovation_covariance s Zsig (predicted_measurement s Zsig)"]
    by auto
  show "det3 (innovation_covariance s Zsig (predicted_measurement s Zsig)) = 0
         \<Longrightarrow> UpdateRadar m s = Indeterminate Singular_inverse"
    using Z by (simp add: UpdateRadar_def and_then_def Let_def inverse3_None [symmetric])
qed

text \<open>Neither update reads the reference time.\<close>

lemma UpdateRadar_at_time:
  "UpdateRadar m (s\<lparr>time_us_m := t\<rparr>)
     = (case UpdateRadar m s of Returns s' \<Rightarrow> Returns (s'\<lparr>time_us_m := t\<rparr>)
        | Indeterminate e \<Rightarrow> Indeterminate e)"
proof -
  have p: "project_sigma_points (s\<lparr>time_us_m := t\<rparr>) = project_sigma_points s"
    by (simp add: project_sigma_points_def)
  have z: "predicted_measurement (s\<lparr>time_us_m := t\<rparr>) Z = predicted_measurement s Z" for Z
    by (simp add: predicted_measurement_def)
  have S: "innovation_covariance (s\<lparr>time_us_m := t\<rparr>) Z v = innovation_covariance s Z v" for Z v
    by (simp add: innovation_covariance_def)
  have T: "cross_correlation (s\<lparr>time_us_m := t\<rparr>) Z v = cross_correlation s Z v" for Z v
    by (simp add: cross_correlation_def)
  show ?thesis
    by (simp add: UpdateRadar_def p z S T and_then_def Let_def split: outcome.splits option.splits)
qed

text \<open>The prediction reads neither of the two flags.\<close>

lemma Prediction_flags:
  "Prediction delta_t (s\<lparr>use_laser_m := a, use_radar_m := b\<rparr>)
     = (Prediction delta_t s)\<lparr>use_laser_m := a, use_radar_m := b\<rparr>"
proof -
  have "augmented_mean (s\<lparr>use_laser_m := a, use_radar_m := b\<rparr>) = augmented_mean s"
    "augmented_covariance (s\<lparr>use_laser_m := a, use_radar_m := b\<rparr>) = augmented_covariance s"
    by (simp_all add: augmented_mean_def augmented_covariance_def cong: if_cong)
  then have "GenerateSigmaPoints (s\<lparr>use_laser_m := a, use_radar_m := b\<rparr>) = GenerateSigmaPoints s"
    by (simp add: GenerateSigmaPoints_def)
  then show ?thesis
    by (simp add: Prediction_def SigmaPointsPrediction_def
          PredictMeanAndCovariance_def predicted_mean_def predicted_covariance_def Let_def)
qed

subsection \<open>Covariances that are, and are not, positive semi-definite\<close>

lemma binary_form_nonneg:
  fixes a b d x y :: real
  assumes "0 < d" and "b * b \<le> a * d"
  shows "0 \<le> a * (x * x) + 2 * b * (x * y) + d * (y * y)"
proof -
  have "0 \<le> (a * d - b * b) * (x * x)"
    using assms(2) mult_nonneg_nonneg [of "a * d - b * b" "x * x"] by simp
  then have "0 \<le> (d * y + b * x) * (d * y + b * x) + (a * d - b * b) * (x * x)"
    by (intro add_nonneg_nonneg) simp_all
  also have "\<dots> = d * (a * (x * x) + 2 * b * (x * y) + d * (y * y))"
    by (simp add: algebra_simps)
  finally show ?thesis
    using assms(1) by (simp add: zero_le_mult_iff)
qed

lemma psd_blocks:
  assumes "0 \<le> c" and "0 < d" and "b * b \<le> a * d" and "0 < g" and "f * f \<le> e * g"
  shows "positive_semidefinite 5 [[a, 0, b, 0, 0], [0, c, 0, 0, 0], [b, 0, d, 0, 0],
                                  [0, 0, 0, e, f], [0, 0, 0, f, g]]"
  unfolding positive_semidefinite_def
proof (intro allI impI)
  fix v :: vector
  assume len: "length v = 5"
  have "quad_form [[a, 0, b, 0, 0], [0, c, 0, 0, 0], [b, 0, d, 0, 0], [0, 0, 0, e, f], [0, 0, 0, f, g]] v
      = (a * (v ! 0 * v ! 0) + 2 * b * (v ! 0 * v ! 2) + d * (v ! 2 * v ! 2))
        + c * (v ! 1 * v ! 1)
        + (e * (v ! 3 * v ! 3) + 2 * f * (v ! 3 * v ! 4) + g * (v ! 4 * v ! 4))"
    by (simp add: quad_form_def len sum5 algebra_simps)
  also have "0 \<le> \<dots>"
  proof -
    have "0 \<le> c * (v ! 1 * v ! 1)"
      using assms(1) mult_nonneg_nonneg [of c "v ! 1 * v ! 1"] by simp
    then show ?thesis
      using binary_form_nonneg [OF assms(2,3), of "v ! 0" "v ! 2"]
        binary_form_nonneg [OF assms(4,5), of "v ! 3" "v ! 4"]
      by linarith
  qed
  finally show "0 \<le> quad_form [[a, 0, b, 0, 0], [0, c, 0, 0, 0], [b, 0, d, 0, 0],
                                [0, 0, 0, e, f], [0, 0, 0, f, g]] v" .
qed

lemma symmetric_blocks:
  "symmetric 5 [[a, 0, b, 0, 0], [0, c, 0, 0, 0], [b, 0, d, 0, 0], [0, 0, 0, e, f], [0, 0, 0, f, g]]"
  by (simp add: symmetric_def eval_nat_numeral All_less_Suc)

lemma near_covariances:
  "symmetric 5 (P_m near_filter)" "positive_semidefinite 5 (P_m near_filter)"
  "symmetric 5 (P_m near_predicted)" "positive_semidefinite 5 (P_m near_predicted)"
proof -
  show "symmetric 5 (P_m near_filter)" "symmetric 5 (P_m near_predicted)"
    unfolding near_fields near_predicted_fields by (rule symmetric_blocks)+
  show "positive_semidefinite 5 (P_m near_filter)"
    unfolding near_fields by (rule psd_blocks) simp_all
  show "positive_semidefinite 5 (P_m near_predicted)"
    unfolding near_predicted_fields by (rule psd_blocks) simp_all
qed

lemma negative_variance_not_psd:
  assumes "P ! 1 ! 1 < 0"
  shows "quad_form P [0, 1, 0, 0, 0] < 0" and "\<not> positive_semidefinite 5 P"
proof -
  show q: "quad_form P [0, 1, 0, 0, 0] < 0"
    using assms by (simp add: quad_form_def sum5)
  show "\<not> positive_semidefinite 5 P"
  proof
    assume "positive_semidefinite 5 P"
    then have "0 \<le> quad_form P [0, 1, 0, 0, 0]"
      by (simp add: positive_semidefinite_def)
    with q show False by simp
  qed
qed


subsection \<open>The factorisation stops at a negative second diagonal coefficient\<close>


subsection \<open>The signed difference of two timestamps\<close>

lemma sint_difference:
  fixes a b :: "64 word"
  assumes "- (2 ^ 63) \<le> sint a - sint b" and "sint a - sint b < 2 ^ 63"
  shows "sint (a - b) = sint a - sint b"
  using assms by (simp add: sint_word_ariths signed_take_bit_int_eq_self)

subsection \<open>The entry point on the example states\<close>

lemma second_radar:
  assumes "length r = 3"
  shows "\<exists>s'. ProcessMeasurement \<lparr>timestamp_m = 2500000, sensor_type_m = RADAR, raw_measurements_m = r\<rparr>
              near_filter
            = ([Call_Prediction (1 / 2), Call_UpdateRadar], Returns s')
          \<and> UpdateRadar \<lparr>timestamp_m = 2500000, sensor_type_m = RADAR, raw_measurements_m = r\<rparr>
               (near_predicted\<lparr>time_us_m := 2500000\<rparr>) = Returns s'
          \<and> P_m s' ! 1 ! 1 < 0 \<and> configured s'"
proof -
  let ?m = "\<lparr>timestamp_m = 2500000, sensor_type_m = RADAR, raw_measurements_m = r\<rparr>"
  obtain s0 where s0: "UpdateRadar ?m near_predicted = Returns s0" and n: "P_m s0 ! 1 ! 1 < 0"
    using near_radar_update [of ?m] assms by auto
  have u: "UpdateRadar ?m (near_predicted\<lparr>time_us_m := 2500000\<rparr>) = Returns (s0\<lparr>time_us_m := 2500000\<rparr>)"
    by (simp add: UpdateRadar_at_time s0)
  have p: "ProcessMeasurement ?m near_filter
      = ([Call_Prediction (1 / 2), Call_UpdateRadar], Returns (s0\<lparr>time_us_m := 2500000\<rparr>))"
    by (simp add: ProcessMeasurement_def Let_def near_fields near_Prediction u)
  have c: "configured (s0\<lparr>time_us_m := 2500000\<rparr>)"
    by (rule ProcessMeasurement_configured [OF configured_near, of ?m]) (simp add: p)
  show ?thesis
    using p u n c by (intro exI [of _ "s0\<lparr>time_us_m := 2500000\<rparr>"]) simp
qed

lemma first_measurement_state:
  assumes conf: "configured s" and len: "2 \<le> length (raw_measurements_m m)"
  shows "first_measurement m (s\<lparr>use_laser_m := ul, use_radar_m := ur\<rparr>) =
     Returns (s\<lparr>use_laser_m := ul, use_radar_m := ur,
                is_initialized_m := True, time_us_m := timestamp_m m,
                x_m := (if sensor_type_m m = LASER
                        then [raw_measurements_m m ! 0, raw_measurements_m m ! 1, 0, 0, 0]
                        else [raw_measurements_m m ! 0 * cos (raw_measurements_m m ! 1),
                              raw_measurements_m m ! 0 * sin (raw_measurements_m m ! 1), 0, 0, 0]),
                P_m := (if sensor_type_m m = LASER
                        then [[225 / 10000, 0, 0, 0, 0],
                              [0, 225 / 10000, 0, 0, 0],
                              [0, 0, 1, 0, 0],
                              [0, 0, 0, 1, 0],
                              [0, 0, 0, 0, 1]]
                        else [[1089 / 10000, 0, 0, 0, 0],
                              [0, 1089 / 10000, 0, 0, 0],
                              [0, 0, 1, 0, 0],
                              [0, 0, 0, 1, 0],
                              [0, 0, 0, 0, 1]])\<rparr>)"
proof -
  note c = configured_fields [OF conf]
  obtain x0 x1 x2 x3 x4 where x: "x_m s = [x0, x1, x2, x3, x4]"
    using vector5 [OF c(16)] by blast
  show ?thesis
    using len by (simp add: first_measurement_def Let_def c(8,9,10,11) x vec_fill_def)
qed



lemma Prediction_sigma_points:
  "Xsig_pred_m (Prediction delta_t s)
     = Xsig_pred_m (SigmaPointsPrediction (GenerateSigmaPoints s) delta_t s)"
  by (simp add: Prediction_def PredictMeanAndCovariance_def Let_def)

lemma update_keeps_sigma_points:
  "UpdateLidar m s = Returns s' \<Longrightarrow> Xsig_pred_m s' = Xsig_pred_m s"
  "UpdateRadar m s = Returns s' \<Longrightarrow> Xsig_pred_m s' = Xsig_pred_m s"
  unfolding UpdateLidar_Returns UpdateRadar_Returns by auto

section \<open>The claims\<close>

text \<open>
  Claim C1, as stated: from a symmetric, positive semi-definite covariance each of the three
  operations that write the covariance leaves it symmetric and positive semi-definite. It
  fails for the radar correction, because the centre weight \<open>-4/3\<close> is negative. A filter
  fresh from the constructor is given the radar record \<open>(0.33, 0, 0)\<close> at 2 s, which
  initialises it with the symmetric, positive semi-definite covariance
  \<open>diag (0.1089, 0.1089, 1, 1, 1)\<close>, and the same record again at 2.5 s. The prediction over
  0.5 s leaves a covariance that is again symmetric and positive semi-definite; three of its
  sigma points lie behind the origin, at bearing \<open>pi\<close>. The radar correction that follows
  returns a covariance whose variance of \<open>p_y\<close> is negative.
\<close>

theorem covariance_updates_lose_positive_semidefiniteness:
  "ProcessMeasurement
       \<lparr>timestamp_m = 2000000, sensor_type_m = RADAR, raw_measurements_m = [33 / 100, 0, 0]\<rparr>
       fresh_filter = ([], Returns near_filter)
   \<and> symmetric 5 (P_m near_filter) \<and> positive_semidefinite 5 (P_m near_filter)
   \<and> Prediction (1 / 2) near_filter = near_predicted
   \<and> symmetric 5 (P_m near_predicted) \<and> positive_semidefinite 5 (P_m near_predicted)
   \<and> (\<exists>s'. ProcessMeasurement
               \<lparr>timestamp_m = 2500000, sensor_type_m = RADAR, raw_measurements_m = [33 / 100, 0, 0]\<rparr>
               near_filter = ([Call_Prediction (1 / 2), Call_UpdateRadar], Returns s')
          \<and> UpdateRadar
               \<lparr>timestamp_m = 2500000, sensor_type_m = RADAR, raw_measurements_m = [33 / 100, 0, 0]\<rparr>
               (near_predicted\<lparr>time_us_m := 2500000\<rparr>) = Returns s'
          \<and> P_m s' ! 1 ! 1 < 0
          \<and> quad_form (P_m s') [0, 1, 0, 0, 0] < 0
          \<and> \<not> positive_semidefinite 5 (P_m s'))"
proof -
  obtain s' where s': "ProcessMeasurement
               \<lparr>timestamp_m = 2500000, sensor_type_m = RADAR, raw_measurements_m = [33 / 100, 0, 0]\<rparr>
               near_filter = ([Call_Prediction (1 / 2), Call_UpdateRadar], Returns s')"
     "UpdateRadar
               \<lparr>timestamp_m = 2500000, sensor_type_m = RADAR, raw_measurements_m = [33 / 100, 0, 0]\<rparr>
               (near_predicted\<lparr>time_us_m := 2500000\<rparr>) = Returns s'"
     "P_m s' ! 1 ! 1 < 0"
    using second_radar [of "[33 / 100, 0, 0]"] by auto
  show ?thesis
    using s' negative_variance_not_psd [OF s'(3)]
    by (intro conjI first_radar near_covariances near_Prediction exI [of _ s']) simp_all
qed

text \<open>
  Claim C1, amended. In a filter set up by the constructor whose covariance is symmetric: the
  recombination of the prediction, alone and at the end of a whole prediction, leaves the
  covariance symmetric. The lidar correction of a two-component measurement returns a state
  with a symmetric covariance when the determinant of its innovation covariance is not 0;
  when the covariance is also positive semi-definite that determinant is not 0, and the
  covariance returned is symmetric and positive semi-definite. The radar correction of a
  three-component measurement, when no predicted sigma point has its position at the origin
  and the determinant of its innovation covariance is not 0, returns a state with a symmetric
  covariance. Outside these conditions the C++ divides by 0, and nothing is claimed. Positive
  semi-definiteness is not claimed after the recombination or after the radar correction.
\<close>

theorem covariance_updates_keep_symmetry:
  "configured s \<and> symmetric 5 (P_m s) \<Longrightarrow>
     symmetric 5 (P_m (PredictMeanAndCovariance s))
     \<and> symmetric 5 (P_m (Prediction delta_t s))
     \<and> (length (raw_measurements_m m) = 2 \<and> det2 (lidar_S s) \<noteq> 0 \<longrightarrow>
          (\<exists>s'. UpdateLidar m s = Returns s' \<and> symmetric 5 (P_m s')))
     \<and> (length (raw_measurements_m m) = 2 \<and> positive_semidefinite 5 (P_m s) \<longrightarrow>
          det2 (lidar_S s) \<noteq> 0
          \<and> (\<exists>s'. UpdateLidar m s = Returns s' \<and> symmetric 5 (P_m s')
                 \<and> positive_semidefinite 5 (P_m s')))
     \<and> (length (raw_measurements_m m') = 3
          \<and> (\<forall>i<15. Xsig_pred_m s ! 0 ! i \<noteq> 0 \<or> Xsig_pred_m s ! 1 ! i \<noteq> 0) \<longrightarrow>
          (\<exists>Zsig. project_sigma_points s = Returns Zsig
             \<and> (det3 (innovation_covariance s Zsig (predicted_measurement s Zsig)) \<noteq> 0 \<longrightarrow>
                  (\<exists>s'. UpdateRadar m' s = Returns s' \<and> symmetric 5 (P_m s')))))"
proof -
  assume a: "configured s \<and> symmetric 5 (P_m s)"
  then have conf: "configured s" and sym: "symmetric 5 (P_m s)"
    by simp_all
  have r: "symmetric 5 (P_m (PredictMeanAndCovariance s))"
    by (rule PredictMeanAndCovariance_symmetric [OF conf])
  have p: "symmetric 5 (P_m (Prediction delta_t s))"
    by (rule Prediction_configured(2) [OF conf])
  have l: "length (raw_measurements_m m) = 2 \<and> det2 (lidar_S s) \<noteq> 0 \<longrightarrow>
          (\<exists>s'. UpdateLidar m s = Returns s' \<and> symmetric 5 (P_m s'))"
  proof
    assume h: "length (raw_measurements_m m) = 2 \<and> det2 (lidar_S s) \<noteq> 0"
    then obtain s' where "UpdateLidar m s = Returns s'"
      using UpdateLidar_Returns_iff(1) [OF conf, of m] by blast
    then show "\<exists>s'. UpdateLidar m s = Returns s' \<and> symmetric 5 (P_m s')"
      using UpdateLidar_symmetric [OF conf sym] by blast
  qed
  have d: "length (raw_measurements_m m) = 2 \<and> positive_semidefinite 5 (P_m s) \<longrightarrow>
          det2 (lidar_S s) \<noteq> 0
          \<and> (\<exists>s'. UpdateLidar m s = Returns s' \<and> symmetric 5 (P_m s')
                 \<and> positive_semidefinite 5 (P_m s'))"
  proof
    assume h: "length (raw_measurements_m m) = 2 \<and> positive_semidefinite 5 (P_m s)"
    then have psd: "positive_semidefinite 5 (P_m s)" and len: "length (raw_measurements_m m) = 2"
      by simp_all
    have nz: "det2 (lidar_S s) \<noteq> 0"
      using lidar_S_det_pos [OF conf psd sym] by (simp add: det2_def)
    obtain s' where s': "UpdateLidar m s = Returns s'" "positive_semidefinite 5 (P_m s')"
      using UpdateLidar_psd [OF conf sym psd len] by blast
    then have "symmetric 5 (P_m s')"
      using UpdateLidar_symmetric [OF conf sym] by blast
    with nz s' show "det2 (lidar_S s) \<noteq> 0
          \<and> (\<exists>s'. UpdateLidar m s = Returns s' \<and> symmetric 5 (P_m s')
                 \<and> positive_semidefinite 5 (P_m s'))"
      by blast
  qed
  have u: "length (raw_measurements_m m') = 3
          \<and> (\<forall>i<15. Xsig_pred_m s ! 0 ! i \<noteq> 0 \<or> Xsig_pred_m s ! 1 ! i \<noteq> 0) \<longrightarrow>
          (\<exists>Zsig. project_sigma_points s = Returns Zsig
             \<and> (det3 (innovation_covariance s Zsig (predicted_measurement s Zsig)) \<noteq> 0 \<longrightarrow>
                  (\<exists>s'. UpdateRadar m' s = Returns s' \<and> symmetric 5 (P_m s'))))"
  proof
    assume h: "length (raw_measurements_m m') = 3
          \<and> (\<forall>i<15. Xsig_pred_m s ! 0 ! i \<noteq> 0 \<or> Xsig_pred_m s ! 1 ! i \<noteq> 0)"
    then obtain Zsig where Z: "project_sigma_points s = Returns Zsig"
      using project_sigma_points_Returns_iff [OF conf] by blast
    have "\<exists>s'. UpdateRadar m' s = Returns s' \<and> symmetric 5 (P_m s')"
      if "det3 (innovation_covariance s Zsig (predicted_measurement s Zsig)) \<noteq> 0"
    proof -
      from that h obtain s' where "UpdateRadar m' s = Returns s'"
        using UpdateRadar_Returns_iff(1) [OF conf _ Z, of m'] by blast
      then show ?thesis
        using UpdateRadar_symmetric [OF conf sym] by blast
    qed
    with Z show "\<exists>Zsig. project_sigma_points s = Returns Zsig
             \<and> (det3 (innovation_covariance s Zsig (predicted_measurement s Zsig)) \<noteq> 0 \<longrightarrow>
                  (\<exists>s'. UpdateRadar m' s = Returns s' \<and> symmetric 5 (P_m s')))"
      by blast
  qed
  show ?thesis
    by (intro conjI r p l d u)
qed

text \<open>The amended claim on the state left by the prediction in the run above, with one lidar
  and one radar measurement; the radar correction changes the covariance.\<close>

theorem covariance_updates_keep_symmetry_witness:
  "configured near_predicted \<and> symmetric 5 (P_m near_predicted)
   \<and> positive_semidefinite 5 (P_m near_predicted)
   \<and> length (raw_measurements_m
        \<lparr>timestamp_m = 2500000, sensor_type_m = LASER, raw_measurements_m = [33 / 100, 0]\<rparr>) = 2
   \<and> det2 (lidar_S near_predicted) \<noteq> 0
   \<and> (\<exists>s'. UpdateLidar
              \<lparr>timestamp_m = 2500000, sensor_type_m = LASER, raw_measurements_m = [33 / 100, 0]\<rparr>
              near_predicted = Returns s'
          \<and> symmetric 5 (P_m s') \<and> positive_semidefinite 5 (P_m s'))
   \<and> length (raw_measurements_m
        \<lparr>timestamp_m = 2500000, sensor_type_m = RADAR, raw_measurements_m = [33 / 100, 0, 0]\<rparr>) = 3
   \<and> \<not> (\<exists>i<15. Xsig_pred_m near_predicted ! 0 ! i = 0 \<and> Xsig_pred_m near_predicted ! 1 ! i = 0)
   \<and> project_sigma_points near_predicted = Returns near_Zsig
   \<and> det3 (innovation_covariance near_predicted near_Zsig
             (predicted_measurement near_predicted near_Zsig)) \<noteq> 0
   \<and> (\<exists>s'. UpdateRadar
              \<lparr>timestamp_m = 2500000, sensor_type_m = RADAR, raw_measurements_m = [33 / 100, 0, 0]\<rparr>
              near_predicted = Returns s'
          \<and> symmetric 5 (P_m s') \<and> P_m s' ! 1 ! 1 \<noteq> P_m near_predicted ! 1 ! 1)
   \<and> symmetric 5 (P_m (PredictMeanAndCovariance near_predicted))
   \<and> symmetric 5 (P_m (Prediction (1 / 2) near_predicted))"
proof -
  let ?l = "\<lparr>timestamp_m = 2500000, sensor_type_m = LASER, raw_measurements_m = [33 / 100, 0]\<rparr>"
  let ?r = "\<lparr>timestamp_m = 2500000, sensor_type_m = RADAR, raw_measurements_m = [33 / 100, 0, 0]\<rparr>"
  have h: "configured near_predicted \<and> symmetric 5 (P_m near_predicted)"
    by (simp add: configured_near_predicted near_covariances)
  note t = covariance_updates_keep_symmetry [OF h, where m = ?l and m' = ?r and delta_t = "1 / 2"]
  have o: "\<forall>i<15. Xsig_pred_m near_predicted ! 0 ! i \<noteq> 0 \<or> Xsig_pred_m near_predicted ! 1 ! i \<noteq> 0"
    using project_sigma_points_Returns_iff [OF configured_near_predicted] near_project by blast
  have d3: "det3 (innovation_covariance near_predicted near_Zsig
             (predicted_measurement near_predicted near_Zsig)) \<noteq> 0"
    using near_det_pos by (simp add: near_predicted_measurement near_innovation_covariance)
  obtain s0 where s0: "UpdateRadar ?r near_predicted = Returns s0" "P_m s0 ! 1 ! 1 < 0"
    using near_radar_update [of ?r] by auto
  have lidar: "det2 (lidar_S near_predicted) \<noteq> 0
     \<and> (\<exists>s'. UpdateLidar ?l near_predicted = Returns s'
          \<and> symmetric 5 (P_m s') \<and> positive_semidefinite 5 (P_m s'))"
    using t near_covariances(4) by simp
  have "\<exists>s'. UpdateRadar ?r near_predicted = Returns s' \<and> symmetric 5 (P_m s')"
    using t o d3 near_project by auto
  with s0 have radar: "\<exists>s'. UpdateRadar ?r near_predicted = Returns s'
          \<and> symmetric 5 (P_m s') \<and> P_m s' ! 1 ! 1 \<noteq> P_m near_predicted ! 1 ! 1"
    by (auto simp: near_predicted_fields)
  have o': "\<not> (\<exists>i<15. Xsig_pred_m near_predicted ! 0 ! i = 0 \<and> Xsig_pred_m near_predicted ! 1 ! i = 0)"
    using o by blast
  show ?thesis
    using h near_covariances(4) lidar o' near_project d3 radar t by simp
qed

text \<open>
  Claim C2. The constructor computes 15 weights: the centre weight
  \<open>lambda / (lambda + n_aug)\<close> followed by 14 spread weights \<open>1 / (2 * (lambda + n_aug))\<close>,
  where \<open>n_aug = 7\<close> and \<open>lambda = 3 - n_aug = -4\<close>; so the centre weight is \<open>-4/3\<close>, each
  spread weight is \<open>1/6\<close>, and the 15 weights sum to exactly 1.
\<close>

theorem weights_at_construction:
  "n_aug_m (UKF_ctor x0 P0 Xsig0 t0) = 7
   \<and> lambda_m (UKF_ctor x0 P0 Xsig0 t0) = 3 - real (n_aug_m (UKF_ctor x0 P0 Xsig0 t0))
   \<and> lambda_m (UKF_ctor x0 P0 Xsig0 t0) = - 4
   \<and> weights_m (UKF_ctor x0 P0 Xsig0 t0)
       = lambda_m (UKF_ctor x0 P0 Xsig0 t0)
           / (lambda_m (UKF_ctor x0 P0 Xsig0 t0) + real (n_aug_m (UKF_ctor x0 P0 Xsig0 t0)))
         # replicate 14 (1 / (2 * (lambda_m (UKF_ctor x0 P0 Xsig0 t0)
                                    + real (n_aug_m (UKF_ctor x0 P0 Xsig0 t0)))))
   \<and> weights_m (UKF_ctor x0 P0 Xsig0 t0) = (- 4 / 3) # replicate 14 (1 / 6)
   \<and> length (weights_m (UKF_ctor x0 P0 Xsig0 t0)) = 15
   \<and> sum_list (weights_m (UKF_ctor x0 P0 Xsig0 t0)) = 1"
  by (simp add: ctor_fields sum_list_replicate)







text \<open>
  Claim C5. The motion model takes the curved path when the magnitude of the yaw rate exceeds
  0.001 and the straight line otherwise, so a yaw rate of exactly 0 takes the straight line;
  and for every position, speed, heading and elapsed time the straight-line position
  \<open>(px + v * cos yaw * dt, py + v * sin yaw * dt)\<close> is the limit of the curved-path position as
  the yaw rate tends to 0.
\<close>

theorem straight_line_is_limit_of_curved_path:
  "((\<lambda>yawd. fst (curved_path px py v yaw yawd delta_t))
      \<longlongrightarrow> fst (straight_line px py v yaw delta_t)) (at 0)
   \<and> ((\<lambda>yawd. snd (curved_path px py v yaw yawd delta_t))
      \<longlongrightarrow> snd (straight_line px py v yaw delta_t)) (at 0)
   \<and> straight_line px py v yaw delta_t = (px + v * cos yaw * delta_t, py + v * sin yaw * delta_t)
   \<and> predict_sigma_point delta_t [px, py, v, yaw, yawd, nu_a, nu_yawdd]
       = [fst (if \<bar>yawd\<bar> > 0.001 then curved_path px py v yaw yawd delta_t
               else straight_line px py v yaw delta_t) + 0.5 * delta_t * delta_t * cos yaw * nu_a,
          snd (if \<bar>yawd\<bar> > 0.001 then curved_path px py v yaw yawd delta_t
               else straight_line px py v yaw delta_t) + 0.5 * delta_t * delta_t * sin yaw * nu_a,
          v + delta_t * nu_a,
          yaw + yawd * delta_t + 0.5 * delta_t * delta_t * nu_yawdd,
          yawd + delta_t * nu_yawdd]
   \<and> predict_sigma_point delta_t [px, py, v, yaw, 0, nu_a, nu_yawdd]
       = [fst (straight_line px py v yaw delta_t) + 0.5 * delta_t * delta_t * cos yaw * nu_a,
          snd (straight_line px py v yaw delta_t) + 0.5 * delta_t * delta_t * sin yaw * nu_a,
          v + delta_t * nu_a,
          yaw + 0 * delta_t + 0.5 * delta_t * delta_t * nu_yawdd,
          0 + delta_t * nu_yawdd]"
proof -
  have x: "((\<lambda>yawd. px + v * ((sin (yaw + yawd * delta_t) - sin yaw) / yawd))
             \<longlongrightarrow> px + v * (cos yaw * delta_t)) (at 0)"
    by (intro tendsto_intros sin_quotient_limit)
  have y: "((\<lambda>yawd. py + v * ((- 1 * cos (yaw + yawd * delta_t) + cos yaw) / yawd))
             \<longlongrightarrow> py + v * (sin yaw * delta_t)) (at 0)"
    by (intro tendsto_intros cos_quotient_limit)
  have p: "predict_sigma_point delta_t [px, py, v, yaw, 0, nu_a, nu_yawdd]
       = [fst (straight_line px py v yaw delta_t) + 0.5 * delta_t * delta_t * cos yaw * nu_a,
          snd (straight_line px py v yaw delta_t) + 0.5 * delta_t * delta_t * sin yaw * nu_a,
          v + delta_t * nu_a,
          yaw + 0 * delta_t + 0.5 * delta_t * delta_t * nu_yawdd,
          0 + delta_t * nu_yawdd]"
    by (simp add: predict_sigma_point_def Let_def straight_line_def)
  have g: "predict_sigma_point delta_t [px, py, v, yaw, yawd, nu_a, nu_yawdd]
       = [fst (if \<bar>yawd\<bar> > 0.001 then curved_path px py v yaw yawd delta_t
               else straight_line px py v yaw delta_t) + 0.5 * delta_t * delta_t * cos yaw * nu_a,
          snd (if \<bar>yawd\<bar> > 0.001 then curved_path px py v yaw yawd delta_t
               else straight_line px py v yaw delta_t) + 0.5 * delta_t * delta_t * sin yaw * nu_a,
          v + delta_t * nu_a,
          yaw + yawd * delta_t + 0.5 * delta_t * delta_t * nu_yawdd,
          yawd + delta_t * nu_yawdd]"
    by (simp add: predict_sigma_point_def Let_def split_beta)
  have l: "((\<lambda>yawd. fst (curved_path px py v yaw yawd delta_t))
      \<longlongrightarrow> fst (straight_line px py v yaw delta_t)) (at 0)"
    using x by (simp add: curved_path_def straight_line_def mult.assoc)
  have r: "((\<lambda>yawd. snd (curved_path px py v yaw yawd delta_t))
      \<longlongrightarrow> snd (straight_line px py v yaw delta_t)) (at 0)"
    using y by (simp add: curved_path_def straight_line_def mult.assoc)
  have d: "straight_line px py v yaw delta_t = (px + v * cos yaw * delta_t, py + v * sin yaw * delta_t)"
    by (simp add: straight_line_def)
  show ?thesis
    by (intro conjI l r d g p)
qed

text \<open>
  Claim C6. After the filter is initialised, a measurement whose sensor type has its fusion
  flag disabled produces no correction: the call invokes the prediction only and leaves the
  predicted state with the new reference time, and neither corrector is invoked. The very
  first measurement (of at least the two components the initialisation reads) initialises
  the filter whatever the two flags are: in a filter set up by the constructor it leaves the
  position read from the record as the mean, the initial covariance of its sensor type, the
  filter marked initialised and the timestamp as the reference time, and the two flags as
  they were.
\<close>

theorem disabled_sensor_is_not_fused:
  "(is_initialized_m s
      \<and> (sensor_type_m m = LASER \<and> \<not> use_laser_m s \<or> sensor_type_m m = RADAR \<and> \<not> use_radar_m s) \<longrightarrow>
      ProcessMeasurement m s =
        ([Call_Prediction (real_of_int (sint (timestamp_m m - time_us_m s)) / 1000000)],
         Returns ((Prediction (real_of_int (sint (timestamp_m m - time_us_m s)) / 1000000) s)
                    \<lparr>time_us_m := timestamp_m m\<rparr>))
      \<and> Call_UpdateLidar \<notin> set (fst (ProcessMeasurement m s))
      \<and> Call_UpdateRadar \<notin> set (fst (ProcessMeasurement m s)))
   \<and> (\<not> is_initialized_m s \<and> 2 \<le> length (raw_measurements_m m) \<longrightarrow>
      (\<exists>s'. ProcessMeasurement m s = ([], Returns s') \<and> is_initialized_m s'
          \<and> time_us_m s' = timestamp_m m
          \<and> ProcessMeasurement m (s\<lparr>use_laser_m := ul, use_radar_m := ur\<rparr>)
              = ([], Returns (s'\<lparr>use_laser_m := ul, use_radar_m := ur\<rparr>))))
   \<and> (configured s \<and> \<not> is_initialized_m s \<and> 2 \<le> length (raw_measurements_m m) \<longrightarrow>
      ProcessMeasurement m (s\<lparr>use_laser_m := ul, use_radar_m := ur\<rparr>)
        = ([], Returns
                 (s\<lparr>use_laser_m := ul, use_radar_m := ur,
                    is_initialized_m := True, time_us_m := timestamp_m m,
                    x_m := (if sensor_type_m m = LASER
                            then [raw_measurements_m m ! 0, raw_measurements_m m ! 1, 0, 0, 0]
                            else [raw_measurements_m m ! 0 * cos (raw_measurements_m m ! 1),
                                  raw_measurements_m m ! 0 * sin (raw_measurements_m m ! 1), 0, 0, 0]),
                    P_m := (if sensor_type_m m = LASER
                            then [[225 / 10000, 0, 0, 0, 0],
                                  [0, 225 / 10000, 0, 0, 0],
                                  [0, 0, 1, 0, 0],
                                  [0, 0, 0, 1, 0],
                                  [0, 0, 0, 0, 1]]
                            else [[1089 / 10000, 0, 0, 0, 0],
                                  [0, 1089 / 10000, 0, 0, 0],
                                  [0, 0, 1, 0, 0],
                                  [0, 0, 0, 1, 0],
                                  [0, 0, 0, 0, 1]])\<rparr>)))"
proof (intro conjI impI)
  assume a: "\<not> is_initialized_m s \<and> 2 \<le> length (raw_measurements_m m)"
  then show "\<exists>s'. ProcessMeasurement m s = ([], Returns s') \<and> is_initialized_m s'
          \<and> time_us_m s' = timestamp_m m
          \<and> ProcessMeasurement m (s\<lparr>use_laser_m := ul, use_radar_m := ur\<rparr>)
              = ([], Returns (s'\<lparr>use_laser_m := ul, use_radar_m := ur\<rparr>))"
    using first_measurement_Returns [where m = m and s = s and ul = ul and ur = ur]
    by (simp add: ProcessMeasurement_def)
next
  assume a: "configured s \<and> \<not> is_initialized_m s \<and> 2 \<le> length (raw_measurements_m m)"
  then show "ProcessMeasurement m (s\<lparr>use_laser_m := ul, use_radar_m := ur\<rparr>)
        = ([], Returns
                 (s\<lparr>use_laser_m := ul, use_radar_m := ur,
                    is_initialized_m := True, time_us_m := timestamp_m m,
                    x_m := (if sensor_type_m m = LASER
                            then [raw_measurements_m m ! 0, raw_measurements_m m ! 1, 0, 0, 0]
                            else [raw_measurements_m m ! 0 * cos (raw_measurements_m m ! 1),
                                  raw_measurements_m m ! 0 * sin (raw_measurements_m m ! 1), 0, 0, 0]),
                    P_m := (if sensor_type_m m = LASER
                            then [[225 / 10000, 0, 0, 0, 0],
                                  [0, 225 / 10000, 0, 0, 0],
                                  [0, 0, 1, 0, 0],
                                  [0, 0, 0, 1, 0],
                                  [0, 0, 0, 0, 1]]
                            else [[1089 / 10000, 0, 0, 0, 0],
                                  [0, 1089 / 10000, 0, 0, 0],
                                  [0, 0, 1, 0, 0],
                                  [0, 0, 0, 1, 0],
                                  [0, 0, 0, 0, 1]])\<rparr>))"
    using first_measurement_state [where m = m and s = s and ul = ul and ur = ur]
    by (simp add: ProcessMeasurement_def)
qed (auto simp: ProcessMeasurement_def Let_def)

text \<open>The claim on the filter of the run shown for C1: initialised, with the radar flag off,
  it is given a radar record; and fresh from the constructor, with both flags off, it is
  given its first record.\<close>

theorem disabled_sensor_is_not_fused_witness:
  "is_initialized_m (near_filter\<lparr>use_laser_m := True, use_radar_m := False\<rparr>)
   \<and> \<not> use_radar_m (near_filter\<lparr>use_laser_m := True, use_radar_m := False\<rparr>)
   \<and> ProcessMeasurement
        \<lparr>timestamp_m = 2500000, sensor_type_m = RADAR, raw_measurements_m = [33 / 100, 0, 0]\<rparr>
        (near_filter\<lparr>use_laser_m := True, use_radar_m := False\<rparr>)
       = ([Call_Prediction (1 / 2)],
          Returns (near_predicted\<lparr>use_laser_m := True, use_radar_m := False, time_us_m := 2500000\<rparr>))
   \<and> configured fresh_filter \<and> \<not> is_initialized_m fresh_filter
   \<and> ProcessMeasurement
        \<lparr>timestamp_m = 2000000, sensor_type_m = RADAR, raw_measurements_m = [33 / 100, 0, 0]\<rparr>
        (fresh_filter\<lparr>use_laser_m := False, use_radar_m := False\<rparr>)
       = ([], Returns (near_filter\<lparr>use_laser_m := False, use_radar_m := False\<rparr>))"
proof -
  let ?m = "\<lparr>timestamp_m = 2500000, sensor_type_m = RADAR, raw_measurements_m = [33 / 100, 0, 0]\<rparr>"
  let ?first = "\<lparr>timestamp_m = 2000000, sensor_type_m = RADAR, raw_measurements_m = [33 / 100, 0, 0]\<rparr>"
  note a = disabled_sensor_is_not_fused
      [where s = "near_filter\<lparr>use_laser_m := True, use_radar_m := False\<rparr>" and m = ?m
         and ul = False and ur = False]
  note b = disabled_sensor_is_not_fused
      [where s = fresh_filter and m = ?first and ul = False and ur = False]
  have p: "Prediction (1 / 2) (near_filter\<lparr>use_laser_m := True, use_radar_m := False\<rparr>)
      = near_predicted\<lparr>use_laser_m := True, use_radar_m := False\<rparr>"
    by (simp add: Prediction_flags near_Prediction)
  have "ProcessMeasurement ?m (near_filter\<lparr>use_laser_m := True, use_radar_m := False\<rparr>)
       = ([Call_Prediction (1 / 2)],
          Returns (near_predicted\<lparr>use_laser_m := True, use_radar_m := False, time_us_m := 2500000\<rparr>))"
    using a by (simp add: near_fields p)
  moreover have "ProcessMeasurement ?first (fresh_filter\<lparr>use_laser_m := False, use_radar_m := False\<rparr>)
       = ([], Returns (near_filter\<lparr>use_laser_m := False, use_radar_m := False\<rparr>))"
    using b configured_fresh by (simp add: fresh_fields near_filter_def)
  ultimately show ?thesis
    by (simp add: near_fields configured_fresh fresh_fields)
qed

text \<open>
  Claim C7. On the first measurement (the filter is not yet initialised), when the record
  comes from the linear position sensor with raw values 1.0 and 2.0, the call leaves the state
  mean \<open>(1.0, 2.0, 0, 0, 0)\<close>, the covariance \<open>diag (0.0225, 0.0225, 1, 1, 1)\<close>, the filter
  marked initialised and the timestamp of the measurement as the reference time.
\<close>

theorem first_laser_measurement_initializes:
  "configured s \<and> \<not> is_initialized_m s \<and> sensor_type_m m = LASER
     \<and> raw_measurements_m m = [1.0, 2.0] \<Longrightarrow>
   (\<exists>s'. ProcessMeasurement m s = ([], Returns s')
      \<and> x_m s' = [1.0, 2.0, 0, 0, 0]
      \<and> P_m s' = [[0.0225, 0, 0, 0, 0],
                  [0, 0.0225, 0, 0, 0],
                  [0, 0, 1, 0, 0],
                  [0, 0, 0, 1, 0],
                  [0, 0, 0, 0, 1]]
      \<and> is_initialized_m s'
      \<and> time_us_m s' = timestamp_m m)"
  by (simp add: ProcessMeasurement_def first_measurement_laser)

text \<open>The claim on a freshly constructed filter.\<close>

theorem first_laser_measurement_initializes_witness:
  "configured (UKF_ctor [7, 7, 7, 7, 7] (mat_new 5 5) (mat_new 5 15) 0)
   \<and> \<not> is_initialized_m (UKF_ctor [7, 7, 7, 7, 7] (mat_new 5 5) (mat_new 5 15) 0)
   \<and> (\<exists>s'. ProcessMeasurement
              \<lparr>timestamp_m = 1477010443000000, sensor_type_m = LASER, raw_measurements_m = [1.0, 2.0]\<rparr>
              (UKF_ctor [7, 7, 7, 7, 7] (mat_new 5 5) (mat_new 5 15) 0) = ([], Returns s')
        \<and> x_m s' = [1.0, 2.0, 0, 0, 0]
        \<and> P_m s' = [[0.0225, 0, 0, 0, 0],
                    [0, 0.0225, 0, 0, 0],
                    [0, 0, 1, 0, 0],
                    [0, 0, 0, 1, 0],
                    [0, 0, 0, 0, 1]]
        \<and> is_initialized_m s'
        \<and> time_us_m s' = 1477010443000000)"
proof -
  have c: "configured (UKF_ctor [7, 7, 7, 7, 7] (mat_new 5 5) (mat_new 5 15) 0)"
    by (rule configured_ctor) (simp_all add: sized_mat_new)
  have n: "\<not> is_initialized_m (UKF_ctor [7, 7, 7, 7, 7] (mat_new 5 5) (mat_new 5 15) 0)"
    by (simp add: UKF_ctor_def Let_def)
  show ?thesis
    using first_laser_measurement_initializes
      [of "UKF_ctor [7, 7, 7, 7, 7] (mat_new 5 5) (mat_new 5 15) 0"
          "\<lparr>timestamp_m = 1477010443000000, sensor_type_m = LASER, raw_measurements_m = [1.0, 2.0]\<rparr>"]
      c n
    by auto
qed

text \<open>
  Claim C8, as stated: a record whose raw-measurement vector has the wrong length for its
  sensor type is rejected by the entry point before any of its components is used. It fails:
  as the first measurement, a lidar record of three components is accepted and its first two
  components become the position.
\<close>

theorem overlong_record_is_accepted:
  "length [1, 2, 3 :: real] \<noteq> 2
   \<and> \<not> is_initialized_m calm_filter
   \<and> ProcessMeasurement \<lparr>timestamp_m = 50000, sensor_type_m = LASER, raw_measurements_m = [1, 2, 3]\<rparr>
        calm_filter
      = ([], Returns (calm_filter\<lparr>is_initialized_m := True, time_us_m := 50000,
                       x_m := [1, 2, 0, 0, 0],
                       P_m := [[225 / 10000, 0, 0, 0, 0],
                               [0, 225 / 10000, 0, 0, 0],
                               [0, 0, 1, 0, 0],
                               [0, 0, 0, 1, 0],
                               [0, 0, 0, 0, 1]]\<rparr>))"
proof -
  have f: "\<not> is_initialized_m calm_filter" "x_m calm_filter = [1, 0, 0, 0, 0]"
    "std_laspx_m calm_filter = 15 / 100" "std_laspy_m calm_filter = 15 / 100"
    by (simp_all add: calm_filter_def UKF_ctor_def Let_def)
  show ?thesis
    by (simp add: ProcessMeasurement_def first_measurement_def Let_def f vec_fill_def)
qed

text \<open>
  Claim C8, amended: the entry point never looks at the length of the raw-measurement vector.
  As the first measurement, every record of at least two components is accepted and
  initialises the filter as its first two components alone would. The member functions the
  entry point invokes do not depend on the raw-measurement vector. In a filter set up by the
  constructor, a vector whose length is not 2 that reaches the lidar update meets Eigen's
  size assertion there.
\<close>

theorem raw_vector_length_is_not_checked:
  "(\<not> is_initialized_m s \<and> 2 \<le> length (raw_measurements_m m) \<longrightarrow>
      (\<exists>s'. ProcessMeasurement m s = ([], Returns s'))
      \<and> ProcessMeasurement (m\<lparr>raw_measurements_m := take 2 (raw_measurements_m m)\<rparr>) s
          = ProcessMeasurement m s)
   \<and> fst (ProcessMeasurement (m\<lparr>raw_measurements_m := r\<rparr>) s) = fst (ProcessMeasurement m s)
   \<and> (configured s \<and> length (raw_measurements_m m) \<noteq> 2 \<longrightarrow>
        UpdateLidar m s = Indeterminate Eigen_assert)"
proof (intro conjI impI)
  assume a: "\<not> is_initialized_m s \<and> 2 \<le> length (raw_measurements_m m)"
  then show "\<exists>s'. ProcessMeasurement m s = ([], Returns s')"
    using first_measurement_Returns [where m = m and s = s and ul = True and ur = True]
    by (auto simp: ProcessMeasurement_def)
  from a show "ProcessMeasurement (m\<lparr>raw_measurements_m := take 2 (raw_measurements_m m)\<rparr>) s
          = ProcessMeasurement m s"
    by (simp add: ProcessMeasurement_def first_measurement_take)
next
  show "fst (ProcessMeasurement (m\<lparr>raw_measurements_m := r\<rparr>) s) = fst (ProcessMeasurement m s)"
    by (simp add: ProcessMeasurement_def Let_def)
next
  assume a: "configured s \<and> length (raw_measurements_m m) \<noteq> 2"
  then show "UpdateLidar m s = Indeterminate Eigen_assert"
    by (simp add: UpdateLidar_def mat_vec_def configured_fields(13))
qed

text \<open>The amended claim on \<open>calm_filter\<close> and a lidar record of three components.\<close>

theorem raw_vector_length_is_not_checked_witness:
  "\<not> is_initialized_m calm_filter
   \<and> 2 \<le> length (raw_measurements_m \<lparr>timestamp_m = 50000, sensor_type_m = LASER, raw_measurements_m = [1, 2, 3]\<rparr>)
   \<and> (\<exists>s'. ProcessMeasurement \<lparr>timestamp_m = 50000, sensor_type_m = LASER, raw_measurements_m = [1, 2, 3]\<rparr>
              calm_filter = ([], Returns s'))
   \<and> ProcessMeasurement \<lparr>timestamp_m = 50000, sensor_type_m = LASER, raw_measurements_m = [1, 2]\<rparr> calm_filter
      = ProcessMeasurement \<lparr>timestamp_m = 50000, sensor_type_m = LASER, raw_measurements_m = [1, 2, 3]\<rparr> calm_filter
   \<and> configured calm_filter
   \<and> UpdateLidar \<lparr>timestamp_m = 50000, sensor_type_m = LASER, raw_measurements_m = [1, 2, 3]\<rparr> calm_filter
      = Indeterminate Eigen_assert"
proof -
  have t: "\<not> is_initialized_m calm_filter"
    by (simp add: calm_filter_def UKF_ctor_def Let_def)
  show ?thesis
    using raw_vector_length_is_not_checked
        [where s = calm_filter
           and m = "\<lparr>timestamp_m = 50000, sensor_type_m = LASER, raw_measurements_m = [1, 2, 3]\<rparr>"
           and r = "[]"]
      t configured_calm
    by simp
qed

text \<open>
  Claim C9, as stated: for a measurement whose timestamp is not later than the reference
  time, the entry point rejects the measurement or clamps the elapsed time to a positive
  minimum, and does not pass the non-positive elapsed time to the prediction. It fails. The
  filter initialised by a radar record at 2 s is given a lidar record stamped 1 s. The
  prediction runs over \<open>-1\<close> s: the sigma point of speed \<open>sqrt 3\<close> is moved backwards, from
  \<open>p_x = 0.33\<close> to \<open>0.33 - sqrt 3\<close>, the sigma point of acceleration \<open>2 * sqrt 3\<close> gets the
  speed \<open>- 2 * sqrt 3\<close>, these sigma points stay in the state, the lidar update is applied to
  the state so predicted, and the reference time goes back to 1 s.
\<close>

theorem negative_elapsed_time_reaches_prediction:
  "ProcessMeasurement
       \<lparr>timestamp_m = 2000000, sensor_type_m = RADAR, raw_measurements_m = [33 / 100, 0, 0]\<rparr>
       fresh_filter = ([], Returns near_filter)
   \<and> is_initialized_m near_filter
   \<and> time_us_m near_filter = 2000000
   \<and> Xsig_pred_m (SigmaPointsPrediction (GenerateSigmaPoints near_filter) (- 1) near_filter)
       = near_Xsig_back
   \<and> Prediction (- 1) near_filter = near_rewound
   \<and> P_m near_rewound ! 0 ! 2 = - 3
   \<and> (\<exists>s'. ProcessMeasurement
               \<lparr>timestamp_m = 1000000, sensor_type_m = LASER, raw_measurements_m = [33 / 100, 0]\<rparr>
               near_filter = ([Call_Prediction (- 1), Call_UpdateLidar], Returns s')
          \<and> time_us_m s' = 1000000
          \<and> Xsig_pred_m s' = near_Xsig_back
          \<and> Xsig_pred_m s' ! 0 ! 3 = 33 / 100 - sqrt 3
          \<and> Xsig_pred_m s' ! 2 ! 6 = - (2 * sqrt 3)
          \<and> P_m s' ! 0 ! 2 = - (675 / 21314))"
proof -
  let ?m = "\<lparr>timestamp_m = 1000000, sensor_type_m = LASER, raw_measurements_m = [33 / 100, 0]\<rparr>"
  obtain s' where u: "UpdateLidar ?m (near_rewound\<lparr>time_us_m := 1000000\<rparr>) = Returns s'"
    and s': "time_us_m s' = 1000000" "Xsig_pred_m s' = near_Xsig_back"
      "P_m s' ! 0 ! 2 = - (675 / 21314)"
    using near_rewound_lidar [of ?m 1000000] by auto
  have pm: "ProcessMeasurement ?m near_filter = ([Call_Prediction (- 1), Call_UpdateLidar], Returns s')"
    by (simp add: ProcessMeasurement_def Let_def near_fields near_back_Prediction u)
  have x: "near_Xsig_back ! 0 ! 3 = 33 / 100 - sqrt 3" "near_Xsig_back ! 2 ! 6 = - (2 * sqrt 3)"
    by (simp_all add: near_Xsig_back_def)
  have e: "\<exists>s'. ProcessMeasurement ?m near_filter
               = ([Call_Prediction (- 1), Call_UpdateLidar], Returns s')
          \<and> time_us_m s' = 1000000
          \<and> Xsig_pred_m s' = near_Xsig_back
          \<and> Xsig_pred_m s' ! 0 ! 3 = 33 / 100 - sqrt 3
          \<and> Xsig_pred_m s' ! 2 ! 6 = - (2 * sqrt 3)
          \<and> P_m s' ! 0 ! 2 = - (675 / 21314)"
    using pm s' x by simp
  have r: "P_m near_rewound ! 0 ! 2 = - 3"
    by (simp add: near_rewound_fields)
  show ?thesis
    by (intro conjI first_radar near_fields(1,2) near_back_sigma_points near_back_Prediction r e)
qed

text \<open>
  Claim C9, amended. Once the filter is initialised the entry point applies no ordering
  policy. The elapsed time it computes is the difference of the two 64-bit timestamps, which
  wraps around, read as a signed number and divided by 1000000; the prediction is run with
  it whatever its sign, and the enabled corrector, if any, is applied to the predicted
  state. When the difference of the timestamps does not overflow, the elapsed time is
  \<open>(timestamp - time_us) / 1000000\<close>, which is zero or negative when the timestamp is not
  later than the reference time. In every state the call leaves without a division by 0 in
  the corrector, the timestamp of the measurement has become the reference time and the
  predicted sigma points are those of this elapsed time.
\<close>

theorem elapsed_time_is_passed_unchecked:
  "is_initialized_m s \<Longrightarrow>
     snd (ProcessMeasurement m s) =
       (if sensor_type_m m = LASER \<and> use_laser_m s
        then UpdateLidar m
               ((Prediction (real_of_int (sint (timestamp_m m - time_us_m s)) / 1000000) s)
                  \<lparr>time_us_m := timestamp_m m\<rparr>)
        else if sensor_type_m m = RADAR \<and> use_radar_m s
        then UpdateRadar m
               ((Prediction (real_of_int (sint (timestamp_m m - time_us_m s)) / 1000000) s)
                  \<lparr>time_us_m := timestamp_m m\<rparr>)
        else Returns
               ((Prediction (real_of_int (sint (timestamp_m m - time_us_m s)) / 1000000) s)
                  \<lparr>time_us_m := timestamp_m m\<rparr>))
     \<and> (\<exists>rest. fst (ProcessMeasurement m s)
               = Call_Prediction (real_of_int (sint (timestamp_m m - time_us_m s)) / 1000000) # rest)
     \<and> (- (2 ^ 63) \<le> sint (timestamp_m m) - sint (time_us_m s)
          \<and> sint (timestamp_m m) - sint (time_us_m s) < 2 ^ 63 \<longrightarrow>
          real_of_int (sint (timestamp_m m - time_us_m s)) / 1000000
            = real_of_int (sint (timestamp_m m) - sint (time_us_m s)) / 1000000
          \<and> (sint (timestamp_m m) \<le> sint (time_us_m s) \<longrightarrow>
                real_of_int (sint (timestamp_m m - time_us_m s)) / 1000000 \<le> 0))
     \<and> (\<forall>s'. snd (ProcessMeasurement m s) = Returns s' \<longrightarrow>
           time_us_m s' = timestamp_m m
           \<and> Xsig_pred_m s'
               = Xsig_pred_m (SigmaPointsPrediction (GenerateSigmaPoints s)
                   (real_of_int (sint (timestamp_m m - time_us_m s)) / 1000000) s))"
proof -
  assume i: "is_initialized_m s"
  let ?dt = "real_of_int (sint (timestamp_m m - time_us_m s)) / 1000000"
  let ?p = "(Prediction ?dt s)\<lparr>time_us_m := timestamp_m m\<rparr>"
  have e: "snd (ProcessMeasurement m s) =
       (if sensor_type_m m = LASER \<and> use_laser_m s then UpdateLidar m ?p
        else if sensor_type_m m = RADAR \<and> use_radar_m s then UpdateRadar m ?p
        else Returns ?p)"
    using i by (simp add: ProcessMeasurement_def Let_def)
  have a: "\<exists>rest. fst (ProcessMeasurement m s) = Call_Prediction ?dt # rest"
    using i by (simp add: ProcessMeasurement_def Let_def)
  have b: "- (2 ^ 63) \<le> sint (timestamp_m m) - sint (time_us_m s)
          \<and> sint (timestamp_m m) - sint (time_us_m s) < 2 ^ 63 \<longrightarrow>
          ?dt = real_of_int (sint (timestamp_m m) - sint (time_us_m s)) / 1000000
          \<and> (sint (timestamp_m m) \<le> sint (time_us_m s) \<longrightarrow> ?dt \<le> 0)"
  proof
    assume "- (2 ^ 63) \<le> sint (timestamp_m m) - sint (time_us_m s)
          \<and> sint (timestamp_m m) - sint (time_us_m s) < 2 ^ 63"
    then have d: "sint (timestamp_m m - time_us_m s) = sint (timestamp_m m) - sint (time_us_m s)"
      using sint_difference [of "timestamp_m m" "time_us_m s"] by blast
    show "?dt = real_of_int (sint (timestamp_m m) - sint (time_us_m s)) / 1000000
          \<and> (sint (timestamp_m m) \<le> sint (time_us_m s) \<longrightarrow> ?dt \<le> 0)"
      unfolding d
    proof (intro conjI impI)
      assume "sint (timestamp_m m) \<le> sint (time_us_m s)"
      then have "sint (timestamp_m m) - sint (time_us_m s) \<le> 0"
        by simp
      then have "real_of_int (sint (timestamp_m m) - sint (time_us_m s)) \<le> 0"
        by (simp only: of_int_le_0_iff)
      then show "real_of_int (sint (timestamp_m m) - sint (time_us_m s)) / 1000000 \<le> 0"
        by (rule divide_nonpos_pos) simp
    qed (rule refl)
  qed
  have c: "\<forall>s'. snd (ProcessMeasurement m s) = Returns s' \<longrightarrow>
           time_us_m s' = timestamp_m m
           \<and> Xsig_pred_m s' = Xsig_pred_m (SigmaPointsPrediction (GenerateSigmaPoints s) ?dt s)"
  proof (intro allI impI)
    fix s'
    assume r: "snd (ProcessMeasurement m s) = Returns s'"
    have t: "time_us_m s' = timestamp_m m"
      by (rule ProcessMeasurement_time_us [OF i r])
    have "Xsig_pred_m s' = Xsig_pred_m ?p"
      using r unfolding e by (auto split: if_splits dest: update_keeps_sigma_points)
    then have "Xsig_pred_m s' = Xsig_pred_m (SigmaPointsPrediction (GenerateSigmaPoints s) ?dt s)"
      by (simp add: Prediction_sigma_points)
    with t show "time_us_m s' = timestamp_m m
           \<and> Xsig_pred_m s' = Xsig_pred_m (SigmaPointsPrediction (GenerateSigmaPoints s) ?dt s)"
      by simp
  qed
  show ?thesis
    by (intro conjI e a b c)
qed

text \<open>The amended claim on the filter of the run above with the lidar flag off, the
  reference time at 2 s and a lidar record stamped 1 s.\<close>

theorem elapsed_time_is_passed_unchecked_witness:
  "is_initialized_m (near_filter\<lparr>use_laser_m := False, use_radar_m := True\<rparr>)
   \<and> - (2 ^ 63) \<le> sint (1000000 :: 64 word) - sint (2000000 :: 64 word)
   \<and> sint (1000000 :: 64 word) - sint (2000000 :: 64 word) < 2 ^ 63
   \<and> sint (1000000 :: 64 word) \<le> sint (2000000 :: 64 word)
   \<and> real_of_int (sint (1000000 - 2000000 :: 64 word)) / 1000000 = - 1
   \<and> ProcessMeasurement
        \<lparr>timestamp_m = 1000000, sensor_type_m = LASER, raw_measurements_m = [33 / 100, 0]\<rparr>
        (near_filter\<lparr>use_laser_m := False, use_radar_m := True\<rparr>)
       = ([Call_Prediction (- 1)],
          Returns (near_rewound\<lparr>use_laser_m := False, use_radar_m := True, time_us_m := 1000000\<rparr>))
   \<and> Xsig_pred_m (near_rewound\<lparr>use_laser_m := False, use_radar_m := True, time_us_m := 1000000\<rparr>)
       = Xsig_pred_m (SigmaPointsPrediction
           (GenerateSigmaPoints (near_filter\<lparr>use_laser_m := False, use_radar_m := True\<rparr>)) (- 1)
           (near_filter\<lparr>use_laser_m := False, use_radar_m := True\<rparr>))"
proof -
  let ?s = "near_filter\<lparr>use_laser_m := False, use_radar_m := True\<rparr>"
  let ?m = "\<lparr>timestamp_m = 1000000, sensor_type_m = LASER, raw_measurements_m = [33 / 100, 0]\<rparr>"
  have i: "is_initialized_m ?s"
    by (simp add: near_fields)
  note t = elapsed_time_is_passed_unchecked [OF i, of ?m]
  have p: "Prediction (- 1) ?s = near_rewound\<lparr>use_laser_m := False, use_radar_m := True\<rparr>"
    by (simp add: Prediction_flags near_back_Prediction)
  have f: "fst (ProcessMeasurement ?m ?s) = [Call_Prediction (- 1)]"
    by (simp add: ProcessMeasurement_def Let_def near_fields)
  have r: "snd (ProcessMeasurement ?m ?s)
      = Returns (near_rewound\<lparr>use_laser_m := False, use_radar_m := True, time_us_m := 1000000\<rparr>)"
    using t by (simp add: near_fields p)
  have pm: "ProcessMeasurement ?m ?s
       = ([Call_Prediction (- 1)],
          Returns (near_rewound\<lparr>use_laser_m := False, use_radar_m := True, time_us_m := 1000000\<rparr>))"
    using f r by (simp add: prod_eq_iff)
  from t have "\<forall>s'. snd (ProcessMeasurement ?m ?s) = Returns s' \<longrightarrow>
           time_us_m s' = timestamp_m ?m
           \<and> Xsig_pred_m s'
               = Xsig_pred_m (SigmaPointsPrediction (GenerateSigmaPoints ?s)
                   (real_of_int (sint (timestamp_m ?m - time_us_m ?s)) / 1000000) ?s)"
    by blast
  from this [rule_format, OF r]
  have x: "Xsig_pred_m (near_rewound\<lparr>use_laser_m := False, use_radar_m := True, time_us_m := 1000000\<rparr>)
       = Xsig_pred_m (SigmaPointsPrediction (GenerateSigmaPoints ?s) (- 1) ?s)"
    by (simp add: near_fields)
  show ?thesis
    using i pm x by simp
qed

text \<open>
  Claim C10. The projection of a predicted sigma point into radar measurement space divides
  by the range \<open>sqrt (p_x * p_x + p_y * p_y)\<close> without a guard. The divisor is 0 exactly when
  the predicted position is the origin: the projection is defined for every sigma point with
  \<open>(p_x, p_y) \<noteq> (0, 0)\<close>, and a sigma point at the origin divides by 0, its bearing being
  \<open>atan2 0 0\<close>.
\<close>

theorem radar_projection_defined_iff:
  "((\<exists>z. radar_projection [p_x, p_y, v, yaw, yawd] = Returns z) \<longleftrightarrow> (p_x, p_y) \<noteq> (0, 0))
   \<and> (sqrt (p_x * p_x + p_y * p_y) = 0 \<longleftrightarrow> (p_x, p_y) = (0, 0))
   \<and> radar_projection [p_x, p_y, v, yaw, yawd]
       = (if (p_x, p_y) = (0, 0) then Indeterminate Zero_range
          else Returns [sqrt (p_x * p_x + p_y * p_y),
                        atan2 p_y p_x,
                        (p_x * (cos yaw * v) + p_y * (sin yaw * v)) / sqrt (p_x * p_x + p_y * p_y)])
   \<and> radar_projection [0, 0, v, yaw, yawd] = Indeterminate Zero_range
   \<and> atan2 0 0 = 0"
proof -
  have r: "radar_projection [p_x, p_y, v, yaw, yawd]
       = (if (p_x, p_y) = (0, 0) then Indeterminate Zero_range
          else Returns [sqrt (p_x * p_x + p_y * p_y),
                        atan2 p_y p_x,
                        (p_x * (cos yaw * v) + p_y * (sin yaw * v)) / sqrt (p_x * p_x + p_y * p_y)])"
    using range_zero_iff [of p_x p_y] by (simp add: radar_projection_def Let_def)
  have e: "(\<exists>z. radar_projection [p_x, p_y, v, yaw, yawd] = Returns z) \<longleftrightarrow> (p_x, p_y) \<noteq> (0, 0)"
    unfolding r by simp
  have z: "radar_projection [0, 0, v, yaw, yawd] = Indeterminate Zero_range"
    by (simp add: radar_projection_def)
  have s: "sqrt (p_x * p_x + p_y * p_y) = 0 \<longleftrightarrow> (p_x, p_y) = (0, 0)"
    using range_zero_iff [of p_x p_y] by simp
  have a: "atan2 0 0 = 0"
    by (simp add: atan2_def)
  show ?thesis
    by (intro conjI e s r z a)
qed

text \<open>The claim at the sigma points \<open>(3, 4, 1, 0, 0)\<close> and \<open>(0, 0, 1, 0, 0)\<close>.\<close>

theorem radar_projection_defined_iff_witness:
  "(3, 4) \<noteq> (0, 0 :: real)
   \<and> (\<exists>z. radar_projection [3, 4, 1, 0, 0] = Returns z)
   \<and> radar_projection [0, 0, 1, 0, 0] = Indeterminate Zero_range"
  using radar_projection_defined_iff [of 3 4 1 0 0] radar_projection_defined_iff [of 0 0 1 0 0]
  by simp

end
